theory Spec2Isabelle
  imports Complex_Main "HOL-Library.Word"
begin

section \<open>Obstacle-stop decision pipeline and arc-length utilities of autoware\_core\<close>

text \<open>
  The development embeds the parts of \<^verbatim>\<open>obstacle_stop_module.cpp\<close> and of the path
  generator's \<^verbatim>\<open>utils.cpp\<close> that the specification talks about.

  Numbers: a C++ \<^verbatim>\<open>double\<close> is modelled as a \<^typ>\<open>real\<close>. Rounding is therefore not
  modelled. Where the source produces an infinity on purpose (\<^verbatim>\<open>calc_estimation_time\<close>)
  the infinity is a constructor of its own; where the source divides, the theorems assume a
  non-zero divisor whenever the value of the quotient matters, because HOL's \<open>x / 0 = 0\<close> is
  not what IEEE arithmetic computes. Concrete inputs use values that doubles represent
  exactly. A \<^verbatim>\<open>uint8_t\<close> label is an \<^typ>\<open>8 word\<close>.

  Library calls whose code is outside the repository (motion\_utils, lanelet2, boost geometry,
  the trajectory container) enter the model as parameters: either as fields of an
  environment record holding the value the call returns, or as function arguments.
\<close>

subsection \<open>Errors and common helpers\<close>

datatype error =
    OutOfRange \<comment> \<open>\<^verbatim>\<open>std::out_of_range\<close> of \<^verbatim>\<open>std::vector::at\<close>\<close>
  | InvalidArgument string \<comment> \<open>\<^verbatim>\<open>std::invalid_argument\<close>\<close>
  | LogicError string \<comment> \<open>\<^verbatim>\<open>std::logic_error\<close>\<close>

type_synonym label = "8 word"

text \<open>The label constants of \<^verbatim>\<open>autoware_perception_msgs/ObjectClassification\<close>.\<close>

definition UNKNOWN :: label where "UNKNOWN = 0"
definition CAR :: label where "CAR = 1"
definition TRUCK :: label where "TRUCK = 2"
definition BUS :: label where "BUS = 3"
definition TRAILER :: label where "TRAILER = 4"
definition MOTORCYCLE :: label where "MOTORCYCLE = 5"
definition BICYCLE :: label where "BICYCLE = 6"
definition PEDESTRIAN :: label where "PEDESTRIAN = 7"

definition is_in_vector :: "'a \<Rightarrow> 'a list \<Rightarrow> bool" where
  "is_in_vector variable vec = (variable \<in> set vec)"

text \<open>\<^verbatim>\<open>std::hypot\<close>.\<close>

definition hypot :: "real \<Rightarrow> real \<Rightarrow> real" where
  "hypot a b = sqrt (a * a + b * b)"

text \<open>A double that may be \<open>+infinity\<close>.\<close>

datatype xdouble = Fin real | PInf

text \<open>
  \<^verbatim>\<open>std::clamp(v, lo, hi)\<close> as the standard library computes it,
  \<^verbatim>\<open>(v < lo) ? lo : (hi < v) ? hi : v\<close>, for finite bounds.
\<close>

fun std_clamp :: "xdouble \<Rightarrow> real \<Rightarrow> real \<Rightarrow> real" where
  "std_clamp (Fin v) lo hi = (if v < lo then lo else if hi < v then hi else v)"
| "std_clamp PInf lo hi = hi"

text \<open>\<^verbatim>\<open>std::numeric_limits<double>::epsilon()\<close>.\<close>

definition double_epsilon :: real where
  "double_epsilon = 1 / 2 ^ 52"

subsection \<open>Predicted objects and the filtering parameters\<close>

text \<open>
  Of a predicted object the model keeps the identifier, the labels of its classification
  vector and the linear part of its initial twist.
\<close>

record PredictedObject =
  object_id :: string
  classification :: "label list"
  twist_linear_x :: real
  twist_linear_y :: real

record ObstacleFilteringParam =
  use_pointcloud :: bool
  inside_stop_object_types :: "label list"
  outside_stop_object_types :: "label list"
  max_lat_margin :: real
  max_lat_margin_against_predicted_object_unknown :: real
  outside_estimation_time_horizon :: real
  outside_pedestrian_deceleration :: real
  outside_bicycle_deceleration :: real
  stop_obstacle_hold_time_threshold :: real

subsection \<open>\<^verbatim>\<open>calc_estimation_time\<close>\<close>

text \<open>The lambda \<^verbatim>\<open>equivalent_estimation_time\<close>.\<close>

definition equivalent_estimation_time :: "PredictedObject \<Rightarrow> real \<Rightarrow> xdouble" where
  "equivalent_estimation_time predicted_object deceleration =
     (if deceleration \<le> double_epsilon then PInf
      else Fin (hypot (twist_linear_x predicted_object) (twist_linear_y predicted_object)
                  * 0.5 / deceleration))"

text \<open>\<^verbatim>\<open>classification.at(0)\<close> throws on an empty vector.\<close>

definition calc_estimation_time ::
  "PredictedObject \<Rightarrow> ObstacleFilteringParam \<Rightarrow> error + real" where
  "calc_estimation_time predicted_object obstacle_filtering_param =
     (case classification predicted_object of
        [] \<Rightarrow> Inl OutOfRange
      | obj_label # _ \<Rightarrow>
          if \<not> is_in_vector obj_label (outside_stop_object_types obstacle_filtering_param)
          then Inr 0
          else if obj_label = PEDESTRIAN then
            Inr (std_clamp
                   (equivalent_estimation_time predicted_object
                      (outside_pedestrian_deceleration obstacle_filtering_param))
                   0 (outside_estimation_time_horizon obstacle_filtering_param))
          else if obj_label = BICYCLE then
            Inr (std_clamp
                   (equivalent_estimation_time predicted_object
                      (outside_bicycle_deceleration obstacle_filtering_param))
                   0 (outside_estimation_time_horizon obstacle_filtering_param))
          else Inr (outside_estimation_time_horizon obstacle_filtering_param))"

subsection \<open>\<^verbatim>\<open>crop_line_string\<close>\<close>

type_synonym point = "real \<times> real"

text \<open>
  The trajectory container (\<^verbatim>\<open>Trajectory<Point>::Builder::build\<close>, \<^verbatim>\<open>crop\<close>,
  \<^verbatim>\<open>restore\<close>) is library code: the three operations are parameters.
\<close>

definition crop_line_string ::
  "(point list \<Rightarrow> 'traj option) \<Rightarrow> ('traj \<Rightarrow> real \<Rightarrow> real \<Rightarrow> 'traj) \<Rightarrow> ('traj \<Rightarrow> point list)
     \<Rightarrow> point list \<Rightarrow> real \<Rightarrow> real \<Rightarrow> point list" where
  "crop_line_string build crop restore line_string s_start s_end =
     (if s_start < 0 then line_string
      else if s_start > s_end then line_string
      else case build line_string of
             None \<Rightarrow> []
           | Some trajectory \<Rightarrow> restore (crop trajectory s_start (s_end - s_start)))"

subsection \<open>\<^verbatim>\<open>ObstacleStopModule::init\<close>\<close>

text \<open>
  The parameters \<^verbatim>\<open>init\<close> reads from the node, after they have been loaded, and the part
  of the module state it sets up. The only \<^verbatim>\<open>throw\<close> of \<^verbatim>\<open>init\<close> is the comparison of the
  point-cloud mask margin with the maximum lateral margin.
\<close>

record NodeParameters =
  ignore_crossing_obstacle_param :: bool
  suppress_sudden_stop_param :: bool
  obstacle_filtering_param_loaded :: ObstacleFilteringParam
  mask_lat_margin :: real
  update_distance_th :: real
  min_off_duration :: real
  min_on_duration :: real

record ModuleInit =
  ignore_crossing_obstacle :: bool
  suppress_sudden_stop :: bool
  obstacle_filtering_param :: ObstacleFilteringParam
  path_length_buffer_args :: "real \<times> real \<times> real"

definition init :: "NodeParameters \<Rightarrow> error + ModuleInit" where
  "init node =
     (if mask_lat_margin node < max_lat_margin (obstacle_filtering_param_loaded node)
      then Inl (InvalidArgument ''point-cloud mask narrower than stop margin'')
      else Inr \<lparr> ignore_crossing_obstacle = ignore_crossing_obstacle_param node,
                 suppress_sudden_stop = suppress_sudden_stop_param node,
                 obstacle_filtering_param = obstacle_filtering_param_loaded node,
                 path_length_buffer_args =
                   (update_distance_th node, min_off_duration node, min_on_duration node) \<rparr>)"

section \<open>The rough filter for predicted objects\<close>

text \<open>
  \<^verbatim>\<open>autoware_perception_msgs/Shape\<close> with its type constants, and the vehicle dimensions
  that the filters use.
\<close>

record Shape =
  shape_type :: "8 word"
  dimensions_x :: real
  dimensions_y :: real
  footprint_points :: "point list"

definition BOUNDING_BOX :: "8 word" where "BOUNDING_BOX = 0"
definition CYLINDER :: "8 word" where "CYLINDER = 1"
definition POLYGON :: "8 word" where "POLYGON = 2"

record VehicleInfo =
  max_longitudinal_offset_m :: real
  min_longitudinal_offset_m :: real
  vehicle_width_m :: real

text \<open>
  \<^verbatim>\<open>PlannerData::Object\<close>: the predicted object, its shape, and the values that its
  methods compute against the trajectory.
\<close>

record PlannerObject =
  predicted_object :: PredictedObject
  object_shape :: Shape
  dist_from_ego_longitudinal :: real
  dist_to_traj_lateral :: real
  lat_vel_relative_to_traj :: real

text \<open>\<^verbatim>\<open>utils::calc_object_possible_max_dist_from_center\<close> throws on an unknown shape type.\<close>

definition calc_object_possible_max_dist_from_center :: "Shape \<Rightarrow> error + real" where
  "calc_object_possible_max_dist_from_center s =
     (if shape_type s = BOUNDING_BOX then Inr (hypot (dimensions_x s / 2) (dimensions_y s / 2))
      else if shape_type s = CYLINDER then Inr (dimensions_x s / 2)
      else if shape_type s = POLYGON then
        Inr (foldl (\<lambda>max_length_to_point rel_point.
                      if max_length_to_point < hypot (fst rel_point) (snd rel_point)
                      then hypot (fst rel_point) (snd rel_point)
                      else max_length_to_point)
               0 (footprint_points s))
      else Inl (LogicError
                  ''The shape type is not supported in motion_velocity_planner_common.''))"

definition calc_possible_min_dist_from_obj_to_traj_poly ::
  "PlannerObject \<Rightarrow> VehicleInfo \<Rightarrow> error + real" where
  "calc_possible_min_dist_from_obj_to_traj_poly object vehicle_info =
     (case calc_object_possible_max_dist_from_center (object_shape object) of
        Inl e \<Rightarrow> Inl e
      | Inr object_possible_max_dist \<Rightarrow>
          Inr (\<bar>dist_to_traj_lateral object\<bar>
               - hypot (max_longitudinal_offset_m vehicle_info) (vehicle_width_m vehicle_info / 2)
               - object_possible_max_dist))"

definition get_max_lat_margin :: "ObstacleFilteringParam \<Rightarrow> label \<Rightarrow> real" where
  "get_max_lat_margin ofp obj_label =
     (if obj_label = UNKNOWN then max_lat_margin_against_predicted_object_unknown ofp
      else max_lat_margin ofp)"

text \<open>
  Step 1 of the loop body of \<^verbatim>\<open>filter_stop_obstacle_for_predicted_object\<close>, run in every
  cycle for every object: \<open>Inr False\<close> when the object is skipped, \<open>Inr True\<close> when it goes on
  to the precise filter, \<open>Inl\<close> when an exception leaves the loop.
\<close>

definition rough_filtering ::
  "ObstacleFilteringParam \<Rightarrow> VehicleInfo \<Rightarrow> PlannerObject \<Rightarrow> error + bool" where
  "rough_filtering ofp vehicle_info object =
     (if dist_from_ego_longitudinal object < 0 then Inr False
      else case calc_possible_min_dist_from_obj_to_traj_poly object vehicle_info of
             Inl e \<Rightarrow> Inl e
           | Inr min_lat_dist_to_traj_poly \<Rightarrow>
               (case classification (predicted_object object) of
                  [] \<Rightarrow> Inl OutOfRange
                | obj_label # _ \<Rightarrow>
                    if get_max_lat_margin ofp obj_label
                         < min_lat_dist_to_traj_poly
                           - max (lat_vel_relative_to_traj object
                                    * outside_estimation_time_horizon ofp) 0
                    then Inr False
                    else Inr True))"

section \<open>The stop-point decision engine\<close>

subsection \<open>Stop obstacles and the planning parameters\<close>

text \<open>
  \<^verbatim>\<open>StopObstacle\<close>, without its pose and shape (they only feed the geometry library).
  The stamp is in seconds. \<open>braking_dist\<close> is present for an RSS stop and absent for a
  fixed stop.
\<close>

record StopObstacle =
  uuid :: string
  stamp :: real
  classification_label :: label
  velocity :: real
  collision_point :: point
  dist_to_collide_on_decimated_traj :: real
  braking_dist :: "real option"

record ObjectTypeSpecificParams =
  limit_min_acc :: real
  sudden_object_acc_threshold :: real
  sudden_object_dist_threshold :: real
  abandon_to_stop :: bool

record RSSParam =
  use_rss_stop :: bool
  two_wheel_objects_deceleration :: real
  vehicle_objects_deceleration :: real
  no_wheel_objects_deceleration :: real
  velocity_offset :: real

text \<open>
  \<^verbatim>\<open>StopPlanningParam\<close>. Its two lookups by classification, \<^verbatim>\<open>get_param_type\<close> and
  \<^verbatim>\<open>get_param\<close>, are declared in a header outside the sources at hand: they are fields.
\<close>

record StopPlanningParam =
  stop_margin :: real
  terminal_stop_margin :: real
  min_behavior_stop_margin :: real
  max_negative_velocity :: real
  stop_margin_opposing_traffic :: real
  effective_deceleration_opposing_traffic :: real
  hold_stop_velocity_threshold :: real
  hold_stop_distance_threshold :: real
  enable_approaching_on_curve :: bool
  min_stop_margin_on_curve :: real
  obstacle_velocity_threshold_enter_fixed_stop :: real
  obstacle_velocity_threshold_exit_fixed_stop :: real
  rss_params :: RSSParam
  get_param_type :: "label \<Rightarrow> string"
  get_param :: "label \<Rightarrow> ObjectTypeSpecificParams"

record CommonParam =
  limit_max_accel :: real
  limit_min_accel :: real

text \<open>
  What the geometric search of \<^verbatim>\<open>calc_margin_from_obstacle_on_curve\<close> finds: a local
  trajectory of fewer than two points, no point of it whose straight projection comes within
  half the vehicle width of the obstacle, the first such point at index 0, or a later one,
  with the margin \<^verbatim>\<open>short_margin_from_obstacle\<close> computed from it.
\<close>

datatype curve_probe =
    ShortTrajectory
  | NoCollision
  | CollisionAtStart
  | CollisionAt real

text \<open>An item of the path-length buffer, as \<^verbatim>\<open>get_nearest_active_item\<close> returns it.\<close>

record BufferedStop =
  buffered_stop_point :: point
  buffered_stop_obstacle :: StopObstacle
  buffered_desired_stop_margin :: real

text \<open>
  The values a planning cycle obtains from the planner data and from library calls on the
  trajectory, and the two operations of the path-length buffer (a class declared outside the
  sources at hand; \<open>'b\<close> is its state).
\<close>

record 'b PlanEnv =
  ego_velocity :: real
    \<comment> \<open>\<^verbatim>\<open>planner_data->current_odometry.twist.twist.linear.x\<close>\<close>
  ego_segment_arc_length :: real
    \<comment> \<open>\<^verbatim>\<open>calcSignedArcLength(traj_points, 0, ego_segment_idx)\<close>\<close>
  ego_position_arc_length :: real
    \<comment> \<open>\<^verbatim>\<open>calcSignedArcLength(traj_points, 0, ego position)\<close>\<close>
  ref_traj_length :: real
    \<comment> \<open>\<^verbatim>\<open>calcSignedArcLength(traj_points, 0, traj_points.size() - 1)\<close>\<close>
  closest_behavior_stop_dist :: "real option"
    \<comment> \<open>arc length of \<^verbatim>\<open>searchZeroVelocityIndex(traj_points, ego_segment_idx + 1)\<close>\<close>
  probe_curve :: "StopObstacle \<Rightarrow> curve_probe"
  diff_dist_front_points :: real
    \<comment> \<open>arc length of the trajectory's front point on the previous output trajectory\<close>
  insert_stop_point :: "real \<Rightarrow> point option"
    \<comment> \<open>\<^verbatim>\<open>insertStopPoint\<close>, then the position of the inserted pose\<close>
  update_buffer :: "'b \<Rightarrow> point option \<Rightarrow> StopObstacle \<Rightarrow> real \<Rightarrow> 'b"
  get_nearest_active_item :: "'b \<Rightarrow> BufferedStop option"

text \<open>The module state that \<^verbatim>\<open>plan_stop\<close> reads and writes.\<close>

record 'b StopState =
  prev_stop_distance_info :: "real option"
  path_length_buffer :: 'b

subsection \<open>Margins\<close>

definition calc_minimum_distance_to_stop :: "real \<Rightarrow> real \<Rightarrow> real \<Rightarrow> real" where
  "calc_minimum_distance_to_stop initial_vel max_acc min_acc =
     (if initial_vel < 0 then - (initial_vel ^ 2) / 2 / max_acc
      else - (initial_vel ^ 2) / 2 / min_acc)"

text \<open>
  The coast-then-brake model of \<^verbatim>\<open>calc_desired_stop_margin\<close>: the quantities of the branch
  for oncoming traffic, each named as in the source.
\<close>

definition braking_distance :: "StopPlanningParam \<Rightarrow> real \<Rightarrow> real" where
  "braking_distance spp v_ego =
     v_ego * v_ego / (2 * effective_deceleration_opposing_traffic spp)"

definition distance_obs_ego_braking :: "StopPlanningParam \<Rightarrow> real \<Rightarrow> real \<Rightarrow> real" where
  "distance_obs_ego_braking spp v_ego v_obs =
     \<bar>v_obs * (v_ego / effective_deceleration_opposing_traffic spp)\<bar>"

definition T_coast :: "StopPlanningParam \<Rightarrow> real \<Rightarrow> StopObstacle \<Rightarrow> real" where
  "T_coast spp v_ego stop_obstacle =
     max ((dist_to_collide_on_decimated_traj stop_obstacle - stop_margin_opposing_traffic spp
             - braking_distance spp v_ego
             + distance_obs_ego_braking spp v_ego (velocity stop_obstacle))
          / (v_ego - velocity stop_obstacle))
         0"

text \<open>The lambda that computes \<^verbatim>\<open>default_stop_margin\<close>.\<close>

definition default_stop_margin ::
  "StopPlanningParam \<Rightarrow> 'b PlanEnv \<Rightarrow> StopObstacle \<Rightarrow> real \<Rightarrow> real" where
  "default_stop_margin spp env stop_obstacle dist_to_collide_on_ref_traj =
     (let v_ego = ego_velocity env; v_obs = velocity stop_obstacle in
      if v_obs < max_negative_velocity spp then
        (let rel_vel = v_ego - v_obs in
         if \<bar>rel_vel\<bar> \<le> 1 / 1000000 then stop_margin spp
         else
           (let stopping_distance = v_ego * T_coast spp v_ego stop_obstacle
                                      + braking_distance spp v_ego
            in dist_to_collide_on_decimated_traj stop_obstacle - stopping_distance))
      else if dist_to_collide_on_ref_traj > ref_traj_length env then terminal_stop_margin spp
      else stop_margin spp)"

definition calc_margin_from_obstacle_on_curve ::
  "StopPlanningParam \<Rightarrow> ObstacleFilteringParam \<Rightarrow> 'b PlanEnv \<Rightarrow> StopObstacle \<Rightarrow> real \<Rightarrow> real" where
  "calc_margin_from_obstacle_on_curve spp ofp env stop_obstacle default_margin =
     (if \<not> enable_approaching_on_curve spp \<or> use_pointcloud ofp then default_margin
      else case probe_curve env stop_obstacle of
             ShortTrajectory \<Rightarrow> default_margin
           | NoCollision \<Rightarrow> min_stop_margin_on_curve spp
           | CollisionAtStart \<Rightarrow> default_margin
           | CollisionAt short_margin_from_obstacle \<Rightarrow>
               min default_margin (max (min_stop_margin_on_curve spp) short_margin_from_obstacle))"

definition calc_desired_stop_margin ::
  "StopPlanningParam \<Rightarrow> ObstacleFilteringParam \<Rightarrow> 'b PlanEnv \<Rightarrow> StopObstacle \<Rightarrow> real \<Rightarrow> real" where
  "calc_desired_stop_margin spp ofp env stop_obstacle dist_to_collide_on_ref_traj =
     (let stop_margin_on_curve =
            calc_margin_from_obstacle_on_curve spp ofp env stop_obstacle
              (default_stop_margin spp env stop_obstacle dist_to_collide_on_ref_traj)
      in case closest_behavior_stop_dist env of
           None \<Rightarrow> stop_margin_on_curve
         | Some closest_behavior_stop_dist_on_ref_traj \<Rightarrow>
             (let stop_dist_diff = closest_behavior_stop_dist_on_ref_traj
                                     - (dist_to_collide_on_ref_traj - stop_margin_on_curve)
              in if 0 < stop_dist_diff \<and> stop_dist_diff < stop_margin_on_curve
                 then min_behavior_stop_margin spp
                 else stop_margin_on_curve))"

subsection \<open>Sudden-stop suppression\<close>

text \<open>
  The lambda \<^verbatim>\<open>acceptable_stop_acc\<close> of \<^verbatim>\<open>calc_candidate_zero_vel_dist\<close>; \<open>None\<close> is the
  decision to abandon the stop.
\<close>

definition acceptable_stop_acc ::
  "CommonParam \<Rightarrow> StopPlanningParam \<Rightarrow> 'b PlanEnv \<Rightarrow> StopObstacle \<Rightarrow> real \<Rightarrow> real option" where
  "acceptable_stop_acc cp spp env stop_obstacle candidate_zero_vel_dist =
     (if get_param_type spp (classification_label stop_obstacle) = ''default''
      then Some (limit_min_accel cp)
      else
        (let distance_to_judge_suddenness =
               min (calc_minimum_distance_to_stop (ego_velocity env) (limit_max_accel cp)
                      (sudden_object_acc_threshold
                         (get_param spp (classification_label stop_obstacle))))
                   (sudden_object_dist_threshold
                      (get_param spp (classification_label stop_obstacle)))
         in if candidate_zero_vel_dist > distance_to_judge_suddenness
            then Some (limit_min_accel cp)
            else if abandon_to_stop (get_param spp (classification_label stop_obstacle))
            then None
            else Some (limit_min_acc (get_param spp (classification_label stop_obstacle)))))"

definition calc_candidate_zero_vel_dist ::
  "bool \<Rightarrow> CommonParam \<Rightarrow> StopPlanningParam \<Rightarrow> 'b PlanEnv \<Rightarrow> StopObstacle \<Rightarrow> real \<Rightarrow> real
     \<Rightarrow> real option" where
  "calc_candidate_zero_vel_dist suppress_sudden_stop_flag cp spp env stop_obstacle
     dist_to_collide_on_ref_traj desired_stop_margin =
     (let candidate_zero_vel_dist = max 0 (dist_to_collide_on_ref_traj - desired_stop_margin) in
      if suppress_sudden_stop_flag then
        (case acceptable_stop_acc cp spp env stop_obstacle candidate_zero_vel_dist of
           None \<Rightarrow> None
         | Some acc \<Rightarrow>
             (let acceptable_stop_pos =
                    ego_position_arc_length env
                    + calc_minimum_distance_to_stop (ego_velocity env) (limit_max_accel cp) acc
              in if acceptable_stop_pos > candidate_zero_vel_dist then Some acceptable_stop_pos
                 else Some candidate_zero_vel_dist))
      else Some candidate_zero_vel_dist)"

subsection \<open>\<^verbatim>\<open>get_closest_stop_obstacles\<close>\<close>

text \<open>\<^verbatim>\<open>std::optional::value_or\<close>.\<close>

definition value_or :: "'a option \<Rightarrow> 'a \<Rightarrow> 'a" where
  "value_or opt d = (case opt of None \<Rightarrow> d | Some v \<Rightarrow> v)"

text \<open>
  One pass of the loop body: \<^verbatim>\<open>find_if\<close> for the first candidate with the label of the
  new obstacle; without one the obstacle is appended, otherwise it replaces that candidate
  when its distance to collision plus braking distance is strictly smaller.
\<close>

fun update_candidates :: "StopObstacle list \<Rightarrow> StopObstacle \<Rightarrow> StopObstacle list" where
  "update_candidates [] stop_obstacle = [stop_obstacle]"
| "update_candidates (co # candidates) stop_obstacle =
     (if classification_label co = classification_label stop_obstacle then
        (if dist_to_collide_on_decimated_traj stop_obstacle
              + value_or (braking_dist stop_obstacle) 0
            < dist_to_collide_on_decimated_traj co + value_or (braking_dist co) 0
         then stop_obstacle # candidates
         else co # candidates)
      else co # update_candidates candidates stop_obstacle)"

definition get_closest_stop_obstacles :: "StopObstacle list \<Rightarrow> StopObstacle list" where
  "get_closest_stop_obstacles stop_obstacles = foldl update_candidates [] stop_obstacles"

subsection \<open>\<^verbatim>\<open>plan_stop\<close>\<close>

text \<open>The three optionals that the loop of \<^verbatim>\<open>plan_stop\<close> maintains.\<close>

record Determined =
  determined_stop_obstacle :: "StopObstacle option"
  determined_zero_vel_dist :: "real option"
  determined_desired_stop_margin :: "real option"

definition nothing_determined :: Determined where
  "nothing_determined =
     \<lparr> determined_stop_obstacle = None, determined_zero_vel_dist = None,
       determined_desired_stop_margin = None \<rparr>"

text \<open>
  \<^verbatim>\<open>value > opt\<close> for a \<^verbatim>\<open>std::optional\<close> on the right: an empty optional is smaller than
  every value.
\<close>

definition greater_than_optional :: "real \<Rightarrow> real option \<Rightarrow> bool" where
  "greater_than_optional v opt = (case opt of None \<Rightarrow> True | Some w \<Rightarrow> v > w)"

text \<open>
  The body of the loop over the closest stop obstacles. The comparison for two obstacles of
  the same label is written as in the source: it adds
  \<^verbatim>\<open>stop_obstacle.dist_to_collide_on_decimated_traj\<close> to itself.
\<close>

definition plan_stop_step ::
  "bool \<Rightarrow> CommonParam \<Rightarrow> StopPlanningParam \<Rightarrow> ObstacleFilteringParam \<Rightarrow> 'b PlanEnv
     \<Rightarrow> Determined \<Rightarrow> StopObstacle \<Rightarrow> Determined" where
  "plan_stop_step suppress_sudden_stop_flag cp spp ofp env d stop_obstacle =
     (let dist_to_collide_on_ref_traj =
            ego_segment_arc_length env + dist_to_collide_on_decimated_traj stop_obstacle
              + value_or (braking_dist stop_obstacle) 0;
          desired_stop_margin =
            calc_desired_stop_margin spp ofp env stop_obstacle dist_to_collide_on_ref_traj
      in case calc_candidate_zero_vel_dist suppress_sudden_stop_flag cp spp env stop_obstacle
                dist_to_collide_on_ref_traj desired_stop_margin of
           None \<Rightarrow> d
         | Some candidate_zero_vel_dist \<Rightarrow>
             if (case determined_stop_obstacle d of
                   None \<Rightarrow> False
                 | Some determined \<Rightarrow>
                     (let is_same_param_types =
                            (classification_label stop_obstacle = classification_label determined)
                      in (is_same_param_types \<and>
                            dist_to_collide_on_decimated_traj stop_obstacle
                              + dist_to_collide_on_decimated_traj stop_obstacle
                            > dist_to_collide_on_decimated_traj determined
                                + value_or (braking_dist determined) 0) \<or>
                         (\<not> is_same_param_types \<and>
                            greater_than_optional candidate_zero_vel_dist
                              (determined_zero_vel_dist d))))
             then d
             else \<lparr> determined_stop_obstacle = Some stop_obstacle,
                    determined_zero_vel_dist = Some candidate_zero_vel_dist,
                    determined_desired_stop_margin = Some desired_stop_margin \<rparr>)"

text \<open>The reduction to the closest obstacle of each label, followed by the loop.\<close>

definition determine_stop ::
  "bool \<Rightarrow> CommonParam \<Rightarrow> StopPlanningParam \<Rightarrow> ObstacleFilteringParam \<Rightarrow> 'b PlanEnv
     \<Rightarrow> StopObstacle list \<Rightarrow> Determined" where
  "determine_stop suppress_sudden_stop_flag cp spp ofp env stop_obstacles =
     foldl (plan_stop_step suppress_sudden_stop_flag cp spp ofp env) nothing_determined
       (get_closest_stop_obstacles stop_obstacles)"

definition hold_previous_stop_if_necessary ::
  "StopPlanningParam \<Rightarrow> 'b PlanEnv \<Rightarrow> 'b StopState \<Rightarrow> real \<Rightarrow> real" where
  "hold_previous_stop_if_necessary spp env st zero_vel_dist =
     (case prev_stop_distance_info st of
        None \<Rightarrow> zero_vel_dist
      | Some prev_dist \<Rightarrow>
          if \<bar>ego_velocity env\<bar> < hold_stop_velocity_threshold spp then
            (let prev_zero_vel_dist = prev_dist - diff_dist_front_points env in
             if \<bar>prev_zero_vel_dist - zero_vel_dist\<bar> < hold_stop_distance_threshold spp
             then prev_zero_vel_dist else zero_vel_dist)
          else zero_vel_dist)"

definition calc_stop_point ::
  "'b PlanEnv \<Rightarrow> 'b StopState \<Rightarrow> real \<Rightarrow> point option \<times> 'b StopState" where
  "calc_stop_point env st zero_vel_dist =
     (case insert_stop_point env zero_vel_dist of
        None \<Rightarrow> (None, st)
      | Some stop_position \<Rightarrow>
          (Some stop_position, st\<lparr>prev_stop_distance_info := Some zero_vel_dist\<rparr>))"

text \<open>
  \<^verbatim>\<open>plan_stop\<close>: the stop point it returns and the module state it leaves. Markers and
  debug values are not modelled.
\<close>

definition plan_stop ::
  "bool \<Rightarrow> CommonParam \<Rightarrow> StopPlanningParam \<Rightarrow> ObstacleFilteringParam \<Rightarrow> 'b PlanEnv
     \<Rightarrow> 'b StopState \<Rightarrow> StopObstacle list \<Rightarrow> point option \<times> 'b StopState" where
  "plan_stop suppress_sudden_stop_flag cp spp ofp env st stop_obstacles =
     (if stop_obstacles = [] then (None, st\<lparr>prev_stop_distance_info := None\<rparr>)
      else
        (let d = determine_stop suppress_sudden_stop_flag cp spp ofp env stop_obstacles in
         case (determined_zero_vel_dist d, determined_stop_obstacle d,
               determined_desired_stop_margin d) of
           (Some zero_vel_dist, Some stop_obstacle, Some desired_stop_margin) \<Rightarrow>
             (let held = hold_previous_stop_if_necessary spp env st zero_vel_dist;
                  (stop_point, st1) = calc_stop_point env st held
              in if velocity stop_obstacle \<ge> max_negative_velocity spp then (stop_point, st1)
                 else
                   (let buffer = update_buffer env (path_length_buffer st1) stop_point
                                   stop_obstacle desired_stop_margin
                    in (map_option buffered_stop_point (get_nearest_active_item env buffer),
                        st1\<lparr>path_length_buffer := buffer\<rparr>)))
         | _ \<Rightarrow> (None, st\<lparr>prev_stop_distance_info := None\<rparr>)))"

text \<open>
  The key by which \<^verbatim>\<open>get_closest_stop_obstacles\<close> orders obstacles of one label:
  distance to collision plus braking distance, the latter 0 when absent.
\<close>

definition combined :: "StopObstacle \<Rightarrow> real" where
  "combined so = dist_to_collide_on_decimated_traj so + value_or (braking_dist so) 0"

text \<open>
  The candidate stop distance of one obstacle, as the loop body of \<^verbatim>\<open>plan_stop\<close>
  computes it before the comparison.
\<close>

definition candidate_of ::
  "bool \<Rightarrow> CommonParam \<Rightarrow> StopPlanningParam \<Rightarrow> ObstacleFilteringParam \<Rightarrow> 'b PlanEnv
     \<Rightarrow> StopObstacle \<Rightarrow> real option" where
  "candidate_of suppress_sudden_stop_flag cp spp ofp env stop_obstacle =
     (let dist_to_collide_on_ref_traj =
            ego_segment_arc_length env + dist_to_collide_on_decimated_traj stop_obstacle
              + value_or (braking_dist stop_obstacle) 0
      in calc_candidate_zero_vel_dist suppress_sudden_stop_flag cp spp env stop_obstacle
           dist_to_collide_on_ref_traj
           (calc_desired_stop_margin spp ofp env stop_obstacle dist_to_collide_on_ref_traj))"

text \<open>
  The loop body and the selection as the specification words them: two obstacles of the same
  label are compared by their distance to collision plus braking distance. They differ from
  \<open>plan_stop_step\<close> and \<open>determine_stop\<close> in that one comparison only.
\<close>

definition plan_stop_step_as_specified ::
  "bool \<Rightarrow> CommonParam \<Rightarrow> StopPlanningParam \<Rightarrow> ObstacleFilteringParam \<Rightarrow> 'b PlanEnv
     \<Rightarrow> Determined \<Rightarrow> StopObstacle \<Rightarrow> Determined" where
  "plan_stop_step_as_specified suppress_sudden_stop_flag cp spp ofp env d stop_obstacle =
     (let dist_to_collide_on_ref_traj =
            ego_segment_arc_length env + dist_to_collide_on_decimated_traj stop_obstacle
              + value_or (braking_dist stop_obstacle) 0;
          desired_stop_margin =
            calc_desired_stop_margin spp ofp env stop_obstacle dist_to_collide_on_ref_traj
      in case calc_candidate_zero_vel_dist suppress_sudden_stop_flag cp spp env stop_obstacle
                dist_to_collide_on_ref_traj desired_stop_margin of
           None \<Rightarrow> d
         | Some candidate_zero_vel_dist \<Rightarrow>
             if (case determined_stop_obstacle d of
                   None \<Rightarrow> False
                 | Some determined \<Rightarrow>
                     (let is_same_param_types =
                            (classification_label stop_obstacle = classification_label determined)
                      in (is_same_param_types \<and> combined stop_obstacle > combined determined) \<or>
                         (\<not> is_same_param_types \<and>
                            greater_than_optional candidate_zero_vel_dist
                              (determined_zero_vel_dist d))))
             then d
             else \<lparr> determined_stop_obstacle = Some stop_obstacle,
                    determined_zero_vel_dist = Some candidate_zero_vel_dist,
                    determined_desired_stop_margin = Some desired_stop_margin \<rparr>)"

definition determine_stop_as_specified ::
  "bool \<Rightarrow> CommonParam \<Rightarrow> StopPlanningParam \<Rightarrow> ObstacleFilteringParam \<Rightarrow> 'b PlanEnv
     \<Rightarrow> StopObstacle list \<Rightarrow> Determined" where
  "determine_stop_as_specified suppress_sudden_stop_flag cp spp ofp env stop_obstacles =
     foldl (plan_stop_step_as_specified suppress_sudden_stop_flag cp spp ofp env)
       nothing_determined (get_closest_stop_obstacles stop_obstacles)"

section \<open>The point-cloud obstacle history\<close>

text \<open>
  What \<^verbatim>\<open>filter_stop_obstacle_for_point_cloud\<close> obtains from its arguments and from library
  calls on the trajectory: the time of the odometry and of the point cloud (seconds), the
  collision points of the clusters (\<^verbatim>\<open>convert_point_cloud_to_stop_points\<close>), the lateral
  offset of a point from the trajectory, its distance to the trajectory polygons, its arc
  length on the decimated trajectory, and the vehicle dimensions.
\<close>

record PointCloudEnv =
  odom_time :: real
  stop_obstacle_stamp :: real
  stop_points :: "point list"
  calcLateralOffset :: "point \<Rightarrow> real"
  get_dist_to_traj_poly :: "point \<Rightarrow> real"
  calcSignedArcLength :: "point \<Rightarrow> real"
  vehicle_info :: VehicleInfo
  dist_to_bumper :: real

text \<open>
  \<^verbatim>\<open>create_stop_obstacle_for_point_cloud\<close>: a default-constructed UUID (all zero, printed
  as 32 hexadecimal digits), label (0) and velocity.
\<close>

definition create_stop_obstacle_for_point_cloud :: "PointCloudEnv \<Rightarrow> point \<Rightarrow> StopObstacle" where
  "create_stop_obstacle_for_point_cloud env stop_point =
     \<lparr> uuid = replicate 32 CHR ''0'',
       stamp = stop_obstacle_stamp env,
       classification_label = 0,
       velocity = 0,
       collision_point = stop_point,
       dist_to_collide_on_decimated_traj = calcSignedArcLength env stop_point - dist_to_bumper env,
       braking_dist = None \<rparr>"

text \<open>The three tests of the history loop, named after the local variables they compare.\<close>

definition elapsed_time :: "PointCloudEnv \<Rightarrow> StopObstacle \<Rightarrow> real" where
  "elapsed_time env itr = odom_time env - stamp itr"

definition min_lat_dist_to_traj_poly :: "PointCloudEnv \<Rightarrow> StopObstacle \<Rightarrow> real" where
  "min_lat_dist_to_traj_poly env itr =
     \<bar>calcLateralOffset env (collision_point itr)\<bar>
       - hypot (max_longitudinal_offset_m (vehicle_info env))
           (vehicle_width_m (vehicle_info env) / 2)"

definition precise_min_lat_dist_to_traj_poly :: "PointCloudEnv \<Rightarrow> StopObstacle \<Rightarrow> real" where
  "precise_min_lat_dist_to_traj_poly env itr = get_dist_to_traj_poly env (collision_point itr)"

text \<open>\<^verbatim>\<open>std::vector::erase\<close> at an index; the iterator it returns has the same index.\<close>

definition erase :: "'a list \<Rightarrow> nat \<Rightarrow> 'a list" where
  "erase xs i = take i xs @ drop (Suc i) xs"

text \<open>
  The loop over \<^verbatim>\<open>stop_pointcloud_obstacle_history_\<close>, with the iterator as an index. An
  entry older than the hold time is erased. For an entry whose collision point fails the
  rough or the precise lateral test the source executes \<^verbatim>\<open>continue\<close>, which neither
  erases the entry nor advances the iterator. Otherwise a copy with a recomputed distance
  is appended to \<^verbatim>\<open>past_stop_obstacles\<close> and the iterator advances.
  The result is the pair of the history and of \<^verbatim>\<open>past_stop_obstacles\<close>; \<open>None\<close> means
  that the loop does not return.
\<close>

partial_function (option) age_history ::
  "PointCloudEnv \<Rightarrow> ObstacleFilteringParam \<Rightarrow> StopObstacle list \<Rightarrow> nat \<Rightarrow> StopObstacle list
     \<Rightarrow> (StopObstacle list \<times> StopObstacle list) option" where
  "age_history env ofp history i past_stop_obstacles =
     (if i \<ge> length history then Some (history, past_stop_obstacles)
      else if elapsed_time env (history ! i) \<ge> stop_obstacle_hold_time_threshold ofp
      then age_history env ofp (erase history i) i past_stop_obstacles
      else if min_lat_dist_to_traj_poly env (history ! i) \<ge> max_lat_margin ofp
      then age_history env ofp history i past_stop_obstacles
      else if precise_min_lat_dist_to_traj_poly env (history ! i) \<ge> max_lat_margin ofp
      then age_history env ofp history i past_stop_obstacles
      else age_history env ofp history (i + 1)
             (past_stop_obstacles @
                [(history ! i)\<lparr>dist_to_collide_on_decimated_traj :=
                    calcSignedArcLength env (collision_point (history ! i))
                      - dist_to_bumper env\<rparr>]))"

text \<open>
  \<^verbatim>\<open>filter_stop_obstacle_for_point_cloud\<close>: the stop obstacles it returns and the history
  it leaves, or \<open>None\<close> when it does not return.
\<close>

definition filter_stop_obstacle_for_point_cloud ::
  "PointCloudEnv \<Rightarrow> ObstacleFilteringParam \<Rightarrow> StopObstacle list
     \<Rightarrow> (StopObstacle list \<times> StopObstacle list) option" where
  "filter_stop_obstacle_for_point_cloud env ofp stop_pointcloud_obstacle_history =
     (if \<not> use_pointcloud ofp then Some ([], stop_pointcloud_obstacle_history)
      else
        (let stop_obstacles = map (create_stop_obstacle_for_point_cloud env) (stop_points env) in
         case age_history env ofp stop_pointcloud_obstacle_history 0 [] of
           None \<Rightarrow> None
         | Some (history, past_stop_obstacles) \<Rightarrow>
             Some (stop_obstacles @ past_stop_obstacles, history @ stop_obstacles)))"

text \<open>An entry on which the loop makes no progress.\<close>

definition stuck_entry :: "PointCloudEnv \<Rightarrow> ObstacleFilteringParam \<Rightarrow> StopObstacle \<Rightarrow> bool" where
  "stuck_entry env ofp itr =
     (elapsed_time env itr < stop_obstacle_hold_time_threshold ofp \<and>
      (min_lat_dist_to_traj_poly env itr \<ge> max_lat_margin ofp \<or>
       precise_min_lat_dist_to_traj_poly env itr \<ge> max_lat_margin ofp))"

section \<open>Fixed-stop hysteresis\<close>

text \<open>
  Modelled from the spec: \<^verbatim>\<open>utils::get_obstacle_from_uuid\<close>, declared in a header of the
  planner-common package that is not among the sources. The lookup is by UUID (``per
  object, by UUID''): the first obstacle of the list that carries the UUID, if there is one.
\<close>

definition get_obstacle_from_uuid :: "StopObstacle list \<Rightarrow> string \<Rightarrow> StopObstacle option" where
  "get_obstacle_from_uuid obstacles target_uuid = find (\<lambda>obstacle. uuid obstacle = target_uuid) obstacles"

text \<open>
  \<^verbatim>\<open>is_obstacle_velocity_requiring_fixed_stop\<close>. Its arguments are the module's list of the
  previous cycle's stop obstacles, the object's UUID as a hexadecimal string and the value
  of \<^verbatim>\<open>object->get_lon_vel_relative_to_traj(traj_points)\<close>.
\<close>

definition is_obstacle_velocity_requiring_fixed_stop ::
  "StopPlanningParam \<Rightarrow> StopObstacle list \<Rightarrow> string \<Rightarrow> real \<Rightarrow> bool" where
  "is_obstacle_velocity_requiring_fixed_stop spp prev_stop_obstacles object_uuid lon_vel =
     (let stop_obstacle_opt = get_obstacle_from_uuid prev_stop_obstacles object_uuid;
          is_prev_object_requires_fixed_stop =
            (case stop_obstacle_opt of
               None \<Rightarrow> False
             | Some stop_obstacle \<Rightarrow> braking_dist stop_obstacle = None)
      in if is_prev_object_requires_fixed_stop then
           (if obstacle_velocity_threshold_exit_fixed_stop spp < lon_vel then False else True)
         else if lon_vel < obstacle_velocity_threshold_enter_fixed_stop spp then True
         else False)"

definition calc_braking_dist :: "label \<Rightarrow> real \<Rightarrow> RSSParam \<Rightarrow> real" where
  "calc_braking_dist obj_label lon_vel rss =
     (let braking_acc =
            (if obj_label = UNKNOWN \<or> obj_label = PEDESTRIAN then no_wheel_objects_deceleration rss
             else if obj_label = BICYCLE \<or> obj_label = MOTORCYCLE
             then two_wheel_objects_deceleration rss
             else vehicle_objects_deceleration rss);
          error_considered_vel = max (lon_vel + velocity_offset rss) 0
      in error_considered_vel * error_considered_vel * 0.5 / - braking_acc)"

text \<open>
  The end of \<^verbatim>\<open>pick_stop_obstacle_from_predicted_object\<close>, for an object that has passed
  the geometric filters with the collision point \<open>cp\<close> at the distance \<open>cd\<close>: a stop obstacle
  without braking distance when the velocity requires a fixed stop, one with the RSS braking
  distance when RSS stops are enabled, none otherwise.
\<close>

definition emit_stop_obstacle ::
  "StopPlanningParam \<Rightarrow> StopObstacle list \<Rightarrow> string \<Rightarrow> real \<Rightarrow> label \<Rightarrow> real \<Rightarrow> point \<Rightarrow> real
     \<Rightarrow> StopObstacle option" where
  "emit_stop_obstacle spp prev_stop_obstacles object_uuid predicted_objects_stamp obj_label
     lon_vel cp cd =
     (if is_obstacle_velocity_requiring_fixed_stop spp prev_stop_obstacles object_uuid lon_vel
      then Some \<lparr> uuid = object_uuid, stamp = predicted_objects_stamp,
                  classification_label = obj_label, velocity = lon_vel, collision_point = cp,
                  dist_to_collide_on_decimated_traj = cd, braking_dist = None \<rparr>
      else if use_rss_stop (rss_params spp)
      then Some \<lparr> uuid = object_uuid, stamp = predicted_objects_stamp,
                  classification_label = obj_label, velocity = lon_vel, collision_point = cp,
                  dist_to_collide_on_decimated_traj = cd,
                  braking_dist = Some (calc_braking_dist obj_label lon_vel (rss_params spp)) \<rparr>
      else None)"

text \<open>
  What the filter reads of one \<^verbatim>\<open>PlannerData::Object\<close> in a cycle: the UUID of the predicted
  object as a hexadecimal string, the label \<^verbatim>\<open>classification.at(0).label\<close>, the object's own
  \<^verbatim>\<open>twist.linear.x\<close>, its longitudinal velocity relative to the trajectory, and the outcome of
  the filters that precede the velocity test (the object lies ahead of the ego, its label is
  an inside stop-object type, it is laterally close enough and collides with the trajectory
  polygons): the collision point with its distance, or none when one of them rejects the
  object.
\<close>

record Observation =
  observed_uuid :: string
  observed_label :: label
  observed_twist_linear_x :: real
  observed_lon_vel :: real
  observed_collision :: "(point \<times> real) option"

text \<open>\<^verbatim>\<open>pick_stop_obstacle_from_predicted_object\<close> on such an object.\<close>

definition pick_stop_obstacle_from_predicted_object ::
  "StopPlanningParam \<Rightarrow> StopObstacle list \<Rightarrow> real \<Rightarrow> Observation \<Rightarrow> StopObstacle option" where
  "pick_stop_obstacle_from_predicted_object spp prev_stop_obstacles predicted_objects_stamp ob =
     (case observed_collision ob of
        None \<Rightarrow> None
      | Some (cp, cd) \<Rightarrow>
          emit_stop_obstacle spp prev_stop_obstacles (observed_uuid ob) predicted_objects_stamp
            (observed_label ob) (observed_lon_vel ob) cp cd)"

text \<open>
  \<^verbatim>\<open>check_consistency\<close>. One pass of its loop over the previous closest stop obstacles: the
  object with the obstacle's UUID is looked up among the objects of the cycle
  (\<^verbatim>\<open>find_if\<close>); when there is one, no stop obstacle of the cycle carries the UUID
  (\<^verbatim>\<open>none_of\<close>), the object's \<^verbatim>\<open>twist.linear.x\<close> is below the enter threshold and the obstacle
  is younger than the hold time, the previous obstacle is pushed back onto the list.
\<close>

definition check_consistency_step ::
  "StopPlanningParam \<Rightarrow> ObstacleFilteringParam \<Rightarrow> real \<Rightarrow> Observation list
     \<Rightarrow> StopObstacle list \<Rightarrow> StopObstacle \<Rightarrow> StopObstacle list" where
  "check_consistency_step spp ofp current_time objects stop_obstacles prev_closest_stop_obstacle =
     (case find (\<lambda>ob. observed_uuid ob = uuid prev_closest_stop_obstacle) objects of
        None \<Rightarrow> stop_obstacles
      | Some object \<Rightarrow>
          (let is_disappeared_from_stop_obstacle =
                 list_all (\<lambda>so. \<not> uuid so = uuid prev_closest_stop_obstacle) stop_obstacles
           in if is_disappeared_from_stop_obstacle then
                (let elapsed = current_time - stamp prev_closest_stop_obstacle
                 in if observed_twist_linear_x object
                         < obstacle_velocity_threshold_enter_fixed_stop spp
                       \<and> elapsed < stop_obstacle_hold_time_threshold ofp
                    then stop_obstacles @ [prev_closest_stop_obstacle]
                    else stop_obstacles)
              else stop_obstacles))"

text \<open>
  The whole function: the stop obstacles after the loop, and the new value of
  \<^verbatim>\<open>prev_closest_stop_obstacles_\<close>.
\<close>

definition check_consistency ::
  "StopPlanningParam \<Rightarrow> ObstacleFilteringParam \<Rightarrow> real \<Rightarrow> Observation list
     \<Rightarrow> StopObstacle list \<Rightarrow> StopObstacle list \<Rightarrow> StopObstacle list \<times> StopObstacle list" where
  "check_consistency spp ofp current_time objects prev_closest_stop_obstacles stop_obstacles =
     (let stop_obstacles' =
            foldl (check_consistency_step spp ofp current_time objects) stop_obstacles
              prev_closest_stop_obstacles
      in (stop_obstacles', get_closest_stop_obstacles stop_obstacles'))"

text \<open>The two lists that the module keeps from one cycle to the next.\<close>

record FilterState =
  prev_stop_obstacles :: "StopObstacle list"
  prev_closest_stop_obstacles :: "StopObstacle list"

text \<open>
  \<^verbatim>\<open>filter_stop_obstacle_for_predicted_object\<close>: the stop obstacles picked from the objects
  of the cycle, in their order, then \<^verbatim>\<open>check_consistency\<close>, then
  \<^verbatim>\<open>prev_stop_obstacles_ = stop_obstacles\<close>. It returns the stop obstacles and the lists
  kept for the next cycle.
\<close>

definition filter_stop_obstacle_for_predicted_object ::
  "StopPlanningParam \<Rightarrow> ObstacleFilteringParam \<Rightarrow> FilterState \<Rightarrow> real \<Rightarrow> Observation list
     \<Rightarrow> StopObstacle list \<times> FilterState" where
  "filter_stop_obstacle_for_predicted_object spp ofp st predicted_objects_stamp objects =
     (let stop_obstacles =
            List.map_filter
              (pick_stop_obstacle_from_predicted_object spp (prev_stop_obstacles st)
                 predicted_objects_stamp)
              objects;
          (stop_obstacles', closest) =
            check_consistency spp ofp predicted_objects_stamp objects
              (prev_closest_stop_obstacles st) stop_obstacles
      in (stop_obstacles',
          \<lparr> prev_stop_obstacles = stop_obstacles', prev_closest_stop_obstacles = closest \<rparr>))"

text \<open>
  Successive cycles, each given by the stamp of its perception message and its objects. The
  result lists, in the order of the calls, what \<^verbatim>\<open>is_obstacle_velocity_requiring_fixed_stop\<close>
  returned for the object with the UUID \<open>object_uuid\<close>: one value for every cycle in which
  the object reaches the velocity test. Each cycle reads the lists that the cycle before
  has left.
\<close>

fun fixed_stop_cycles ::
  "StopPlanningParam \<Rightarrow> ObstacleFilteringParam \<Rightarrow> FilterState \<Rightarrow> string
     \<Rightarrow> (real \<times> Observation list) list \<Rightarrow> bool list" where
  "fixed_stop_cycles spp ofp st object_uuid [] = []"
| "fixed_stop_cycles spp ofp st object_uuid ((predicted_objects_stamp, objects) # cycles) =
     map (\<lambda>ob. is_obstacle_velocity_requiring_fixed_stop spp (prev_stop_obstacles st)
                  object_uuid (observed_lon_vel ob))
       (filter (\<lambda>ob. observed_uuid ob = object_uuid \<and> observed_collision ob \<noteq> None) objects)
     @ fixed_stop_cycles spp ofp
         (snd (filter_stop_obstacle_for_predicted_object spp ofp st predicted_objects_stamp
                 objects))
         object_uuid cycles"

text \<open>A list of truth values that never turns from false back to true.\<close>

fun never_reenters :: "bool list \<Rightarrow> bool" where
  "never_reenters [] = True"
| "never_reenters (b # bs) = ((b \<or> \<not> (True \<in> set bs)) \<and> never_reenters bs)"

text \<open>No stop obstacle of the list that carries the UUID is a fixed stop.\<close>

definition holds_no_fixed_stop :: "StopObstacle list \<Rightarrow> string \<Rightarrow> bool" where
  "holds_no_fixed_stop stop_obstacles object_uuid =
     (\<forall>so \<in> set stop_obstacles. uuid so = object_uuid \<longrightarrow> braking_dist so \<noteq> None)"

section \<open>Arc lengths on the centerline and on the bounds of a lanelet sequence\<close>

text \<open>
  A lanelet with its three line strings, and the three functions of lanelet2 that the
  projections use: \<^verbatim>\<open>lanelet::geometry::length\<close>,
  \<^verbatim>\<open>lanelet::geometry::interpolatedPointAtDistance\<close> and the \<^verbatim>\<open>length\<close> component of
  \<^verbatim>\<open>lanelet::geometry::toArcCoordinates\<close>. Line strings (\<open>'ls\<close>) and points (\<open>'pt\<close>) are
  whatever that library works on.
\<close>

record 'ls Lanelet =
  centerline2d :: 'ls
  leftBound2d :: 'ls
  rightBound2d :: 'ls

record ('ls, 'pt) Geometry =
  geometry_length :: "'ls \<Rightarrow> real"
  interpolatedPointAtDistance :: "'ls \<Rightarrow> real \<Rightarrow> 'pt"
  toArcCoordinates_length :: "'ls \<Rightarrow> 'pt \<Rightarrow> real"

text \<open>The loop of \<^verbatim>\<open>get_arc_length_on_bounds\<close> with its running sums.\<close>

fun get_arc_length_on_bounds_loop ::
  "('ls, 'pt) Geometry \<Rightarrow> 'ls Lanelet list \<Rightarrow> real \<Rightarrow> real \<Rightarrow> real \<Rightarrow> real \<Rightarrow> real \<times> real" where
  "get_arc_length_on_bounds_loop g [] s_centerline s s_left s_right =
     (s_centerline, s_centerline)"
| "get_arc_length_on_bounds_loop g (it # rest) s_centerline s s_left s_right =
     (let centerline_length = geometry_length g (centerline2d it);
          left_bound_length = geometry_length g (leftBound2d it);
          right_bound_length = geometry_length g (rightBound2d it)
      in if s + centerline_length < s_centerline
         then get_arc_length_on_bounds_loop g rest s_centerline (s + centerline_length)
                (s_left + left_bound_length) (s_right + right_bound_length)
         else
           (let point_on_centerline =
                  interpolatedPointAtDistance g (centerline2d it) (s_centerline - s)
            in (s_left + toArcCoordinates_length g (leftBound2d it) point_on_centerline,
                s_right + toArcCoordinates_length g (rightBound2d it) point_on_centerline)))"

definition get_arc_length_on_bounds ::
  "('ls, 'pt) Geometry \<Rightarrow> 'ls Lanelet list \<Rightarrow> real \<Rightarrow> real \<times> real" where
  "get_arc_length_on_bounds g lanelet_sequence s_centerline =
     (if s_centerline < 0 then (0, 0)
      else get_arc_length_on_bounds_loop g lanelet_sequence s_centerline 0 0 0)"

text \<open>
  The loop of \<^verbatim>\<open>get_arc_length_on_centerline\<close>. \<^verbatim>\<open>getLaneletLength2d\<close> is the length of
  the lanelet's two-dimensional centerline.
\<close>

fun get_arc_length_on_centerline_loop ::
  "('ls, 'pt) Geometry \<Rightarrow> 'ls Lanelet list \<Rightarrow> real option \<Rightarrow> real option \<Rightarrow> real \<Rightarrow> real \<Rightarrow> real
     \<Rightarrow> real option \<Rightarrow> real option \<Rightarrow> real option \<times> real option" where
  "get_arc_length_on_centerline_loop g [] s_left_bound s_right_bound s s_left s_right
     s_left_centerline s_right_centerline = (s_left_centerline, s_right_centerline)"
| "get_arc_length_on_centerline_loop g (it # rest) s_left_bound s_right_bound s s_left s_right
     s_left_centerline s_right_centerline =
     (let is_left_done = (s_left_bound = None \<or> s_left_centerline \<noteq> None);
          is_right_done = (s_right_bound = None \<or> s_right_centerline \<noteq> None)
      in if is_left_done \<and> is_right_done then (s_left_centerline, s_right_centerline)
         else
           (let centerline_length = geometry_length g (centerline2d it);
                left_bound_length = geometry_length g (leftBound2d it);
                right_bound_length = geometry_length g (rightBound2d it);
                s_left_centerline' =
                  (case s_left_bound of
                     None \<Rightarrow> s_left_centerline
                   | Some b \<Rightarrow>
                       if \<not> is_left_done \<and> s_left + left_bound_length > b
                       then Some (s + toArcCoordinates_length g (centerline2d it)
                                        (interpolatedPointAtDistance g (leftBound2d it)
                                           (b - s_left)))
                       else s_left_centerline);
                s_right_centerline' =
                  (case s_right_bound of
                     None \<Rightarrow> s_right_centerline
                   | Some b \<Rightarrow>
                       if \<not> is_right_done \<and> s_right + right_bound_length > b
                       then Some (s + toArcCoordinates_length g (centerline2d it)
                                        (interpolatedPointAtDistance g (rightBound2d it)
                                           (b - s_right)))
                       else s_right_centerline)
            in get_arc_length_on_centerline_loop g rest s_left_bound s_right_bound
                 (s + centerline_length) (s_left + left_bound_length)
                 (s_right + right_bound_length) s_left_centerline' s_right_centerline'))"

text \<open>A negative input is answered with 0 before the loop starts.\<close>

definition negative_to_zero :: "real option \<Rightarrow> real option" where
  "negative_to_zero s_bound =
     (case s_bound of None \<Rightarrow> None | Some b \<Rightarrow> if b < 0 then Some 0 else None)"

text \<open>\<^verbatim>\<open>a ? a : b\<close> on optionals.\<close>

definition or_else :: "'a option \<Rightarrow> 'a option \<Rightarrow> 'a option" where
  "or_else a b = (case a of None \<Rightarrow> b | Some v \<Rightarrow> Some v)"

definition get_arc_length_on_centerline ::
  "('ls, 'pt) Geometry \<Rightarrow> 'ls Lanelet list \<Rightarrow> real option \<Rightarrow> real option
     \<Rightarrow> real option \<times> real option" where
  "get_arc_length_on_centerline g lanelet_sequence s_left_bound s_right_bound =
     (let (s_left_centerline, s_right_centerline) =
            get_arc_length_on_centerline_loop g lanelet_sequence s_left_bound s_right_bound
              0 0 0 (negative_to_zero s_left_bound) (negative_to_zero s_right_bound)
      in (or_else s_left_centerline s_left_bound, or_else s_right_centerline s_right_bound))"

text \<open>
  Centerline to left bound and back again: the round trip of the specification.
\<close>

definition left_round_trip ::
  "('ls, 'pt) Geometry \<Rightarrow> 'ls Lanelet list \<Rightarrow> real \<Rightarrow> real option" where
  "left_round_trip g lanelet_sequence s =
     fst (get_arc_length_on_centerline g lanelet_sequence
            (Some (fst (get_arc_length_on_bounds g lanelet_sequence s))) None)"

text \<open>Total lengths of the line strings of a stretch of lanelets.\<close>

definition centerline_total :: "('ls, 'pt) Geometry \<Rightarrow> 'ls Lanelet list \<Rightarrow> real" where
  "centerline_total g ls = sum_list (map (\<lambda>l. geometry_length g (centerline2d l)) ls)"

definition left_total :: "('ls, 'pt) Geometry \<Rightarrow> 'ls Lanelet list \<Rightarrow> real" where
  "left_total g ls = sum_list (map (\<lambda>l. geometry_length g (leftBound2d l)) ls)"

definition right_total :: "('ls, 'pt) Geometry \<Rightarrow> 'ls Lanelet list \<Rightarrow> real" where
  "right_total g ls = sum_list (map (\<lambda>l. geometry_length g (rightBound2d l)) ls)"

text \<open>
  The projections within one lanelet: the point at distance \<open>d\<close> on the centerline, as an arc
  length on the left bound, and the point at distance \<open>d\<close> on the left bound, as an arc
  length on the centerline.
\<close>

definition project_to_left :: "('ls, 'pt) Geometry \<Rightarrow> 'ls Lanelet \<Rightarrow> real \<Rightarrow> real" where
  "project_to_left g it d =
     toArcCoordinates_length g (leftBound2d it)
       (interpolatedPointAtDistance g (centerline2d it) d)"

definition project_to_centerline :: "('ls, 'pt) Geometry \<Rightarrow> 'ls Lanelet \<Rightarrow> real \<Rightarrow> real" where
  "project_to_centerline g it d =
     toArcCoordinates_length g (centerline2d it)
       (interpolatedPointAtDistance g (leftBound2d it) d)"

section \<open>Concrete inputs\<close>

text \<open>
  Three runs: a car outside the configured set, a pedestrian walking at 5 m/s whose
  equivalent time 2.5 s is cut to the horizon of 1 s, and a bicycle with deceleration 0.
\<close>

definition filtering_param_example :: ObstacleFilteringParam where
  "filtering_param_example =
     \<lparr> use_pointcloud = True,
       inside_stop_object_types = [UNKNOWN, CAR, TRUCK, BUS, TRAILER, MOTORCYCLE, BICYCLE, PEDESTRIAN],
       outside_stop_object_types = [BICYCLE, PEDESTRIAN],
       max_lat_margin = 1,
       max_lat_margin_against_predicted_object_unknown = 1,
       outside_estimation_time_horizon = 1,
       outside_pedestrian_deceleration = 1,
       outside_bicycle_deceleration = 0,
       stop_obstacle_hold_time_threshold = 1 \<rparr>"

definition object_example :: "label list \<Rightarrow> PredictedObject" where
  "object_example ls =
     \<lparr> object_id = ''0a'', classification = ls, twist_linear_x = 3, twist_linear_y = 4 \<rparr>"

text \<open>
  Planning parameters for the runs below: a default stop margin of 2 m, a margin of 10 m
  against opposing traffic, oncoming means slower than -1 m/s. Pedestrians and bicycles
  have parameter sets of their own; a sudden stop for a bicycle is abandoned.
\<close>

definition object_param_example :: "bool \<Rightarrow> ObjectTypeSpecificParams" where
  "object_param_example abandon =
     \<lparr> limit_min_acc = - (5 / 2), sudden_object_acc_threshold = - 1,
       sudden_object_dist_threshold = 1000, abandon_to_stop = abandon \<rparr>"

definition stop_planning_param_example :: StopPlanningParam where
  "stop_planning_param_example =
     \<lparr> stop_margin = 2, terminal_stop_margin = 3, min_behavior_stop_margin = 1,
       max_negative_velocity = - 1, stop_margin_opposing_traffic = 10,
       effective_deceleration_opposing_traffic = 1,
       hold_stop_velocity_threshold = 1 / 8, hold_stop_distance_threshold = 1 / 2,
       enable_approaching_on_curve = False, min_stop_margin_on_curve = 1,
       obstacle_velocity_threshold_enter_fixed_stop = 3,
       obstacle_velocity_threshold_exit_fixed_stop = 7 / 2,
       rss_params = \<lparr> use_rss_stop = True, two_wheel_objects_deceleration = - 5,
                      vehicle_objects_deceleration = - 6, no_wheel_objects_deceleration = - 10,
                      velocity_offset = 1 \<rparr>,
       get_param_type =
         (\<lambda>l. if l = PEDESTRIAN then ''pedestrian''
              else if l = BICYCLE then ''bicycle'' else ''default''),
       get_param = (\<lambda>l. object_param_example (l = BICYCLE)) \<rparr>"

definition common_param_example :: CommonParam where
  "common_param_example = \<lparr> limit_max_accel = 1, limit_min_accel = - 4 \<rparr>"

text \<open>
  A cycle on a straight trajectory of 100 m with the ego at its start, driving at \<open>v\<close>.
  A stop point is inserted at the requested arc length. The path-length buffer counts its
  updates and has no active item yet.
\<close>

definition plan_env_example :: "real \<Rightarrow> nat PlanEnv" where
  "plan_env_example v =
     \<lparr> ego_velocity = v, ego_segment_arc_length = 0, ego_position_arc_length = 0,
       ref_traj_length = 100, closest_behavior_stop_dist = None,
       probe_curve = (\<lambda>so. NoCollision), diff_dist_front_points = 0,
       insert_stop_point = (\<lambda>s. Some (s, 0)),
       update_buffer = (\<lambda>b stop_point so margin. Suc b),
       get_nearest_active_item = (\<lambda>b. None) \<rparr>"

definition stop_state_example :: "nat StopState" where
  "stop_state_example = \<lparr> prev_stop_distance_info = None, path_length_buffer = 0 \<rparr>"

definition stop_obstacle_example ::
  "string \<Rightarrow> label \<Rightarrow> real \<Rightarrow> real \<Rightarrow> real option \<Rightarrow> StopObstacle" where
  "stop_obstacle_example u l v d braking =
     \<lparr> uuid = u, stamp = 0, classification_label = l, velocity = v,
       collision_point = (d, 0), dist_to_collide_on_decimated_traj = d,
       braking_dist = braking \<rparr>"

text \<open>A vehicle 6 m wide whose front is 4 m ahead and whose rear is 1 m behind its origin.\<close>

definition vehicle_info_example :: VehicleInfo where
  "vehicle_info_example =
     \<lparr> max_longitudinal_offset_m = 4, min_longitudinal_offset_m = - 1, vehicle_width_m = 6 \<rparr>"

text \<open>
  An object 20 m ahead of the ego and on the trajectory, with the given classification
  labels and shape type; its bounding box measures 2 m by 2 m.
\<close>

definition planner_object_example :: "label list \<Rightarrow> 8 word \<Rightarrow> PlannerObject" where
  "planner_object_example ls t =
     \<lparr> predicted_object = object_example ls,
       object_shape = \<lparr> shape_type = t, dimensions_x = 2, dimensions_y = 2,
                        footprint_points = [] \<rparr>,
       dist_from_ego_longitudinal = 20, dist_to_traj_lateral = 0,
       lat_vel_relative_to_traj = 0 \<rparr>"

text \<open>
  A straight trajectory along the x axis; the odometry is stamped half a second after time
  0 and no cluster is seen in the current cycle.
\<close>

definition point_cloud_env_example :: PointCloudEnv where
  "point_cloud_env_example =
     \<lparr> odom_time = 1 / 2, stop_obstacle_stamp = 1 / 2, stop_points = [],
       calcLateralOffset = (\<lambda>(x, y). y),
       get_dist_to_traj_poly = (\<lambda>(x, y). max 0 (\<bar>y\<bar> - 3)),
       calcSignedArcLength = (\<lambda>(x, y). x),
       vehicle_info = vehicle_info_example, dist_to_bumper = 4 \<rparr>"

text \<open>A history entry recorded at time 0 with its collision point at \<open>(x, y)\<close>.\<close>

definition history_entry_example :: "real \<Rightarrow> real \<Rightarrow> StopObstacle" where
  "history_entry_example x y =
     \<lparr> uuid = replicate 32 CHR ''0'', stamp = 0, classification_label = 0, velocity = 0,
       collision_point = (x, y), dist_to_collide_on_decimated_traj = x - 4,
       braking_dist = None \<rparr>"

text \<open>
  An object with the UUID \<^verbatim>\<open>0a\<close>, a car that collides with the trajectory 20 m ahead, seen
  with the relative longitudinal velocity \<open>v\<close> and its own \<^verbatim>\<open>twist.linear.x\<close> \<open>tw\<close>. An object
  that faces the ego has \<open>tw = - v\<close>, one that is aligned with the trajectory \<open>tw = v\<close>.
\<close>

definition observation_example :: "real \<Rightarrow> real \<Rightarrow> Observation" where
  "observation_example v tw =
     \<lparr> observed_uuid = ''0a'', observed_label = CAR, observed_twist_linear_x = tw,
       observed_lon_vel = v, observed_collision = Some ((20, 0), 20) \<rparr>"

text \<open>
  Four cycles a quarter of a second apart in which that object is the only one and its
  relative velocity is 3.25, 3.75, 3.25 and 3.75 m/s, around the exit threshold of 3.5 m/s
  and above the enter threshold of 3 m/s; \<open>facing\<close> tells whether the object faces the ego.
\<close>

definition oscillating_cycles_example :: "bool \<Rightarrow> (real \<times> Observation list) list" where
  "oscillating_cycles_example facing =
     (let tw = (\<lambda>v. if facing then - v else v)
      in [(1 / 4, [observation_example (13 / 4) (tw (13 / 4))]),
          (1 / 2, [observation_example (15 / 4) (tw (15 / 4))]),
          (3 / 4, [observation_example (13 / 4) (tw (13 / 4))]),
          (1, [observation_example (15 / 4) (tw (15 / 4))])])"

text \<open>The lists after a cycle at time 0 that has found the object to require a fixed stop.\<close>

definition filter_state_example :: FilterState where
  "filter_state_example =
     \<lparr> prev_stop_obstacles = [stop_obstacle_example ''0a'' CAR 3 20 None],
       prev_closest_stop_obstacles = [stop_obstacle_example ''0a'' CAR 3 20 None] \<rparr>"

text \<open>The planning parameters with RSS stops switched off.\<close>

definition stop_planning_param_no_rss_example :: StopPlanningParam where
  "stop_planning_param_no_rss_example =
     stop_planning_param_example
       \<lparr> rss_params := (rss_params stop_planning_param_example) \<lparr> use_rss_stop := False \<rparr> \<rparr>"

text \<open>
  Line strings that lie on lines parallel to the x axis, given by the abscissae of their
  start and their end; a point is given by its abscissa. A line string may run in either
  direction. On such line strings lanelet2 computes: the length as the distance of the
  ends, the point at a distance by walking from the start towards the end (from the end
  towards the start for a negative distance) and stopping at the ends, and the arc
  coordinate of a point as the distance from the start to its projection, which stays on
  the line string.
\<close>

definition straight_geometry :: "(real \<times> real, real) Geometry" where
  "straight_geometry =
     \<lparr> geometry_length = (\<lambda>(a, b). \<bar>b - a\<bar>),
       interpolatedPointAtDistance =
         (\<lambda>(a, b) d. if a \<le> b then (if d < 0 then max a (b + d) else min b (a + d))
                     else (if d < 0 then min a (b - d) else max b (a - d))),
       toArcCoordinates_length =
         (\<lambda>(a, b) p. if a \<le> b then max 0 (min (p - a) (b - a))
                     else max 0 (min (a - p) (a - b))) \<rparr>"

text \<open>
  A lanelet that ends on a skewed line: the left bound runs from -2 to 4, the right bound
  from 0 to 1 and the centerline, halfway between them, from -1 to 2.5. And a regular one
  in which all three line strings run from \<open>a\<close> to \<open>b\<close>.
\<close>

definition skewed_lanelet :: "(real \<times> real) Lanelet" where
  "skewed_lanelet =
     \<lparr> centerline2d = (- 1, 5 / 2), leftBound2d = (- 2, 4), rightBound2d = (0, 1) \<rparr>"

definition regular_lanelet :: "real \<Rightarrow> real \<Rightarrow> (real \<times> real) Lanelet" where
  "regular_lanelet a b = \<lparr> centerline2d = (a, b), leftBound2d = (a, b), rightBound2d = (a, b) \<rparr>"

text \<open>
  Three more lanelets. One whose bounds, from 0 to 1, are shorter than its centerline, from
  -2 to 4. One whose left bound runs against the centerline, from 3 to 0. And one whose left
  bound starts 1 m before the centerline and ends with it.
\<close>

definition short_bound_lanelet :: "(real \<times> real) Lanelet" where
  "short_bound_lanelet =
     \<lparr> centerline2d = (- 2, 4), leftBound2d = (0, 1), rightBound2d = (0, 1) \<rparr>"

definition reversed_bound_lanelet :: "(real \<times> real) Lanelet" where
  "reversed_bound_lanelet =
     \<lparr> centerline2d = (0, 3), leftBound2d = (3, 0), rightBound2d = (0, 3) \<rparr>"

definition early_bound_lanelet :: "(real \<times> real) Lanelet" where
  "early_bound_lanelet =
     \<lparr> centerline2d = (0, 2), leftBound2d = (- 1, 2), rightBound2d = (0, 2) \<rparr>"

section \<open>Theorems\<close>

subsection \<open>Field values of the concrete inputs\<close>

lemma label_distinct [simp]:
  "PEDESTRIAN \<noteq> BICYCLE" "BICYCLE \<noteq> PEDESTRIAN" "CAR \<noteq> PEDESTRIAN" "CAR \<noteq> BICYCLE"
  "PEDESTRIAN \<noteq> CAR" "BICYCLE \<noteq> CAR"
  by (simp_all add: PEDESTRIAN_def BICYCLE_def CAR_def)

lemma plan_env_example_fields [simp]:
  "ego_velocity (plan_env_example v) = v"
  "ego_segment_arc_length (plan_env_example v) = 0"
  "ego_position_arc_length (plan_env_example v) = 0"
  "ref_traj_length (plan_env_example v) = 100"
  "closest_behavior_stop_dist (plan_env_example v) = None"
  "probe_curve (plan_env_example v) so = NoCollision"
  "diff_dist_front_points (plan_env_example v) = 0"
  "insert_stop_point (plan_env_example v) s = Some (s, 0)"
  "update_buffer (plan_env_example v) b sp so m = Suc b"
  "get_nearest_active_item (plan_env_example v) b = None"
  by (simp_all add: plan_env_example_def)

lemma stop_obstacle_example_fields [simp]:
  "uuid (stop_obstacle_example u l v d br) = u"
  "stamp (stop_obstacle_example u l v d br) = 0"
  "classification_label (stop_obstacle_example u l v d br) = l"
  "velocity (stop_obstacle_example u l v d br) = v"
  "collision_point (stop_obstacle_example u l v d br) = (d, 0)"
  "dist_to_collide_on_decimated_traj (stop_obstacle_example u l v d br) = d"
  "braking_dist (stop_obstacle_example u l v d br) = br"
  by (simp_all add: stop_obstacle_example_def)

lemma stop_planning_param_example_fields [simp]:
  "stop_margin stop_planning_param_example = 2"
  "terminal_stop_margin stop_planning_param_example = 3"
  "min_behavior_stop_margin stop_planning_param_example = 1"
  "max_negative_velocity stop_planning_param_example = - 1"
  "stop_margin_opposing_traffic stop_planning_param_example = 10"
  "effective_deceleration_opposing_traffic stop_planning_param_example = 1"
  "hold_stop_velocity_threshold stop_planning_param_example = 1 / 8"
  "hold_stop_distance_threshold stop_planning_param_example = 1 / 2"
  "enable_approaching_on_curve stop_planning_param_example = False"
  "min_stop_margin_on_curve stop_planning_param_example = 1"
  "obstacle_velocity_threshold_enter_fixed_stop stop_planning_param_example = 3"
  "obstacle_velocity_threshold_exit_fixed_stop stop_planning_param_example = 7 / 2"
  "use_rss_stop (rss_params stop_planning_param_example) = True"
  "get_param_type stop_planning_param_example l =
     (if l = PEDESTRIAN then ''pedestrian'' else if l = BICYCLE then ''bicycle'' else ''default'')"
  "get_param stop_planning_param_example l = object_param_example (l = BICYCLE)"
  by (simp_all add: stop_planning_param_example_def)

lemma object_param_example_fields [simp]:
  "limit_min_acc (object_param_example ab) = - (5 / 2)"
  "sudden_object_acc_threshold (object_param_example ab) = - 1"
  "sudden_object_dist_threshold (object_param_example ab) = 1000"
  "abandon_to_stop (object_param_example ab) = ab"
  by (simp_all add: object_param_example_def)

lemma common_param_example_fields [simp]:
  "limit_max_accel common_param_example = 1"
  "limit_min_accel common_param_example = - 4"
  by (simp_all add: common_param_example_def)

lemma stop_state_example_fields [simp]:
  "prev_stop_distance_info stop_state_example = None"
  "path_length_buffer stop_state_example = 0"
  by (simp_all add: stop_state_example_def)

lemma filtering_param_example_fields [simp]:
  "use_pointcloud filtering_param_example = True"
  "max_lat_margin filtering_param_example = 1"
  "stop_obstacle_hold_time_threshold filtering_param_example = 1"
  by (simp_all add: filtering_param_example_def)

lemma value_or_simps [simp]: "value_or None d = d" "value_or (Some v) d = v"
  by (simp_all add: value_or_def)

text \<open>An obstacle at rest within the trajectory gets the plain margin of 2 m.\<close>

lemma example_margin_plain:
  "velocity so = 0 \<Longrightarrow> D \<le> 100 \<Longrightarrow>
   calc_desired_stop_margin stop_planning_param_example filtering_param_example
     (plan_env_example v) so D = 2"
  by (simp add: calc_desired_stop_margin_def calc_margin_from_obstacle_on_curve_def
      default_stop_margin_def)

lemma example_candidate_plain:
  "velocity so = 0 \<Longrightarrow> combined so \<le> 100 \<Longrightarrow>
   candidate_of False common_param_example stop_planning_param_example filtering_param_example
     (plan_env_example v) so = Some (max 0 (combined so - 2))"
  by (simp add: candidate_of_def combined_def example_margin_plain
      calc_candidate_zero_vel_dist_def)

text \<open>A car 20 m ahead, oncoming at 5 m/s while the ego drives at 5 m/s.\<close>

lemma example_margin_oncoming:
  "calc_desired_stop_margin stop_planning_param_example filtering_param_example
     (plan_env_example 5) (stop_obstacle_example ''0c'' CAR (- 5) 20 None) 20 = - (15 / 4)"
  by (simp add: calc_desired_stop_margin_def calc_margin_from_obstacle_on_curve_def
      default_stop_margin_def T_coast_def braking_distance_def distance_obs_ego_braking_def)

lemma example_candidate_oncoming:
  "candidate_of False common_param_example stop_planning_param_example filtering_param_example
     (plan_env_example 5) (stop_obstacle_example ''0c'' CAR (- 5) 20 None) = Some (95 / 4)"
  by (simp add: candidate_of_def example_margin_oncoming calc_candidate_zero_vel_dist_def)

lemma determine_stop_single:
  "candidate_of f cp spp ofp env x = Some z \<Longrightarrow>
   determine_stop f cp spp ofp env [x] =
     \<lparr> determined_stop_obstacle = Some x, determined_zero_vel_dist = Some z,
       determined_desired_stop_margin =
         Some (calc_desired_stop_margin spp ofp env x
                (ego_segment_arc_length env + dist_to_collide_on_decimated_traj x
                  + value_or (braking_dist x) 0)) \<rparr>"
  by (simp add: determine_stop_def get_closest_stop_obstacles_def plan_stop_step_def
      candidate_of_def nothing_determined_def Let_def)

lemma observation_example_fields [simp]:
  "observed_uuid (observation_example v tw) = ''0a''"
  "observed_label (observation_example v tw) = CAR"
  "observed_twist_linear_x (observation_example v tw) = tw"
  "observed_lon_vel (observation_example v tw) = v"
  "observed_collision (observation_example v tw) = Some ((20, 0), 20)"
  by (simp_all add: observation_example_def)

lemma filter_state_example_fields [simp]:
  "prev_stop_obstacles filter_state_example = [stop_obstacle_example ''0a'' CAR 3 20 None]"
  "prev_closest_stop_obstacles filter_state_example = [stop_obstacle_example ''0a'' CAR 3 20 None]"
  by (simp_all add: filter_state_example_def)

lemma stop_planning_param_no_rss_example_fields [simp]:
  "obstacle_velocity_threshold_enter_fixed_stop stop_planning_param_no_rss_example = 3"
  "obstacle_velocity_threshold_exit_fixed_stop stop_planning_param_no_rss_example = 7 / 2"
  "use_rss_stop (rss_params stop_planning_param_no_rss_example) = False"
  by (simp_all add: stop_planning_param_no_rss_example_def stop_planning_param_example_def)

subsection \<open>C8: cropping with a reversed range\<close>

text \<open>
  C8. For every line string and all crop bounds with \<open>s_start > s_end\<close>,
  \<^verbatim>\<open>crop_line_string\<close> returns the input line string unchanged, whatever the trajectory
  container would do: it raises nothing and does not return the empty result.
\<close>

theorem crop_line_string_reversed_range:
  "s_start > s_end \<Longrightarrow>
     crop_line_string build crop restore line_string s_start s_end = line_string"
  by (simp add: crop_line_string_def)

theorem crop_line_string_reversed_range_witness:
  "(3::real) > 1 \<and>
   crop_line_string (\<lambda>ps. if length ps < 2 then None else Some ps) (\<lambda>t s l. [])
      (\<lambda>t. t) [(0, 0), (1, 0), (2, 0)] 3 1 = [(0, 0), (1, 0), (2, 0)]"
  using crop_line_string_reversed_range
    [of 1 3 "\<lambda>ps. if length ps < 2 then None else Some ps" "\<lambda>t s l. []" "\<lambda>t. t"
        "[(0, 0), (1, 0), (2, 0)]"]
  by simp

subsection \<open>C9: the errors of \<^verbatim>\<open>init\<close> and of a planning cycle\<close>

lemma calc_object_possible_max_dist_from_center_error:
  "(\<exists>e. calc_object_possible_max_dist_from_center s = Inl e) \<longleftrightarrow>
     shape_type s \<noteq> BOUNDING_BOX \<and> shape_type s \<noteq> CYLINDER \<and> shape_type s \<noteq> POLYGON"
  by (simp add: calc_object_possible_max_dist_from_center_def)

lemma rough_filtering_error:
  "(\<exists>e. rough_filtering ofp vehicle object = Inl e) \<longleftrightarrow>
     0 \<le> dist_from_ego_longitudinal object \<and>
     ((shape_type (object_shape object) \<noteq> BOUNDING_BOX \<and>
       shape_type (object_shape object) \<noteq> CYLINDER \<and>
       shape_type (object_shape object) \<noteq> POLYGON) \<or>
      classification (predicted_object object) = [])"
  using calc_object_possible_max_dist_from_center_error [of "object_shape object"]
  by (auto simp: rough_filtering_def calc_possible_min_dist_from_obj_to_traj_poly_def
      split: sum.splits list.splits)

text \<open>
  C9, as stated, also says that no per-cycle operation raises on degenerate but well-typed
  input. The rough filter, which every cycle runs on every object, raises for an object
  ahead of the ego whose classification vector is empty (\<^verbatim>\<open>classification.at(0)\<close>), and
  for one whose shape type is none of the three known ones (the \<^verbatim>\<open>throw\<close> of
  \<^verbatim>\<open>calc_object_possible_max_dist_from_center\<close>); \<^verbatim>\<open>calc_estimation_time\<close> reads the
  classification in the same way.
\<close>

theorem per_cycle_error_counterexample:
  "rough_filtering filtering_param_example vehicle_info_example
     (planner_object_example [] BOUNDING_BOX) = Inl OutOfRange \<and>
   rough_filtering filtering_param_example vehicle_info_example
     (planner_object_example [CAR] 3)
     = Inl (LogicError ''The shape type is not supported in motion_velocity_planner_common.'') \<and>
   calc_estimation_time (object_example []) filtering_param_example = Inl OutOfRange"
  by (simp add: rough_filtering_def calc_possible_min_dist_from_obj_to_traj_poly_def
      calc_object_possible_max_dist_from_center_def planner_object_example_def
      calc_estimation_time_def object_example_def BOUNDING_BOX_def CYLINDER_def POLYGON_def)

text \<open>
  C9, amended. \<^verbatim>\<open>init\<close> raises (an invalid-argument error, at start-up) if and only if the
  point-cloud mask lateral margin is strictly smaller than the maximum lateral stop margin.
  Within a cycle, the rough filter raises if and only if the object is not behind the ego
  and its shape type is unknown or its classification vector is empty, and
  \<^verbatim>\<open>calc_estimation_time\<close> raises if and only if the classification vector is empty.
\<close>

theorem init_and_cycle_errors:
  "((\<exists>e. init node = Inl e) \<longleftrightarrow>
      mask_lat_margin node < max_lat_margin (obstacle_filtering_param_loaded node)) \<and>
   ((\<exists>e. init node = Inl e) \<longleftrightarrow>
      init node = Inl (InvalidArgument ''point-cloud mask narrower than stop margin'')) \<and>
   ((\<exists>e. rough_filtering ofp vehicle object = Inl e) \<longleftrightarrow>
      0 \<le> dist_from_ego_longitudinal object \<and>
      ((shape_type (object_shape object) \<noteq> BOUNDING_BOX \<and>
        shape_type (object_shape object) \<noteq> CYLINDER \<and>
        shape_type (object_shape object) \<noteq> POLYGON) \<or>
       classification (predicted_object object) = [])) \<and>
   ((\<exists>e. calc_estimation_time obj p = Inl e) \<longleftrightarrow> classification obj = [])"
proof (intro conjI)
  show "(\<exists>e. init node = Inl e) \<longleftrightarrow>
      mask_lat_margin node < max_lat_margin (obstacle_filtering_param_loaded node)"
    by (simp add: init_def)
  show "(\<exists>e. init node = Inl e) \<longleftrightarrow>
      init node = Inl (InvalidArgument ''point-cloud mask narrower than stop margin'')"
    by (simp add: init_def)
  show "(\<exists>e. rough_filtering ofp vehicle object = Inl e) \<longleftrightarrow>
      0 \<le> dist_from_ego_longitudinal object \<and>
      ((shape_type (object_shape object) \<noteq> BOUNDING_BOX \<and>
        shape_type (object_shape object) \<noteq> CYLINDER \<and>
        shape_type (object_shape object) \<noteq> POLYGON) \<or>
       classification (predicted_object object) = [])"
    by (rule rough_filtering_error)
  show "(\<exists>e. calc_estimation_time obj p = Inl e) \<longleftrightarrow> classification obj = []"
    by (auto simp: calc_estimation_time_def split: list.splits)
qed

text \<open>
  A configuration whose mask margin of 1/2 m is narrower than the maximum lateral margin of
  1 m is refused; with a mask margin of 2 m the module is set up.
\<close>

theorem init_and_cycle_errors_witness:
  "init \<lparr> ignore_crossing_obstacle_param = True, suppress_sudden_stop_param = True,
          obstacle_filtering_param_loaded = filtering_param_example, mask_lat_margin = 1 / 2,
          update_distance_th = 1, min_off_duration = 1, min_on_duration = 1 \<rparr>
     = Inl (InvalidArgument ''point-cloud mask narrower than stop margin'') \<and>
   (\<exists>m. init \<lparr> ignore_crossing_obstacle_param = True, suppress_sudden_stop_param = True,
                obstacle_filtering_param_loaded = filtering_param_example, mask_lat_margin = 2,
                update_distance_th = 1, min_off_duration = 1, min_on_duration = 1 \<rparr> = Inr m) \<and>
   (\<exists>r. rough_filtering filtering_param_example vehicle_info_example
           (planner_object_example [CAR] BOUNDING_BOX) = Inr r)"
proof -
  let ?n = "\<lambda>m. \<lparr> ignore_crossing_obstacle_param = True, suppress_sudden_stop_param = True,
          obstacle_filtering_param_loaded = filtering_param_example, mask_lat_margin = m,
          update_distance_th = 1, min_off_duration = 1, min_on_duration = 1 \<rparr>"
  note t = init_and_cycle_errors
    [where ofp = filtering_param_example and vehicle = vehicle_info_example
       and object = "planner_object_example [CAR] BOUNDING_BOX"]
  have a: "init (?n (1 / 2)) = Inl (InvalidArgument ''point-cloud mask narrower than stop margin'')"
    using t [where node = "?n (1 / 2)", THEN conjunct1]
      t [where node = "?n (1 / 2)", THEN conjunct2, THEN conjunct1]
    by simp
  have "\<not> (\<exists>e. init (?n 2) = Inl e)"
    using t [where node = "?n 2", THEN conjunct1] by simp
  then have b: "\<exists>m. init (?n 2) = Inr m"
    by (cases "init (?n 2)") auto
  have "\<not> (\<exists>e. rough_filtering filtering_param_example vehicle_info_example
           (planner_object_example [CAR] BOUNDING_BOX) = Inl e)"
    using t [where node = "?n 2", THEN conjunct2, THEN conjunct2, THEN conjunct1]
    by (simp add: planner_object_example_def object_example_def)
  then have c: "\<exists>r. rough_filtering filtering_param_example vehicle_info_example
           (planner_object_example [CAR] BOUNDING_BOX) = Inr r"
    by (cases "rough_filtering filtering_param_example vehicle_info_example
           (planner_object_example [CAR] BOUNDING_BOX)") auto
  from a b c show ?thesis by simp
qed

subsection \<open>C10: the estimation time of \<^verbatim>\<open>calc_estimation_time\<close>\<close>

lemma BICYCLE_neq_PEDESTRIAN: "BICYCLE \<noteq> PEDESTRIAN"
  by (simp add: BICYCLE_def PEDESTRIAN_def)

text \<open>
  The estimation time of a pedestrian or a bicycle of the outside stop-object types, with
  the deceleration \<open>dec\<close> of its class, in arithmetic: the horizon when the deceleration is
  at most the machine epsilon, else the smaller of the horizon and the speed divided by
  twice the deceleration.
\<close>

lemma calc_estimation_time_two_wheel_or_pedestrian:
  assumes c: "classification obj = l # ls"
    and m: "l \<in> set (outside_stop_object_types p)"
    and l: "l = PEDESTRIAN \<or> l = BICYCLE"
    and d: "dec = (if l = PEDESTRIAN then outside_pedestrian_deceleration p
                   else outside_bicycle_deceleration p)"
  shows "calc_estimation_time obj p =
     Inr (if dec \<le> 1 / 2 ^ 52 then outside_estimation_time_horizon p
          else if outside_estimation_time_horizon p
                  < sqrt ((twist_linear_x obj)\<^sup>2 + (twist_linear_y obj)\<^sup>2) / (2 * dec)
          then outside_estimation_time_horizon p
          else sqrt ((twist_linear_x obj)\<^sup>2 + (twist_linear_y obj)\<^sup>2) / (2 * dec))"
proof -
  let ?v = "sqrt ((twist_linear_x obj)\<^sup>2 + (twist_linear_y obj)\<^sup>2)"
  have h: "hypot (twist_linear_x obj) (twist_linear_y obj) = ?v"
    by (simp add: hypot_def power2_eq_square)
  have e: "equivalent_estimation_time obj dec =
      (if dec \<le> 1 / 2 ^ 52 then PInf else Fin (?v / (2 * dec)))"
    by (simp add: equivalent_estimation_time_def double_epsilon_def h)
  have n: "dec > 1 / 2 ^ 52 \<Longrightarrow> \<not> ?v / (2 * dec) < 0"
  proof -
    assume "dec > 1 / 2 ^ 52"
    then have "0 < dec" by (simp add: less_trans [rotated])
    then have "0 \<le> ?v / (2 * dec)" by simp
    then show ?thesis by simp
  qed
  have r: "calc_estimation_time obj p =
      Inr (std_clamp (equivalent_estimation_time obj dec) 0 (outside_estimation_time_horizon p))"
    using c m l d BICYCLE_neq_PEDESTRIAN
    by (auto simp: calc_estimation_time_def is_in_vector_def)
  show ?thesis
  proof (cases "dec \<le> 1 / 2 ^ 52")
    case True
    then show ?thesis by (simp add: r e)
  next
    case False
    then have "dec > 1 / 2 ^ 52" by simp
    from n [OF this] False show ?thesis by (simp add: r e)
  qed
qed

text \<open>
  C10. Let the object's first classification label be \<open>l\<close>. If \<open>l\<close> is not among the outside
  stop-object types, \<^verbatim>\<open>calc_estimation_time\<close> returns exactly 0. If it is, and \<open>l\<close> is
  PEDESTRIAN or BICYCLE with the deceleration \<open>dec\<close> configured for that class, then with
  \<open>t = sqrt (vx * vx + vy * vy) / (2 * dec)\<close>, the object's speed divided by twice the
  deceleration: for a deceleration above the machine epsilon \<open>2 ^ -52\<close> the result is \<open>t\<close>
  itself when \<open>t\<close> is at most the estimation horizon and the horizon when \<open>t\<close> exceeds it; a
  deceleration of at most the machine epsilon, so every non-positive one, yields the horizon
  and no division is attempted; and whenever the horizon is not negative the result lies
  between 0 and the horizon.
\<close>

theorem calc_estimation_time_contract:
  assumes "classification obj = l # ls"
  shows
    "(l \<notin> set (outside_stop_object_types p) \<longrightarrow> calc_estimation_time obj p = Inr 0) \<and>
     (l \<in> set (outside_stop_object_types p) \<and> (l = PEDESTRIAN \<or> l = BICYCLE) \<longrightarrow>
        (let dec = (if l = PEDESTRIAN then outside_pedestrian_deceleration p
                    else outside_bicycle_deceleration p);
             t = sqrt ((twist_linear_x obj)\<^sup>2 + (twist_linear_y obj)\<^sup>2) / (2 * dec);
             horizon = outside_estimation_time_horizon p
         in (1 / 2 ^ 52 < dec \<and> t \<le> horizon \<longrightarrow> calc_estimation_time obj p = Inr t) \<and>
            (1 / 2 ^ 52 < dec \<and> horizon < t \<longrightarrow> calc_estimation_time obj p = Inr horizon) \<and>
            (dec \<le> 1 / 2 ^ 52 \<longrightarrow> calc_estimation_time obj p = Inr horizon) \<and>
            (dec \<le> 0 \<longrightarrow> calc_estimation_time obj p = Inr horizon) \<and>
            (0 \<le> horizon \<longrightarrow>
               (\<exists>r. calc_estimation_time obj p = Inr r \<and> 0 \<le> r \<and> r \<le> horizon))))"
proof (rule conjI; rule impI)
  assume "l \<notin> set (outside_stop_object_types p)"
  with assms show "calc_estimation_time obj p = Inr 0"
    by (simp add: calc_estimation_time_def is_in_vector_def)
next
  assume a: "l \<in> set (outside_stop_object_types p) \<and> (l = PEDESTRIAN \<or> l = BICYCLE)"
  define dec where "dec = (if l = PEDESTRIAN then outside_pedestrian_deceleration p
                           else outside_bicycle_deceleration p)"
  define t where "t = sqrt ((twist_linear_x obj)\<^sup>2 + (twist_linear_y obj)\<^sup>2) / (2 * dec)"
  define horizon where "horizon = outside_estimation_time_horizon p"
  have r: "calc_estimation_time obj p =
      Inr (if dec \<le> 1 / 2 ^ 52 then horizon else if horizon < t then horizon else t)"
    unfolding t_def horizon_def
    using a by (intro calc_estimation_time_two_wheel_or_pedestrian [OF assms _ _ dec_def]) simp_all
  have pos: "0 < (1::real) / 2 ^ 52" by simp
  have t0: "1 / 2 ^ 52 < dec \<Longrightarrow> 0 \<le> t"
  proof -
    assume "1 / 2 ^ 52 < dec"
    with pos have "0 < dec" by (rule less_trans)
    then show "0 \<le> t" by (simp add: t_def)
  qed
  have 1: "1 / 2 ^ 52 < dec \<and> t \<le> horizon \<longrightarrow> calc_estimation_time obj p = Inr t"
    by (simp add: r)
  have 2: "1 / 2 ^ 52 < dec \<and> horizon < t \<longrightarrow> calc_estimation_time obj p = Inr horizon"
    by (simp add: r)
  have 3: "dec \<le> 1 / 2 ^ 52 \<longrightarrow> calc_estimation_time obj p = Inr horizon"
    by (simp add: r)
  have 4: "dec \<le> 0 \<longrightarrow> calc_estimation_time obj p = Inr horizon"
  proof
    assume "dec \<le> 0"
    with pos have "dec \<le> 1 / 2 ^ 52" by linarith
    with 3 show "calc_estimation_time obj p = Inr horizon" by blast
  qed
  have 5: "0 \<le> horizon \<longrightarrow> (\<exists>r. calc_estimation_time obj p = Inr r \<and> 0 \<le> r \<and> r \<le> horizon)"
  proof
    assume h: "0 \<le> horizon"
    show "\<exists>r. calc_estimation_time obj p = Inr r \<and> 0 \<le> r \<and> r \<le> horizon"
    proof (cases "dec \<le> 1 / 2 ^ 52")
      case True
      with h show ?thesis by (simp add: r)
    next
      case False
      then have "1 / 2 ^ 52 < dec" by simp
      from t0 [OF this] h False show ?thesis by (simp add: r)
    qed
  qed
  from 1 2 3 4 5 show "let dec = (if l = PEDESTRIAN then outside_pedestrian_deceleration p
                    else outside_bicycle_deceleration p);
             t = sqrt ((twist_linear_x obj)\<^sup>2 + (twist_linear_y obj)\<^sup>2) / (2 * dec);
             horizon = outside_estimation_time_horizon p
         in (1 / 2 ^ 52 < dec \<and> t \<le> horizon \<longrightarrow> calc_estimation_time obj p = Inr t) \<and>
            (1 / 2 ^ 52 < dec \<and> horizon < t \<longrightarrow> calc_estimation_time obj p = Inr horizon) \<and>
            (dec \<le> 1 / 2 ^ 52 \<longrightarrow> calc_estimation_time obj p = Inr horizon) \<and>
            (dec \<le> 0 \<longrightarrow> calc_estimation_time obj p = Inr horizon) \<and>
            (0 \<le> horizon \<longrightarrow>
               (\<exists>r. calc_estimation_time obj p = Inr r \<and> 0 \<le> r \<and> r \<le> horizon))"
    unfolding Let_def dec_def [symmetric] t_def [symmetric] horizon_def [symmetric]
    by blast
qed

lemma sqrt_example_speed: "sqrt (3\<^sup>2 + 4\<^sup>2) = 5"
  by (simp add: real_sqrt_unique)

text \<open>
  An object moving at 5 m/s (twist 3 and 4 m/s), outside types bicycle and pedestrian,
  horizon 1 s. As a car: 0. As a pedestrian with a deceleration of 4: 5 / 8 s, inside the
  horizon and passed through. As a pedestrian with a deceleration of 1: 5 / 2 s, cut to
  the horizon of 1 s. As a pedestrian with a deceleration of 10 and a horizon of 1 / 4 s:
  exactly the horizon. As a bicycle with a deceleration of 0: the horizon, no division.
\<close>

theorem calc_estimation_time_contract_witness:
  "calc_estimation_time (object_example [CAR]) filtering_param_example = Inr 0 \<and>
   calc_estimation_time (object_example [PEDESTRIAN, CAR])
     (filtering_param_example \<lparr> outside_pedestrian_deceleration := 4 \<rparr>) = Inr (5 / 8) \<and>
   calc_estimation_time (object_example [PEDESTRIAN, CAR]) filtering_param_example = Inr 1 \<and>
   calc_estimation_time (object_example [PEDESTRIAN, CAR])
     (filtering_param_example \<lparr> outside_pedestrian_deceleration := 10,
                                 outside_estimation_time_horizon := 1 / 4 \<rparr>) = Inr (1 / 4) \<and>
   calc_estimation_time (object_example [BICYCLE]) filtering_param_example = Inr 1"
proof -
  have car: "calc_estimation_time (object_example [CAR]) filtering_param_example = Inr 0"
    using calc_estimation_time_contract
      [of "object_example [CAR]" CAR "[]" filtering_param_example]
    by (simp add: object_example_def filtering_param_example_def
        CAR_def PEDESTRIAN_def BICYCLE_def)
  have inside: "calc_estimation_time (object_example [PEDESTRIAN, CAR])
     (filtering_param_example \<lparr> outside_pedestrian_deceleration := 4 \<rparr>) = Inr (5 / 8)"
    using calc_estimation_time_contract
      [of "object_example [PEDESTRIAN, CAR]" PEDESTRIAN "[CAR]"
          "filtering_param_example \<lparr> outside_pedestrian_deceleration := 4 \<rparr>"]
    by (simp add: Let_def object_example_def filtering_param_example_def sqrt_example_speed)
  have cut: "calc_estimation_time (object_example [PEDESTRIAN, CAR]) filtering_param_example
      = Inr 1"
    using calc_estimation_time_contract
      [of "object_example [PEDESTRIAN, CAR]" PEDESTRIAN "[CAR]" filtering_param_example]
    by (simp add: Let_def object_example_def filtering_param_example_def sqrt_example_speed)
  have edge: "calc_estimation_time (object_example [PEDESTRIAN, CAR])
     (filtering_param_example \<lparr> outside_pedestrian_deceleration := 10,
                                 outside_estimation_time_horizon := 1 / 4 \<rparr>) = Inr (1 / 4)"
    using calc_estimation_time_contract
      [of "object_example [PEDESTRIAN, CAR]" PEDESTRIAN "[CAR]"
          "filtering_param_example \<lparr> outside_pedestrian_deceleration := 10,
                                      outside_estimation_time_horizon := 1 / 4 \<rparr>"]
    by (simp add: Let_def object_example_def filtering_param_example_def sqrt_example_speed)
  have bicycle: "calc_estimation_time (object_example [BICYCLE]) filtering_param_example = Inr 1"
    using calc_estimation_time_contract
      [of "object_example [BICYCLE]" BICYCLE "[]" filtering_param_example]
    by (simp add: Let_def object_example_def filtering_param_example_def BICYCLE_neq_PEDESTRIAN)
  from car inside cut edge bicycle show ?thesis by simp
qed

subsection \<open>C1: the obstacle that \<^verbatim>\<open>plan_stop\<close> determines among those of one label\<close>

lemma update_candidates_set:
  "set (update_candidates cs so) \<subseteq> insert so (set cs)"
  by (induction cs) auto

lemma update_candidates_labels:
  "classification_label ` set (update_candidates cs so)
     = insert (classification_label so) (classification_label ` set cs)"
  by (induction cs) auto

lemma update_candidates_distinct:
  "distinct (map classification_label cs) \<Longrightarrow>
     distinct (map classification_label (update_candidates cs so))"
proof (induction cs)
  case Nil
  then show ?case by simp
next
  case (Cons co cs)
  then show ?case
    using update_candidates_labels [of cs so] by (auto simp: image_iff)
qed

lemma update_candidates_old_bound:
  "distinct (map classification_label cs) \<Longrightarrow> c \<in> set (update_candidates cs so) \<Longrightarrow>
     classification_label c = classification_label so \<Longrightarrow> combined c \<le> combined so"
  by (induction cs) (auto simp: combined_def image_iff split: if_splits)

lemma update_candidates_new_bound:
  "distinct (map classification_label cs) \<Longrightarrow> so \<in> set (update_candidates cs so) \<Longrightarrow>
     c \<in> set cs \<Longrightarrow> classification_label c = classification_label so \<Longrightarrow>
     combined so \<le> combined c"
  by (induction cs) (auto simp: combined_def image_iff split: if_splits)

lemma update_candidates_minimal:
  assumes d: "distinct (map classification_label cs)"
    and cov: "classification_label ` S \<subseteq> classification_label ` set cs"
    and mn: "\<forall>c \<in> set cs. \<forall>ob \<in> S.
               classification_label ob = classification_label c \<longrightarrow> combined c \<le> combined ob"
    and c: "c \<in> set (update_candidates cs x)" and ob: "ob \<in> insert x S"
    and l: "classification_label ob = classification_label c"
  shows "combined c \<le> combined ob"
proof (cases "ob = x")
  case True
  with c l d show ?thesis by (simp add: update_candidates_old_bound)
next
  case False
  with ob have obS: "ob \<in> S" by simp
  show ?thesis
  proof (cases "c \<in> set cs")
    case True
    with obS l mn show ?thesis by blast
  next
    case False
    with c update_candidates_set [of cs x] have cx: "c = x" by auto
    from cov obS have "classification_label ob \<in> classification_label ` set cs" by blast
    then obtain c' where c': "c' \<in> set cs"
      and l': "classification_label c' = classification_label ob" by (auto simp: image_iff)
    from mn c' obS l' have "combined c' \<le> combined ob" by simp
    moreover have "x \<in> set (update_candidates cs x)" using c cx by simp
    from update_candidates_new_bound [OF d this c'] l l' cx
    have "combined x \<le> combined c'" by simp
    ultimately show ?thesis using cx by simp
  qed
qed

lemma foldl_update_candidates_invariant:
  "distinct (map classification_label cs) \<Longrightarrow> set cs \<subseteq> S \<Longrightarrow>
   classification_label ` S \<subseteq> classification_label ` set cs \<Longrightarrow>
   (\<forall>c \<in> set cs. \<forall>ob \<in> S.
       classification_label ob = classification_label c \<longrightarrow> combined c \<le> combined ob) \<Longrightarrow>
   distinct (map classification_label (foldl update_candidates cs xs)) \<and>
   set (foldl update_candidates cs xs) \<subseteq> S \<union> set xs \<and>
   (\<forall>c \<in> set (foldl update_candidates cs xs). \<forall>ob \<in> S \<union> set xs.
       classification_label ob = classification_label c \<longrightarrow> combined c \<le> combined ob)"
proof (induction xs arbitrary: cs S)
  case Nil
  then show ?case by simp
next
  case (Cons x xs)
  have i1: "distinct (map classification_label (update_candidates cs x))"
    using Cons.prems(1) by (rule update_candidates_distinct)
  have i2: "set (update_candidates cs x) \<subseteq> insert x S"
    using update_candidates_set [of cs x] Cons.prems(2) by auto
  have i3: "classification_label ` insert x S
          \<subseteq> classification_label ` set (update_candidates cs x)"
    using Cons.prems(3) by (auto simp: update_candidates_labels)
  have i4: "\<forall>c \<in> set (update_candidates cs x). \<forall>ob \<in> insert x S.
       classification_label ob = classification_label c \<longrightarrow> combined c \<le> combined ob"
    using update_candidates_minimal [OF Cons.prems(1) Cons.prems(3) Cons.prems(4)] by blast
  from Cons.IH [OF i1 i2 i3 i4] show ?case by simp
qed

lemma get_closest_stop_obstacles_closest:
  "distinct (map classification_label (get_closest_stop_obstacles obs)) \<and>
   set (get_closest_stop_obstacles obs) \<subseteq> set obs \<and>
   (\<forall>c \<in> set (get_closest_stop_obstacles obs). \<forall>ob \<in> set obs.
       classification_label ob = classification_label c \<longrightarrow> combined c \<le> combined ob)"
  using foldl_update_candidates_invariant [of "[]" "{}" obs]
  by (simp add: get_closest_stop_obstacles_def)

lemma plan_stop_step_determined:
  "determined_stop_obstacle (plan_stop_step f cp spp ofp env d so)
     = determined_stop_obstacle d \<or>
   determined_stop_obstacle (plan_stop_step f cp spp ofp env d so) = Some so"
  by (simp add: plan_stop_step_def Let_def split: option.splits)

lemma foldl_plan_stop_step_determined:
  "determined_stop_obstacle (foldl (plan_stop_step f cp spp ofp env) d xs) = Some x \<Longrightarrow>
     x \<in> set xs \<or> determined_stop_obstacle d = Some x"
proof (induction xs arbitrary: d)
  case Nil
  then show ?case by simp
next
  case (Cons y ys)
  from Cons.IH [of "plan_stop_step f cp spp ofp env d y"] Cons.prems
  have "x \<in> set ys \<or> determined_stop_obstacle (plan_stop_step f cp spp ofp env d y) = Some x"
    by simp
  with plan_stop_step_determined [of f cp spp ofp env d y] show ?case by auto
qed

lemma get_closest_stop_obstacles_pair:
  "classification_label a = classification_label b \<Longrightarrow>
     get_closest_stop_obstacles [a, b] = [if combined b < combined a then b else a]"
  by (simp add: get_closest_stop_obstacles_def combined_def)

lemma plan_stop_step_first:
  "candidate_of f cp spp ofp env x = Some z \<Longrightarrow>
     determined_stop_obstacle (plan_stop_step f cp spp ofp env nothing_determined x) = Some x"
  by (simp add: plan_stop_step_def candidate_of_def nothing_determined_def Let_def)

text \<open>
  The comparison for two obstacles of one label is never reached: the loop runs over the
  closest obstacles, whose labels are pairwise distinct, and the determined obstacle is one
  that the loop has already passed. The selection is therefore the specified one.
\<close>

lemma plan_stop_step_other_label:
  "(\<forall>det. determined_stop_obstacle d = Some det \<longrightarrow>
       classification_label det \<noteq> classification_label x) \<Longrightarrow>
   plan_stop_step f cp spp ofp env d x = plan_stop_step_as_specified f cp spp ofp env d x"
  by (auto simp: plan_stop_step_def plan_stop_step_as_specified_def Let_def
      split: option.splits)

lemma foldl_plan_stop_step_distinct_labels:
  "distinct (map classification_label xs) \<Longrightarrow>
   (\<forall>det. determined_stop_obstacle d = Some det \<longrightarrow>
       classification_label det \<notin> classification_label ` set xs) \<Longrightarrow>
   foldl (plan_stop_step f cp spp ofp env) d xs
     = foldl (plan_stop_step_as_specified f cp spp ofp env) d xs"
proof (induction xs arbitrary: d)
  case Nil
  then show ?case by simp
next
  case (Cons x xs)
  have same: "plan_stop_step f cp spp ofp env d x = plan_stop_step_as_specified f cp spp ofp env d x"
    using Cons.prems(2) by (intro plan_stop_step_other_label) auto
  have "\<forall>det. determined_stop_obstacle (plan_stop_step f cp spp ofp env d x) = Some det \<longrightarrow>
       classification_label det \<notin> classification_label ` set xs"
  proof (intro allI impI)
    fix det
    assume "determined_stop_obstacle (plan_stop_step f cp spp ofp env d x) = Some det"
    with plan_stop_step_determined [of f cp spp ofp env d x]
    have "determined_stop_obstacle d = Some det \<or> det = x" by auto
    then show "classification_label det \<notin> classification_label ` set xs"
      using Cons.prems by auto
  qed
  from Cons.IH [OF _ this] Cons.prems(1) same show ?case by simp
qed

lemma determine_stop_as_specified_eq:
  "determine_stop f cp spp ofp env obs = determine_stop_as_specified f cp spp ofp env obs"
  using get_closest_stop_obstacles_closest [of obs]
  by (simp add: determine_stop_def determine_stop_as_specified_def nothing_determined_def
      foldl_plan_stop_step_distinct_labels)

text \<open>
  C1. Whatever stop obstacles a cycle hands to \<^verbatim>\<open>plan_stop\<close>, the obstacle it determines
  is one of them and no obstacle of the same classification label has a smaller distance to
  collision plus braking distance (0 when absent). In particular, of two candidates with the
  same label that both yield a candidate stop distance, the one with the smaller sum is
  determined (the first one when the sums are equal). The selection of the code is the
  selection in which same-label candidates are compared by that sum.
\<close>

theorem plan_stop_same_label_closest:
  "(determined_stop_obstacle (determine_stop f cp spp ofp env obs) = Some d \<longrightarrow>
      d \<in> set obs \<and>
      (\<forall>ob \<in> set obs. classification_label ob = classification_label d \<longrightarrow>
         dist_to_collide_on_decimated_traj d + value_or (braking_dist d) 0
           \<le> dist_to_collide_on_decimated_traj ob + value_or (braking_dist ob) 0)) \<and>
   (classification_label a = classification_label b \<and>
    candidate_of f cp spp ofp env a \<noteq> None \<and> candidate_of f cp spp ofp env b \<noteq> None \<longrightarrow>
      determined_stop_obstacle (determine_stop f cp spp ofp env [a, b])
        = Some (if dist_to_collide_on_decimated_traj b + value_or (braking_dist b) 0
                    < dist_to_collide_on_decimated_traj a + value_or (braking_dist a) 0
                then b else a)) \<and>
   determine_stop f cp spp ofp env obs = determine_stop_as_specified f cp spp ofp env obs"
proof (intro conjI)
  show "determined_stop_obstacle (determine_stop f cp spp ofp env obs) = Some d \<longrightarrow>
      d \<in> set obs \<and>
      (\<forall>ob \<in> set obs. classification_label ob = classification_label d \<longrightarrow>
         dist_to_collide_on_decimated_traj d + value_or (braking_dist d) 0
           \<le> dist_to_collide_on_decimated_traj ob + value_or (braking_dist ob) 0)"
  proof
    assume "determined_stop_obstacle (determine_stop f cp spp ofp env obs) = Some d"
    then have "d \<in> set (get_closest_stop_obstacles obs)"
      using foldl_plan_stop_step_determined
        [of f cp spp ofp env nothing_determined "get_closest_stop_obstacles obs" d]
      by (simp add: determine_stop_def nothing_determined_def)
    with get_closest_stop_obstacles_closest [of obs]
    show "d \<in> set obs \<and>
        (\<forall>ob \<in> set obs. classification_label ob = classification_label d \<longrightarrow>
           dist_to_collide_on_decimated_traj d + value_or (braking_dist d) 0
             \<le> dist_to_collide_on_decimated_traj ob + value_or (braking_dist ob) 0)"
      by (auto simp: combined_def)
  qed
next
  show "classification_label a = classification_label b \<and>
    candidate_of f cp spp ofp env a \<noteq> None \<and> candidate_of f cp spp ofp env b \<noteq> None \<longrightarrow>
      determined_stop_obstacle (determine_stop f cp spp ofp env [a, b])
        = Some (if dist_to_collide_on_decimated_traj b + value_or (braking_dist b) 0
                    < dist_to_collide_on_decimated_traj a + value_or (braking_dist a) 0
                then b else a)"
  proof
    assume h: "classification_label a = classification_label b \<and>
      candidate_of f cp spp ofp env a \<noteq> None \<and> candidate_of f cp spp ofp env b \<noteq> None"
    let ?c = "if combined b < combined a then b else a"
    from h have "candidate_of f cp spp ofp env ?c \<noteq> None" by (simp split: if_splits)
    then obtain z where "candidate_of f cp spp ofp env ?c = Some z" by blast
    then have "determined_stop_obstacle
        (plan_stop_step f cp spp ofp env nothing_determined ?c) = Some ?c"
      by (rule plan_stop_step_first)
    with h have "determined_stop_obstacle (determine_stop f cp spp ofp env [a, b]) = Some ?c"
      by (simp add: determine_stop_def get_closest_stop_obstacles_pair)
    then show "determined_stop_obstacle (determine_stop f cp spp ofp env [a, b])
          = Some (if dist_to_collide_on_decimated_traj b + value_or (braking_dist b) 0
                      < dist_to_collide_on_decimated_traj a + value_or (braking_dist a) 0
                  then b else a)"
      by (simp add: combined_def)
  qed
next
  show "determine_stop f cp spp ofp env obs = determine_stop_as_specified f cp spp ofp env obs"
    by (rule determine_stop_as_specified_eq)
qed

text \<open>
  Two pedestrians at rest: one 5 m ahead with a braking distance of 3 m, one 3 m ahead with
  a braking distance of 10 m. The first has the smaller sum and is determined, in either
  order of arrival.
\<close>

theorem plan_stop_same_label_closest_witness:
  "determined_stop_obstacle
     (determine_stop False common_param_example stop_planning_param_example
        filtering_param_example (plan_env_example 5)
        [stop_obstacle_example ''0a'' PEDESTRIAN 0 5 (Some 3),
         stop_obstacle_example ''0b'' PEDESTRIAN 0 3 (Some 10)])
     = Some (stop_obstacle_example ''0a'' PEDESTRIAN 0 5 (Some 3)) \<and>
   determined_stop_obstacle
     (determine_stop False common_param_example stop_planning_param_example
        filtering_param_example (plan_env_example 5)
        [stop_obstacle_example ''0b'' PEDESTRIAN 0 3 (Some 10),
         stop_obstacle_example ''0a'' PEDESTRIAN 0 5 (Some 3)])
     = Some (stop_obstacle_example ''0a'' PEDESTRIAN 0 5 (Some 3)) \<and>
   combined (stop_obstacle_example ''0a'' PEDESTRIAN 0 5 (Some 3))
     \<le> combined (stop_obstacle_example ''0b'' PEDESTRIAN 0 3 (Some 10)) \<and>
   stop_obstacle_example ''0a'' PEDESTRIAN 0 5 (Some 3)
     \<in> set [stop_obstacle_example ''0b'' PEDESTRIAN 0 3 (Some 10),
            stop_obstacle_example ''0a'' PEDESTRIAN 0 5 (Some 3)]"
proof -
  let ?a = "stop_obstacle_example ''0a'' PEDESTRIAN 0 5 (Some 3)"
  let ?b = "stop_obstacle_example ''0b'' PEDESTRIAN 0 3 (Some 10)"
  note t = plan_stop_same_label_closest
    [where f = False and cp = common_param_example and spp = stop_planning_param_example
       and ofp = filtering_param_example and env = "plan_env_example 5"]
  have c: "candidate_of False common_param_example stop_planning_param_example
             filtering_param_example (plan_env_example 5) ?a \<noteq> None"
    "candidate_of False common_param_example stop_planning_param_example
             filtering_param_example (plan_env_example 5) ?b \<noteq> None"
    by (simp_all add: example_candidate_plain combined_def)
  have ab: "determined_stop_obstacle
      (determine_stop False common_param_example stop_planning_param_example
         filtering_param_example (plan_env_example 5) [?a, ?b]) = Some ?a"
    using t [where a = ?a and b = ?b, THEN conjunct2, THEN conjunct1] c by simp
  have ba: "determined_stop_obstacle
      (determine_stop False common_param_example stop_planning_param_example
         filtering_param_example (plan_env_example 5) [?b, ?a]) = Some ?a"
    using t [where a = ?b and b = ?a, THEN conjunct2, THEN conjunct1] c by simp
  from t [where obs = "[?b, ?a]" and d = ?a, THEN conjunct1] ba
  have "?a \<in> set [?b, ?a] \<and> combined ?a \<le> combined ?b"
    by (simp add: combined_def)
  with ab ba show ?thesis by simp
qed

text \<open>
  What the comparison as written would do if it were reached: with the pedestrian 5 m ahead
  already determined, the one 3 m ahead with the braking distance of 10 m would replace it,
  since 3 + 3 is not greater than 5 + 3. No list of stop obstacles leads \<^verbatim>\<open>plan_stop\<close>
  into this state.
\<close>

lemma plan_stop_step_same_label_as_written:
  "determined_stop_obstacle
     (plan_stop_step False common_param_example stop_planning_param_example
        filtering_param_example (plan_env_example 5)
        \<lparr> determined_stop_obstacle = Some (stop_obstacle_example ''0a'' PEDESTRIAN 0 5 (Some 3)),
          determined_zero_vel_dist = Some 6, determined_desired_stop_margin = Some 2 \<rparr>
        (stop_obstacle_example ''0b'' PEDESTRIAN 0 3 (Some 10)))
     = Some (stop_obstacle_example ''0b'' PEDESTRIAN 0 3 (Some 10)) \<and>
   determined_stop_obstacle
     (plan_stop_step_as_specified False common_param_example stop_planning_param_example
        filtering_param_example (plan_env_example 5)
        \<lparr> determined_stop_obstacle = Some (stop_obstacle_example ''0a'' PEDESTRIAN 0 5 (Some 3)),
          determined_zero_vel_dist = Some 6, determined_desired_stop_margin = Some 2 \<rparr>
        (stop_obstacle_example ''0b'' PEDESTRIAN 0 3 (Some 10)))
     = Some (stop_obstacle_example ''0a'' PEDESTRIAN 0 5 (Some 3))"
  using example_candidate_plain
    [of "stop_obstacle_example ''0b'' PEDESTRIAN 0 3 (Some 10)" 5]
  by (simp add: plan_stop_step_def plan_stop_step_as_specified_def candidate_of_def
      combined_def Let_def)

subsection \<open>C2: the history-aging pass of \<^verbatim>\<open>filter_stop_obstacle_for_point_cloud\<close>\<close>

text \<open>
  When the iterator stands on an entry that is younger than the hold time and fails a
  lateral test, the loop never returns: every unfolding leads back to the same state.
\<close>

lemma age_history_stuck_aux:
  assumes "age_history env ofp history i past = Some r"
  shows "\<not> (i < length history \<and> stuck_entry env ofp (history ! i))"
proof (rule age_history.raw_induct
    [where P = "\<lambda>env ofp history i past r.
       \<not> (i < length history \<and> stuck_entry env ofp (history ! i))", OF _ assms])
  fix f :: "PointCloudEnv \<Rightarrow> ObstacleFilteringParam \<Rightarrow> StopObstacle list \<Rightarrow> nat
      \<Rightarrow> StopObstacle list \<Rightarrow> (StopObstacle list \<times> StopObstacle list) option"
  fix env ofp history i past r
  assume IH: "\<And>env ofp history i past r. f env ofp history i past = Some r \<Longrightarrow>
      \<not> (i < length history \<and> stuck_entry env ofp (history ! i))"
  assume step:
    "(if i \<ge> length history then Some (history, past)
      else if elapsed_time env (history ! i) \<ge> stop_obstacle_hold_time_threshold ofp
      then f env ofp (erase history i) i past
      else if min_lat_dist_to_traj_poly env (history ! i) \<ge> max_lat_margin ofp
      then f env ofp history i past
      else if precise_min_lat_dist_to_traj_poly env (history ! i) \<ge> max_lat_margin ofp
      then f env ofp history i past
      else f env ofp history (i + 1)
             (past @
                [(history ! i)\<lparr>dist_to_collide_on_decimated_traj :=
                    calcSignedArcLength env (collision_point (history ! i))
                      - dist_to_bumper env\<rparr>])) = Some r"
  show "\<not> (i < length history \<and> stuck_entry env ofp (history ! i))"
  proof
    assume s: "i < length history \<and> stuck_entry env ofp (history ! i)"
    with step have "f env ofp history i past = Some r"
      by (auto simp: stuck_entry_def split: if_splits)
    from IH [OF this] s show False by simp
  qed
qed

lemma age_history_stuck:
  "i < length history \<Longrightarrow> stuck_entry env ofp (history ! i) \<Longrightarrow>
     age_history env ofp history i past = None"
  using age_history_stuck_aux [of env ofp history i past]
  by (cases "age_history env ofp history i past") auto

text \<open>
  Without such an entry the loop returns: the number of entries from the iterator to the end
  of the history decreases with every pass.
\<close>

lemma age_history_returns:
  "\<forall>itr \<in> set history. \<not> stuck_entry env ofp itr \<Longrightarrow>
     \<exists>r. age_history env ofp history i past = Some r"
proof (induction "length history - i" arbitrary: history i past rule: less_induct)
  case less
  show ?case
  proof (cases "i \<ge> length history")
    case True
    then show ?thesis by (subst age_history.simps) simp
  next
    case False
    then have il: "i < length history" by simp
    then have ns: "\<not> stuck_entry env ofp (history ! i)" using less.prems by simp
    show ?thesis
    proof (cases "elapsed_time env (history ! i) \<ge> stop_obstacle_hold_time_threshold ofp")
      case True
      have len: "length (erase history i) - i < length history - i"
        using il by (simp add: erase_def)
      have "set (erase history i) \<subseteq> set history"
        by (auto simp: erase_def dest: in_set_takeD in_set_dropD)
      with less.prems have "\<forall>itr \<in> set (erase history i). \<not> stuck_entry env ofp itr" by blast
      from less.hyps [OF len this, of past] obtain r where
        "age_history env ofp (erase history i) i past = Some r" by blast
      with True il show ?thesis by (subst age_history.simps) simp
    next
      case False
      with ns have ok: "\<not> min_lat_dist_to_traj_poly env (history ! i) \<ge> max_lat_margin ofp"
        "\<not> precise_min_lat_dist_to_traj_poly env (history ! i) \<ge> max_lat_margin ofp"
        by (auto simp: stuck_entry_def)
      have len: "length history - (i + 1) < length history - i" using il by simp
      from less.hyps [OF len less.prems] obtain r where
        "age_history env ofp history (i + 1)
           (past @ [(history ! i)\<lparr>dist_to_collide_on_decimated_traj :=
                      calcSignedArcLength env (collision_point (history ! i))
                        - dist_to_bumper env\<rparr>]) = Some r" by blast
      with False ok il show ?thesis by (subst age_history.simps) simp
    qed
  qed
qed

lemma history_entry_example_stuck:
  "stuck_entry point_cloud_env_example filtering_param_example (history_entry_example 10 8)"
  by (simp add: stuck_entry_def elapsed_time_def min_lat_dist_to_traj_poly_def
      point_cloud_env_example_def vehicle_info_example_def history_entry_example_def hypot_def)

text \<open>
  C2 fails on the code. The history holds one entry, recorded half a second ago (hold time
  1 s), whose collision point lies 8 m beside the trajectory (rough lateral distance 3 m,
  maximum lateral margin 1 m). The aging pass does not return and neither does
  \<^verbatim>\<open>filter_stop_obstacle_for_point_cloud\<close>; the entry is never removed.
\<close>

theorem history_aging_diverges:
  "elapsed_time point_cloud_env_example (history_entry_example 10 8)
     < stop_obstacle_hold_time_threshold filtering_param_example \<and>
   min_lat_dist_to_traj_poly point_cloud_env_example (history_entry_example 10 8)
     \<ge> max_lat_margin filtering_param_example \<and>
   age_history point_cloud_env_example filtering_param_example
     [history_entry_example 10 8] 0 [] = None \<and>
   filter_stop_obstacle_for_point_cloud point_cloud_env_example filtering_param_example
     [history_entry_example 10 8] = None"
proof -
  have "age_history point_cloud_env_example filtering_param_example
      [history_entry_example 10 8] 0 [] = None"
    by (rule age_history_stuck) (simp_all add: history_entry_example_stuck)
  then show ?thesis
    using history_entry_example_stuck
    by (simp add: filter_stop_obstacle_for_point_cloud_def stuck_entry_def
        elapsed_time_def min_lat_dist_to_traj_poly_def
        point_cloud_env_example_def vehicle_info_example_def history_entry_example_def hypot_def)
qed

subsection \<open>C3: which stops pass through the path-length buffer\<close>

lemma calc_stop_point_buffer:
  "path_length_buffer (snd (calc_stop_point env st z)) = path_length_buffer st"
  by (simp add: calc_stop_point_def split: option.splits)

text \<open>
  C3, as stated, fails in both directions. A pedestrian at rest 20 m ahead is not below the
  threshold of -1 m/s: the code returns the stop point at 18 m directly and leaves the buffer
  alone, although the buffer, once fed, would have no active item. A car oncoming at 5 m/s is
  below the threshold: the code feeds the buffer and returns its answer, none, although a
  stop point at 23.75 m was computed.
\<close>

theorem plan_stop_buffer_counterexample:
  "\<not> velocity (stop_obstacle_example ''0a'' PEDESTRIAN 0 20 None)
       < max_negative_velocity stop_planning_param_example \<and>
   plan_stop False common_param_example stop_planning_param_example filtering_param_example
     (plan_env_example 5) stop_state_example [stop_obstacle_example ''0a'' PEDESTRIAN 0 20 None]
     = (Some (18, 0), stop_state_example\<lparr>prev_stop_distance_info := Some 18\<rparr>) \<and>
   get_nearest_active_item (plan_env_example 5)
     (update_buffer (plan_env_example 5) (path_length_buffer stop_state_example)
        (Some (18, 0)) (stop_obstacle_example ''0a'' PEDESTRIAN 0 20 None) 2) = None \<and>
   velocity (stop_obstacle_example ''0c'' CAR (- 5) 20 None)
     < max_negative_velocity stop_planning_param_example \<and>
   plan_stop False common_param_example stop_planning_param_example filtering_param_example
     (plan_env_example 5) stop_state_example [stop_obstacle_example ''0c'' CAR (- 5) 20 None]
     = (None, stop_state_example\<lparr>prev_stop_distance_info := Some (95 / 4),
                                  path_length_buffer := 1\<rparr>) \<and>
   fst (calc_stop_point (plan_env_example 5) stop_state_example (95 / 4)) = Some (95 / 4, 0)"
  by (simp add: plan_stop_def determine_stop_single [OF example_candidate_oncoming]
      determine_stop_single example_candidate_plain combined_def
      hold_previous_stop_if_necessary_def calc_stop_point_def)

text \<open>
  C3, amended. For every cycle in which a stop obstacle is determined: if the determined
  obstacle's velocity is not below the configured large-negative threshold, \<^verbatim>\<open>plan_stop\<close>
  returns the computed stop point directly and does not touch the path-length buffer;
  otherwise (fast oncoming) the computed stop point is fed into the buffer and the stop point
  of the buffer's nearest active item, or none, is returned.
\<close>

theorem plan_stop_buffer_branches:
  assumes "stop_obstacles \<noteq> []"
    and "determine_stop f cp spp ofp env stop_obstacles =
           \<lparr> determined_stop_obstacle = Some so, determined_zero_vel_dist = Some z,
             determined_desired_stop_margin = Some m \<rparr>"
  shows
    "(max_negative_velocity spp \<le> velocity so \<longrightarrow>
        plan_stop f cp spp ofp env st stop_obstacles
          = calc_stop_point env st (hold_previous_stop_if_necessary spp env st z) \<and>
        path_length_buffer (snd (plan_stop f cp spp ofp env st stop_obstacles))
          = path_length_buffer st) \<and>
     (velocity so < max_negative_velocity spp \<longrightarrow>
        path_length_buffer (snd (plan_stop f cp spp ofp env st stop_obstacles))
          = update_buffer env (path_length_buffer st)
              (fst (calc_stop_point env st (hold_previous_stop_if_necessary spp env st z)))
              so m \<and>
        fst (plan_stop f cp spp ofp env st stop_obstacles)
          = map_option buffered_stop_point
              (get_nearest_active_item env
                 (path_length_buffer (snd (plan_stop f cp spp ofp env st stop_obstacles)))))"
proof (rule conjI; rule impI)
  assume "max_negative_velocity spp \<le> velocity so"
  with assms have "plan_stop f cp spp ofp env st stop_obstacles
      = calc_stop_point env st (hold_previous_stop_if_necessary spp env st z)"
    by (simp add: plan_stop_def split: prod.splits)
  then show "plan_stop f cp spp ofp env st stop_obstacles
          = calc_stop_point env st (hold_previous_stop_if_necessary spp env st z) \<and>
        path_length_buffer (snd (plan_stop f cp spp ofp env st stop_obstacles))
          = path_length_buffer st"
    by (simp add: calc_stop_point_buffer)
next
  assume v: "velocity so < max_negative_velocity spp"
  let ?r = "calc_stop_point env st (hold_previous_stop_if_necessary spp env st z)"
  let ?b = "update_buffer env (path_length_buffer (snd ?r)) (fst ?r) so m"
  from v assms have "plan_stop f cp spp ofp env st stop_obstacles
      = (map_option buffered_stop_point (get_nearest_active_item env ?b),
         (snd ?r)\<lparr>path_length_buffer := ?b\<rparr>)"
    by (simp add: plan_stop_def Let_def split: prod.splits)
  then show "path_length_buffer (snd (plan_stop f cp spp ofp env st stop_obstacles))
          = update_buffer env (path_length_buffer st)
              (fst (calc_stop_point env st (hold_previous_stop_if_necessary spp env st z)))
              so m \<and>
        fst (plan_stop f cp spp ofp env st stop_obstacles)
          = map_option buffered_stop_point
              (get_nearest_active_item env
                 (path_length_buffer (snd (plan_stop f cp spp ofp env st stop_obstacles))))"
    by (simp add: calc_stop_point_buffer)
qed

theorem plan_stop_buffer_branches_witness:
  "plan_stop False common_param_example stop_planning_param_example filtering_param_example
     (plan_env_example 5) stop_state_example [stop_obstacle_example ''0a'' PEDESTRIAN 0 20 None]
     = calc_stop_point (plan_env_example 5) stop_state_example 18 \<and>
   path_length_buffer
     (snd (plan_stop False common_param_example stop_planning_param_example
             filtering_param_example (plan_env_example 5) stop_state_example
             [stop_obstacle_example ''0c'' CAR (- 5) 20 None])) = 1 \<and>
   fst (plan_stop False common_param_example stop_planning_param_example
          filtering_param_example (plan_env_example 5) stop_state_example
          [stop_obstacle_example ''0c'' CAR (- 5) 20 None]) = None"
proof -
  have n: "[stop_obstacle_example ''0a'' PEDESTRIAN 0 20 None] \<noteq> []"
    "[stop_obstacle_example ''0c'' CAR (- 5) 20 None] \<noteq> []"
    by simp_all
  have p: "candidate_of False common_param_example stop_planning_param_example
      filtering_param_example (plan_env_example 5)
      (stop_obstacle_example ''0a'' PEDESTRIAN 0 20 None) = Some 18"
    by (simp add: example_candidate_plain combined_def)
  have m: "calc_desired_stop_margin stop_planning_param_example filtering_param_example
      (plan_env_example 5) (stop_obstacle_example ''0a'' PEDESTRIAN 0 20 None) 20 = 2"
    by (simp add: example_margin_plain)
  from plan_stop_buffer_branches [OF n(1) determine_stop_single [OF p], of stop_state_example]
    plan_stop_buffer_branches
      [OF n(2) determine_stop_single [OF example_candidate_oncoming], of stop_state_example]
  show ?thesis
    by (simp add: hold_previous_stop_if_necessary_def calc_stop_point_def)
qed

subsection \<open>C4: the enter and exit thresholds of the fixed stop\<close>

lemma get_obstacle_from_uuid_first:
  "\<forall>p \<in> set pre. uuid p \<noteq> u \<Longrightarrow> uuid so = u \<Longrightarrow>
   get_obstacle_from_uuid (pre @ so # post) u = Some so"
  by (induction pre) (simp_all add: get_obstacle_from_uuid_def)

lemma get_obstacle_from_uuid_none:
  "\<forall>p \<in> set prev. uuid p \<noteq> u \<Longrightarrow> get_obstacle_from_uuid prev u = None"
  by (simp add: get_obstacle_from_uuid_def find_None_iff)

lemma get_obstacle_from_uuid_Some:
  "get_obstacle_from_uuid prev u = Some so \<Longrightarrow> so \<in> set prev \<and> uuid so = u"
  by (auto simp: get_obstacle_from_uuid_def find_Some_iff)

lemma fixed_stop_recorded:
  assumes "\<forall>p \<in> set pre. uuid p \<noteq> u" and "uuid so = u" and "braking_dist so = None"
  shows "is_obstacle_velocity_requiring_fixed_stop spp (pre @ so # post) u v
           \<longleftrightarrow> v \<le> obstacle_velocity_threshold_exit_fixed_stop spp"
  using assms
  by (auto simp: is_obstacle_velocity_requiring_fixed_stop_def get_obstacle_from_uuid_first)

lemma fixed_stop_without_record:
  assumes "holds_no_fixed_stop prev u"
  shows "is_obstacle_velocity_requiring_fixed_stop spp prev u v
           \<longleftrightarrow> v < obstacle_velocity_threshold_enter_fixed_stop spp"
proof (cases "get_obstacle_from_uuid prev u")
  case None
  then show ?thesis by (simp add: is_obstacle_velocity_requiring_fixed_stop_def)
next
  case (Some so)
  from get_obstacle_from_uuid_Some [OF Some] assms have "braking_dist so \<noteq> None"
    by (simp add: holds_no_fixed_stop_def)
  with Some show ?thesis by (simp add: is_obstacle_velocity_requiring_fixed_stop_def)
qed

lemma fixed_stop_rss_recorded:
  assumes "\<forall>p \<in> set pre. uuid p \<noteq> u" and "uuid so = u" and "braking_dist so \<noteq> None"
  shows "is_obstacle_velocity_requiring_fixed_stop spp (pre @ so # post) u v
           \<longleftrightarrow> v < obstacle_velocity_threshold_enter_fixed_stop spp"
  using assms
  by (simp add: is_obstacle_velocity_requiring_fixed_stop_def get_obstacle_from_uuid_first)

lemma fixed_stop_not_recorded:
  assumes "\<forall>p \<in> set prev. uuid p \<noteq> u"
  shows "is_obstacle_velocity_requiring_fixed_stop spp prev u v
           \<longleftrightarrow> v < obstacle_velocity_threshold_enter_fixed_stop spp"
  using assms
  by (simp add: is_obstacle_velocity_requiring_fixed_stop_def get_obstacle_from_uuid_none)

text \<open>What a picked stop obstacle tells about the object it was picked from.\<close>

lemma pick_stop_obstacle_Some:
  assumes "pick_stop_obstacle_from_predicted_object spp prev t ob = Some so"
  shows "uuid so = observed_uuid ob"
    and "observed_collision ob \<noteq> None"
    and "braking_dist so = None \<longleftrightarrow>
           is_obstacle_velocity_requiring_fixed_stop spp prev (observed_uuid ob)
             (observed_lon_vel ob)"
  using assms
  by (auto simp: pick_stop_obstacle_from_predicted_object_def emit_stop_obstacle_def
      split: option.splits if_splits prod.splits)

lemma pick_stop_obstacle_rss:
  assumes "use_rss_stop (rss_params spp)" and "observed_collision ob \<noteq> None"
  shows "\<exists>so. pick_stop_obstacle_from_predicted_object spp prev t ob = Some so"
  using assms
  by (auto simp: pick_stop_obstacle_from_predicted_object_def emit_stop_obstacle_def
      split: option.splits if_splits prod.splits)

lemma map_filter_set:
  "so \<in> set (List.map_filter f xs) \<longleftrightarrow> (\<exists>x \<in> set xs. f x = Some so)"
  by (induction xs) (auto simp: map_filter_simps split: option.splits)

text \<open>One pass of the loop of \<^verbatim>\<open>check_consistency\<close> leaves the list or pushes the obstacle.\<close>

lemma check_consistency_step_cases:
  "check_consistency_step spp ofp t objects acc p = acc \<or>
   (check_consistency_step spp ofp t objects acc p = acc @ [p] \<and>
    (\<forall>so \<in> set acc. uuid so \<noteq> uuid p) \<and>
    (\<exists>ob \<in> set objects. observed_uuid ob = uuid p \<and>
        (\<forall>ob' \<in> set objects. observed_uuid ob' = uuid p \<longrightarrow>
            length (filter (\<lambda>x. observed_uuid x = uuid p) objects) \<le> 1 \<longrightarrow> ob' = ob) \<and>
        observed_twist_linear_x ob < obstacle_velocity_threshold_enter_fixed_stop spp))"
proof (cases "find (\<lambda>ob. observed_uuid ob = uuid p) objects")
  case None
  then show ?thesis by (simp add: check_consistency_step_def)
next
  case (Some ob)
  then have m: "ob \<in> set objects" and u: "observed_uuid ob = uuid p"
    by (auto simp: find_Some_iff)
  have uniq: "\<forall>ob' \<in> set objects. observed_uuid ob' = uuid p \<longrightarrow>
      length (filter (\<lambda>x. observed_uuid x = uuid p) objects) \<le> 1 \<longrightarrow> ob' = ob"
  proof (intro ballI impI)
    fix ob'
    assume a: "ob' \<in> set objects" "observed_uuid ob' = uuid p"
      "length (filter (\<lambda>x. observed_uuid x = uuid p) objects) \<le> 1"
    let ?f = "filter (\<lambda>x. observed_uuid x = uuid p) objects"
    from m u have 1: "ob \<in> set ?f" by simp
    from a have 2: "ob' \<in> set ?f" by simp
    from a(3) 1 obtain y where "?f = [y]"
      by (cases ?f) (auto simp: length_Suc_conv)
    with 1 2 show "ob' = ob" by simp
  qed
  from Some m u uniq show ?thesis
    by (auto simp: check_consistency_step_def Let_def list_all_iff)
qed

lemma check_consistency_loop_set:
  "set (foldl (check_consistency_step spp ofp t objects) acc ps) \<subseteq> set acc \<union> set ps"
proof (induction ps arbitrary: acc)
  case Nil
  then show ?case by simp
next
  case (Cons p ps)
  from check_consistency_step_cases [of spp ofp t objects acc p]
  have "set (check_consistency_step spp ofp t objects acc p) \<subseteq> insert p (set acc)"
    by auto
  with Cons.IH [of "check_consistency_step spp ofp t objects acc p"] show ?case
    by auto
qed

text \<open>
  The loop pushes no obstacle with the UUID \<open>u\<close> when the list already holds one, or when the
  objects with that UUID have a \<^verbatim>\<open>twist.linear.x\<close> of at least the enter threshold.
\<close>

lemma check_consistency_loop_keeps:
  assumes "(\<exists>so \<in> set acc. uuid so = u) \<or>
           (\<forall>ob \<in> set objects. observed_uuid ob = u \<longrightarrow>
              obstacle_velocity_threshold_enter_fixed_stop spp \<le> observed_twist_linear_x ob)"
    and "x \<in> set (foldl (check_consistency_step spp ofp t objects) acc ps)"
    and "uuid x = u"
  shows "x \<in> set acc"
  using assms
proof (induction ps arbitrary: acc)
  case Nil
  then show ?case by simp
next
  case (Cons p ps)
  let ?acc = "check_consistency_step spp ofp t objects acc p"
  from check_consistency_step_cases [of spp ofp t objects acc p]
  consider (same) "?acc = acc"
    | (pushed) "?acc = acc @ [p]" "\<forall>so \<in> set acc. uuid so \<noteq> uuid p"
        "\<exists>ob \<in> set objects. observed_uuid ob = uuid p \<and>
           observed_twist_linear_x ob < obstacle_velocity_threshold_enter_fixed_stop spp"
    by blast
  then show ?case
  proof cases
    case same
    with Cons.IH [of acc] Cons.prems show ?thesis by simp
  next
    case pushed
    have ne: "uuid p \<noteq> u"
    proof
      assume e: "uuid p = u"
      from Cons.prems(1) show False
      proof
        assume "\<exists>so \<in> set acc. uuid so = u"
        with pushed(2) e show False by blast
      next
        assume "\<forall>ob \<in> set objects. observed_uuid ob = u \<longrightarrow>
              obstacle_velocity_threshold_enter_fixed_stop spp \<le> observed_twist_linear_x ob"
        with pushed(3) e show False by fastforce
      qed
    qed
    from Cons.prems(1) pushed(1)
    have "(\<exists>so \<in> set ?acc. uuid so = u) \<or>
           (\<forall>ob \<in> set objects. observed_uuid ob = u \<longrightarrow>
              obstacle_velocity_threshold_enter_fixed_stop spp \<le> observed_twist_linear_x ob)"
      by auto
    from Cons.IH [OF this] Cons.prems(2,3) have "x \<in> set ?acc" by simp
    with pushed(1) ne Cons.prems(3) show ?thesis by auto
  qed
qed

lemma get_closest_stop_obstacles_set:
  "set (get_closest_stop_obstacles xs) \<subseteq> set xs"
  using get_closest_stop_obstacles_closest [of xs] by blast

text \<open>
  The lists after a cycle hold no fixed stop for \<open>u\<close> when the picked obstacles hold none and
  the loop of \<^verbatim>\<open>check_consistency\<close> pushes none.
\<close>

lemma filter_cycle_state:
  fixes spp ofp st t objects
  defines "picked \<equiv> List.map_filter
      (pick_stop_obstacle_from_predicted_object spp (prev_stop_obstacles st) t) objects"
  defines "st' \<equiv> snd (filter_stop_obstacle_for_predicted_object spp ofp st t objects)"
  shows "prev_stop_obstacles st'
           = foldl (check_consistency_step spp ofp t objects) picked
               (prev_closest_stop_obstacles st)"
    and "set (prev_closest_stop_obstacles st') \<subseteq> set (prev_stop_obstacles st')"
  unfolding picked_def st'_def
  by (simp_all add: filter_stop_obstacle_for_predicted_object_def check_consistency_def Let_def
      get_closest_stop_obstacles_set)

text \<open>While the lists hold no fixed stop for the object, every test is false and they stay so.\<close>

lemma filter_cycle_stays_out:
  fixes spp ofp st t objects u
  assumes i: "holds_no_fixed_stop (prev_stop_obstacles st) u"
      "holds_no_fixed_stop (prev_closest_stop_obstacles st) u"
    and v: "\<forall>ob \<in> set objects. observed_uuid ob = u \<longrightarrow>
              obstacle_velocity_threshold_enter_fixed_stop spp \<le> observed_lon_vel ob"
  defines "st' \<equiv> snd (filter_stop_obstacle_for_predicted_object spp ofp st t objects)"
  shows "holds_no_fixed_stop (prev_stop_obstacles st') u"
    and "holds_no_fixed_stop (prev_closest_stop_obstacles st') u"
proof -
  let ?picked = "List.map_filter
      (pick_stop_obstacle_from_predicted_object spp (prev_stop_obstacles st) t) objects"
  have p: "holds_no_fixed_stop ?picked u"
    unfolding holds_no_fixed_stop_def
  proof (intro ballI impI)
    fix so
    assume a: "so \<in> set ?picked" "uuid so = u"
    then obtain ob where ob: "ob \<in> set objects"
      "pick_stop_obstacle_from_predicted_object spp (prev_stop_obstacles st) t ob = Some so"
      by (auto simp: map_filter_set)
    from pick_stop_obstacle_Some(1) [OF ob(2)] a(2) have u: "observed_uuid ob = u" by simp
    with v ob(1) have "\<not> observed_lon_vel ob < obstacle_velocity_threshold_enter_fixed_stop spp"
      by (simp add: not_less)
    with fixed_stop_without_record [OF i(1)]
    have "\<not> is_obstacle_velocity_requiring_fixed_stop spp (prev_stop_obstacles st) u
              (observed_lon_vel ob)"
      by simp
    with pick_stop_obstacle_Some(3) [OF ob(2)] u show "braking_dist so \<noteq> None" by simp
  qed
  have s: "set (prev_stop_obstacles st') \<subseteq> set ?picked \<union> set (prev_closest_stop_obstacles st)"
    unfolding st'_def filter_cycle_state(1) by (rule check_consistency_loop_set)
  with p i(2) show 1: "holds_no_fixed_stop (prev_stop_obstacles st') u"
    unfolding holds_no_fixed_stop_def by blast
  from filter_cycle_state(2) [of spp ofp st t objects] 1
  show "holds_no_fixed_stop (prev_closest_stop_obstacles st') u"
    unfolding holds_no_fixed_stop_def st'_def by blast
qed

lemma fixed_stop_cycles_stay_out:
  assumes "holds_no_fixed_stop (prev_stop_obstacles st) u"
    and "holds_no_fixed_stop (prev_closest_stop_obstacles st) u"
    and "\<forall>(t, objects) \<in> set cycles. \<forall>ob \<in> set objects. observed_uuid ob = u \<longrightarrow>
           obstacle_velocity_threshold_enter_fixed_stop spp \<le> observed_lon_vel ob"
  shows "True \<notin> set (fixed_stop_cycles spp ofp st u cycles)"
  using assms
proof (induction cycles arbitrary: st)
  case Nil
  then show ?case by simp
next
  case (Cons c cycles)
  obtain t objects where c: "c = (t, objects)" by (cases c)
  let ?st' = "snd (filter_stop_obstacle_for_predicted_object spp ofp st t objects)"
  from Cons.prems(3) c
  have v: "\<forall>ob \<in> set objects. observed_uuid ob = u \<longrightarrow>
              obstacle_velocity_threshold_enter_fixed_stop spp \<le> observed_lon_vel ob"
    and rest: "\<forall>(t, objects) \<in> set cycles. \<forall>ob \<in> set objects. observed_uuid ob = u \<longrightarrow>
           obstacle_velocity_threshold_enter_fixed_stop spp \<le> observed_lon_vel ob"
    by simp_all
  have now: "\<forall>ob \<in> set objects. observed_uuid ob = u \<longrightarrow>
      \<not> is_obstacle_velocity_requiring_fixed_stop spp (prev_stop_obstacles st) u
          (observed_lon_vel ob)"
    using v fixed_stop_without_record [OF Cons.prems(1)] by (simp add: not_less)
  from filter_cycle_stays_out [OF Cons.prems(1,2) v]
  have "True \<notin> set (fixed_stop_cycles spp ofp ?st' u cycles)"
    using rest by (intro Cons.IH)
  with now show ?case by (auto simp: c)
qed

text \<open>
  A cycle in which the test is false for the object, the only one with its UUID, leaves no
  fixed stop for it in the lists, when RSS stops are enabled or the object's
  \<^verbatim>\<open>twist.linear.x\<close> is not below the enter threshold.
\<close>

lemma filter_cycle_leaves:
  fixes spp ofp st t objects u ob
  assumes one: "filter (\<lambda>ob. observed_uuid ob = u) objects = [ob]"
    and c: "observed_collision ob \<noteq> None"
    and f: "\<not> is_obstacle_velocity_requiring_fixed_stop spp (prev_stop_obstacles st) u
              (observed_lon_vel ob)"
    and r: "use_rss_stop (rss_params spp) \<or>
            obstacle_velocity_threshold_enter_fixed_stop spp \<le> observed_twist_linear_x ob"
  defines "st' \<equiv> snd (filter_stop_obstacle_for_predicted_object spp ofp st t objects)"
  shows "holds_no_fixed_stop (prev_stop_obstacles st') u"
    and "holds_no_fixed_stop (prev_closest_stop_obstacles st') u"
proof -
  let ?pick = "pick_stop_obstacle_from_predicted_object spp (prev_stop_obstacles st) t"
  let ?picked = "List.map_filter ?pick objects"
  have only: "\<And>x. x \<in> set objects \<Longrightarrow> observed_uuid x = u \<Longrightarrow> x = ob"
  proof -
    fix x assume "x \<in> set objects" "observed_uuid x = u"
    then have "x \<in> set (filter (\<lambda>ob. observed_uuid ob = u) objects)" by simp
    with one show "x = ob" by simp
  qed
  have ob: "ob \<in> set objects" "observed_uuid ob = u"
  proof -
    have "ob \<in> set (filter (\<lambda>ob. observed_uuid ob = u) objects)" by (simp add: one)
    then show "ob \<in> set objects" "observed_uuid ob = u" by simp_all
  qed
  have p: "holds_no_fixed_stop ?picked u"
    unfolding holds_no_fixed_stop_def
  proof (intro ballI impI)
    fix so
    assume a: "so \<in> set ?picked" "uuid so = u"
    then obtain x where x: "x \<in> set objects" "?pick x = Some so"
      by (auto simp: map_filter_set)
    from pick_stop_obstacle_Some(1) [OF x(2)] a(2) have "observed_uuid x = u" by simp
    with only x(1) have "x = ob" by simp
    with pick_stop_obstacle_Some(3) [OF x(2)] f ob(2) show "braking_dist so \<noteq> None" by simp
  qed
  have k: "(\<exists>so \<in> set ?picked. uuid so = u) \<or>
           (\<forall>x \<in> set objects. observed_uuid x = u \<longrightarrow>
              obstacle_velocity_threshold_enter_fixed_stop spp \<le> observed_twist_linear_x x)"
    using r
  proof
    assume "use_rss_stop (rss_params spp)"
    from pick_stop_obstacle_rss [OF this c] obtain so where so: "?pick ob = Some so" by blast
    with ob(1) have "so \<in> set ?picked" by (auto simp: map_filter_set)
    moreover from pick_stop_obstacle_Some(1) [OF so] ob(2) have "uuid so = u" by simp
    ultimately show ?thesis by blast
  next
    assume "obstacle_velocity_threshold_enter_fixed_stop spp \<le> observed_twist_linear_x ob"
    with only show ?thesis by blast
  qed
  show 1: "holds_no_fixed_stop (prev_stop_obstacles st') u"
    unfolding holds_no_fixed_stop_def
  proof (intro ballI impI)
    fix so
    assume a: "so \<in> set (prev_stop_obstacles st')" "uuid so = u"
    from a(1) have "so \<in> set (foldl (check_consistency_step spp ofp t objects) ?picked
        (prev_closest_stop_obstacles st))"
      unfolding st'_def filter_cycle_state(1) .
    from check_consistency_loop_keeps [OF k this a(2)] have "so \<in> set ?picked" .
    with p a(2) show "braking_dist so \<noteq> None" by (simp add: holds_no_fixed_stop_def)
  qed
  from filter_cycle_state(2) [of spp ofp st t objects] 1
  show "holds_no_fixed_stop (prev_closest_stop_obstacles st') u"
    unfolding holds_no_fixed_stop_def st'_def by blast
qed

lemma filter_at_most_one:
  assumes "length (filter P xs) \<le> 1"
  shows "filter (\<lambda>x. P x \<and> Q x) xs = [] \<or>
         (\<exists>x. filter (\<lambda>x. P x \<and> Q x) xs = [x] \<and> filter P xs = [x] \<and> Q x)"
proof (cases "filter P xs")
  case Nil
  then have "\<forall>x \<in> set xs. \<not> P x" by (simp add: filter_empty_conv)
  then have "filter (\<lambda>x. P x \<and> Q x) xs = []" by (simp add: filter_empty_conv)
  then show ?thesis by simp
next
  case (Cons y ys)
  with assms have y: "filter P xs = [y]" by simp
  have "filter (\<lambda>x. P x \<and> Q x) xs = filter Q (filter P xs)"
    by (simp add: conj_commute)
  with y have "filter (\<lambda>x. P x \<and> Q x) xs = (if Q y then [y] else [])" by simp
  with y show ?thesis by auto
qed

lemma fixed_stop_cycles_never_reenter:
  assumes "\<forall>(t, objects) \<in> set cycles.
             length (filter (\<lambda>ob. observed_uuid ob = u) objects) \<le> 1"
    and "\<forall>(t, objects) \<in> set cycles. \<forall>ob \<in> set objects. observed_uuid ob = u \<longrightarrow>
           obstacle_velocity_threshold_enter_fixed_stop spp \<le> observed_lon_vel ob"
    and "use_rss_stop (rss_params spp) \<or>
         (\<forall>(t, objects) \<in> set cycles. \<forall>ob \<in> set objects. observed_uuid ob = u \<longrightarrow>
            obstacle_velocity_threshold_enter_fixed_stop spp \<le> observed_twist_linear_x ob)"
  shows "never_reenters (fixed_stop_cycles spp ofp st u cycles)"
  using assms
proof (induction cycles arbitrary: st)
  case Nil
  then show ?case by simp
next
  case (Cons c cycles)
  obtain t objects where c: "c = (t, objects)" by (cases c)
  let ?st' = "snd (filter_stop_obstacle_for_predicted_object spp ofp st t objects)"
  from Cons.prems c
  have one: "length (filter (\<lambda>ob. observed_uuid ob = u) objects) \<le> 1"
    and rest1: "\<forall>(t, objects) \<in> set cycles.
             length (filter (\<lambda>ob. observed_uuid ob = u) objects) \<le> 1"
    and rest2: "\<forall>(t, objects) \<in> set cycles. \<forall>ob \<in> set objects. observed_uuid ob = u \<longrightarrow>
           obstacle_velocity_threshold_enter_fixed_stop spp \<le> observed_lon_vel ob"
    and rest3: "use_rss_stop (rss_params spp) \<or>
         (\<forall>(t, objects) \<in> set cycles. \<forall>ob \<in> set objects. observed_uuid ob = u \<longrightarrow>
            obstacle_velocity_threshold_enter_fixed_stop spp \<le> observed_twist_linear_x ob)"
    and tw: "use_rss_stop (rss_params spp) \<or>
         (\<forall>ob \<in> set objects. observed_uuid ob = u \<longrightarrow>
            obstacle_velocity_threshold_enter_fixed_stop spp \<le> observed_twist_linear_x ob)"
    by auto
  have tail: "never_reenters (fixed_stop_cycles spp ofp ?st' u cycles)"
    using rest1 rest2 rest3 by (rule Cons.IH)
  from filter_at_most_one [OF one, of "\<lambda>ob. observed_collision ob \<noteq> None"]
  consider (absent) "filter (\<lambda>ob. observed_uuid ob = u \<and> observed_collision ob \<noteq> None) objects = []"
    | (tested) ob where
        "filter (\<lambda>ob. observed_uuid ob = u \<and> observed_collision ob \<noteq> None) objects = [ob]"
        "filter (\<lambda>ob. observed_uuid ob = u) objects = [ob]" "observed_collision ob \<noteq> None"
    by blast
  then show ?case
  proof cases
    case absent
    with tail show ?thesis by (simp add: c)
  next
    case tested
    show ?thesis
    proof (cases "is_obstacle_velocity_requiring_fixed_stop spp (prev_stop_obstacles st) u
                    (observed_lon_vel ob)")
      case True
      with tail tested(1) show ?thesis by (simp add: c)
    next
      case False
      have "ob \<in> set (filter (\<lambda>ob. observed_uuid ob = u) objects)" by (simp add: tested(2))
      then have "ob \<in> set objects" "observed_uuid ob = u" by simp_all
      with tw have r: "use_rss_stop (rss_params spp) \<or>
            obstacle_velocity_threshold_enter_fixed_stop spp \<le> observed_twist_linear_x ob"
        by blast
      from filter_cycle_leaves [OF tested(2) tested(3) False r]
      have "True \<notin> set (fixed_stop_cycles spp ofp ?st' u cycles)"
        using rest2 by (intro fixed_stop_cycles_stay_out)
      with tail False tested(1) show ?thesis by (simp add: c)
    qed
  qed
qed

text \<open>
  C4. If the first stop obstacle with the object's UUID in the previous cycle's list is a
  fixed stop, one without braking distance,
  \<^verbatim>\<open>is_obstacle_velocity_requiring_fixed_stop\<close> is true if and only if the object's
  relative longitudinal velocity does not exceed the exit threshold; if the list holds no
  stop obstacle with the UUID, or the first one has a braking distance, the function is
  true if and only if the velocity is strictly below the enter threshold. Over successive
  cycles, each with at most one object of that UUID, in which the relative velocity never
  falls below the enter threshold, the classification never turns from false back to true,
  however the velocity moves around the exit threshold, provided that RSS stops are enabled
  or that the object's own \<^verbatim>\<open>twist.linear.x\<close> never falls below the enter threshold either.
\<close>

theorem fixed_stop_hysteresis:
  "(prev = pre @ so # post \<and> (\<forall>p \<in> set pre. uuid p \<noteq> u) \<and> uuid so = u \<and>
    braking_dist so = None \<longrightarrow>
      (is_obstacle_velocity_requiring_fixed_stop spp prev u v
         \<longleftrightarrow> v \<le> obstacle_velocity_threshold_exit_fixed_stop spp)) \<and>
   ((\<forall>p \<in> set prev. uuid p \<noteq> u) \<or>
    (prev = pre @ so # post \<and> (\<forall>p \<in> set pre. uuid p \<noteq> u) \<and> uuid so = u \<and>
     braking_dist so \<noteq> None) \<longrightarrow>
      (is_obstacle_velocity_requiring_fixed_stop spp prev u v
         \<longleftrightarrow> v < obstacle_velocity_threshold_enter_fixed_stop spp)) \<and>
   ((\<forall>(t, objects) \<in> set cycles.
        length (filter (\<lambda>ob. observed_uuid ob = u) objects) \<le> 1) \<and>
    (\<forall>(t, objects) \<in> set cycles. \<forall>ob \<in> set objects. observed_uuid ob = u \<longrightarrow>
        obstacle_velocity_threshold_enter_fixed_stop spp \<le> observed_lon_vel ob) \<and>
    (use_rss_stop (rss_params spp) \<or>
     (\<forall>(t, objects) \<in> set cycles. \<forall>ob \<in> set objects. observed_uuid ob = u \<longrightarrow>
        obstacle_velocity_threshold_enter_fixed_stop spp \<le> observed_twist_linear_x ob)) \<longrightarrow>
      never_reenters (fixed_stop_cycles spp ofp st u cycles))"
proof (intro conjI impI)
  assume "prev = pre @ so # post \<and> (\<forall>p \<in> set pre. uuid p \<noteq> u) \<and> uuid so = u \<and>
    braking_dist so = None"
  then show "is_obstacle_velocity_requiring_fixed_stop spp prev u v
         \<longleftrightarrow> v \<le> obstacle_velocity_threshold_exit_fixed_stop spp"
    using fixed_stop_recorded [of pre u so spp post v] by blast
next
  assume "(\<forall>p \<in> set prev. uuid p \<noteq> u) \<or>
    (prev = pre @ so # post \<and> (\<forall>p \<in> set pre. uuid p \<noteq> u) \<and> uuid so = u \<and>
     braking_dist so \<noteq> None)"
  then show "is_obstacle_velocity_requiring_fixed_stop spp prev u v
         \<longleftrightarrow> v < obstacle_velocity_threshold_enter_fixed_stop spp"
    using fixed_stop_not_recorded [of prev u spp v]
      fixed_stop_rss_recorded [of pre u so spp post v]
    by blast
next
  assume "(\<forall>(t, objects) \<in> set cycles.
        length (filter (\<lambda>ob. observed_uuid ob = u) objects) \<le> 1) \<and>
    (\<forall>(t, objects) \<in> set cycles. \<forall>ob \<in> set objects. observed_uuid ob = u \<longrightarrow>
        obstacle_velocity_threshold_enter_fixed_stop spp \<le> observed_lon_vel ob) \<and>
    (use_rss_stop (rss_params spp) \<or>
     (\<forall>(t, objects) \<in> set cycles. \<forall>ob \<in> set objects. observed_uuid ob = u \<longrightarrow>
        obstacle_velocity_threshold_enter_fixed_stop spp \<le> observed_twist_linear_x ob))"
  then show "never_reenters (fixed_stop_cycles spp ofp st u cycles)"
    using fixed_stop_cycles_never_reenter [of cycles u spp ofp st] by blast
qed

lemmas fixed_stop_run_simps =
  oscillating_cycles_example_def Let_def filter_stop_obstacle_for_predicted_object_def
  check_consistency_def check_consistency_step_def get_closest_stop_obstacles_def
  map_filter_simps pick_stop_obstacle_from_predicted_object_def emit_stop_obstacle_def
  is_obstacle_velocity_requiring_fixed_stop_def get_obstacle_from_uuid_def

lemma example_run_with_rss:
  "fixed_stop_cycles stop_planning_param_example filtering_param_example filter_state_example
     ''0a'' (oscillating_cycles_example True) = [True, False, False, False]"
  by (simp add: fixed_stop_run_simps)

lemma example_run_aligned:
  "fixed_stop_cycles stop_planning_param_no_rss_example filtering_param_example
     filter_state_example ''0a'' (oscillating_cycles_example False)
     = [True, False, False, False]"
  by (simp add: fixed_stop_run_simps)

lemma example_run_facing:
  "fixed_stop_cycles stop_planning_param_no_rss_example filtering_param_example
     filter_state_example ''0a'' (oscillating_cycles_example True)
     = [True, False, True, False]"
  by (simp add: fixed_stop_run_simps)

text \<open>
  Thresholds 3 m/s (enter) and 3.5 m/s (exit). A car recorded as a fixed stop requires one
  at 3.25 m/s and at 3.5 m/s and none at 3.75 m/s. A car that is not recorded, or recorded
  with a braking distance, requires none at 3.25 m/s and at 3 m/s and one at 2 m/s. The
  recorded car is then observed at 3.25, 3.75, 3.25 and 3.75 m/s: it leaves the fixed stop
  in the second cycle and stays out, with RSS stops enabled (the car facing the ego) and
  with RSS stops disabled when the car's own \<^verbatim>\<open>twist.linear.x\<close> equals the relative velocity.
\<close>

theorem fixed_stop_hysteresis_witness:
  "is_obstacle_velocity_requiring_fixed_stop stop_planning_param_example
     [stop_obstacle_example ''0b'' CAR 3 20 (Some 1), stop_obstacle_example ''0a'' CAR 3 20 None,
      stop_obstacle_example ''0a'' CAR 3 20 (Some 1)] ''0a'' (13 / 4) \<and>
   is_obstacle_velocity_requiring_fixed_stop stop_planning_param_example
     [stop_obstacle_example ''0a'' CAR 3 20 None] ''0a'' (7 / 2) \<and>
   \<not> is_obstacle_velocity_requiring_fixed_stop stop_planning_param_example
       [stop_obstacle_example ''0a'' CAR 3 20 None] ''0a'' (15 / 4) \<and>
   \<not> is_obstacle_velocity_requiring_fixed_stop stop_planning_param_example
       [stop_obstacle_example ''0a'' CAR 3 20 (Some 1), stop_obstacle_example ''0a'' CAR 3 20 None]
       ''0a'' (13 / 4) \<and>
   \<not> is_obstacle_velocity_requiring_fixed_stop stop_planning_param_example
       [stop_obstacle_example ''0b'' CAR 3 20 None] ''0a'' 3 \<and>
   is_obstacle_velocity_requiring_fixed_stop stop_planning_param_example
     [stop_obstacle_example ''0b'' CAR 3 20 None] ''0a'' 2 \<and>
   fixed_stop_cycles stop_planning_param_example filtering_param_example filter_state_example
     ''0a'' (oscillating_cycles_example True) = [True, False, False, False] \<and>
   never_reenters
     (fixed_stop_cycles stop_planning_param_example filtering_param_example
        filter_state_example ''0a'' (oscillating_cycles_example True)) \<and>
   fixed_stop_cycles stop_planning_param_no_rss_example filtering_param_example
     filter_state_example ''0a'' (oscillating_cycles_example False)
     = [True, False, False, False] \<and>
   never_reenters
     (fixed_stop_cycles stop_planning_param_no_rss_example filtering_param_example
        filter_state_example ''0a'' (oscillating_cycles_example False))"
proof -
  note t = fixed_stop_hysteresis [where u = "''0a''" and cycles = "[]"
      and spp = stop_planning_param_example]
  have 1: "is_obstacle_velocity_requiring_fixed_stop stop_planning_param_example
     [stop_obstacle_example ''0b'' CAR 3 20 (Some 1), stop_obstacle_example ''0a'' CAR 3 20 None,
      stop_obstacle_example ''0a'' CAR 3 20 (Some 1)] ''0a'' (13 / 4)"
    using t [where pre = "[stop_obstacle_example ''0b'' CAR 3 20 (Some 1)]"
        and so = "stop_obstacle_example ''0a'' CAR 3 20 None"
        and post = "[stop_obstacle_example ''0a'' CAR 3 20 (Some 1)]"
        and prev = "[stop_obstacle_example ''0b'' CAR 3 20 (Some 1),
                     stop_obstacle_example ''0a'' CAR 3 20 None,
                     stop_obstacle_example ''0a'' CAR 3 20 (Some 1)]" and v = "13 / 4"]
    by simp
  have 2: "is_obstacle_velocity_requiring_fixed_stop stop_planning_param_example
     [stop_obstacle_example ''0a'' CAR 3 20 None] ''0a'' (7 / 2)"
    using t [where pre = "[]" and so = "stop_obstacle_example ''0a'' CAR 3 20 None"
        and post = "[]" and prev = "[stop_obstacle_example ''0a'' CAR 3 20 None]"
        and v = "7 / 2"]
    by simp
  have 3: "\<not> is_obstacle_velocity_requiring_fixed_stop stop_planning_param_example
     [stop_obstacle_example ''0a'' CAR 3 20 None] ''0a'' (15 / 4)"
    using t [where pre = "[]" and so = "stop_obstacle_example ''0a'' CAR 3 20 None"
        and post = "[]" and prev = "[stop_obstacle_example ''0a'' CAR 3 20 None]"
        and v = "15 / 4"]
    by simp
  have 4: "\<not> is_obstacle_velocity_requiring_fixed_stop stop_planning_param_example
       [stop_obstacle_example ''0a'' CAR 3 20 (Some 1), stop_obstacle_example ''0a'' CAR 3 20 None]
       ''0a'' (13 / 4)"
    using t [where pre = "[]" and so = "stop_obstacle_example ''0a'' CAR 3 20 (Some 1)"
        and post = "[stop_obstacle_example ''0a'' CAR 3 20 None]"
        and prev = "[stop_obstacle_example ''0a'' CAR 3 20 (Some 1),
                     stop_obstacle_example ''0a'' CAR 3 20 None]"
        and v = "13 / 4"]
    by simp
  have 5: "\<not> is_obstacle_velocity_requiring_fixed_stop stop_planning_param_example
       [stop_obstacle_example ''0b'' CAR 3 20 None] ''0a'' 3"
    using t [where prev = "[stop_obstacle_example ''0b'' CAR 3 20 None]" and v = 3]
    by simp
  have 6: "is_obstacle_velocity_requiring_fixed_stop stop_planning_param_example
       [stop_obstacle_example ''0b'' CAR 3 20 None] ''0a'' 2"
    using t [where prev = "[stop_obstacle_example ''0b'' CAR 3 20 None]" and v = 2]
    by simp
  have 7: "never_reenters
     (fixed_stop_cycles stop_planning_param_example filtering_param_example
        filter_state_example ''0a'' (oscillating_cycles_example True))"
    using fixed_stop_hysteresis [where u = "''0a''" and spp = stop_planning_param_example
        and cycles = "oscillating_cycles_example True" and ofp = filtering_param_example
        and st = filter_state_example]
    by (simp add: oscillating_cycles_example_def)
  have 8: "never_reenters
     (fixed_stop_cycles stop_planning_param_no_rss_example filtering_param_example
        filter_state_example ''0a'' (oscillating_cycles_example False))"
    using fixed_stop_hysteresis [where u = "''0a''" and spp = stop_planning_param_no_rss_example
        and cycles = "oscillating_cycles_example False" and ofp = filtering_param_example
        and st = filter_state_example]
    by (simp add: oscillating_cycles_example_def)
  from 1 2 3 4 5 6 7 8 example_run_with_rss example_run_aligned show ?thesis by blast
qed

text \<open>
  The same four cycles with RSS stops disabled and the car facing the ego, so that its own
  \<^verbatim>\<open>twist.linear.x\<close> is the negative of the relative velocity. In the second cycle the car
  leaves the fixed stop and nothing is picked for it; \<^verbatim>\<open>check_consistency\<close> finds the fixed
  stop of the first cycle among the previous closest stop obstacles, a quarter of a second
  old with a hold time of one second, and pushes it back, since the \<^verbatim>\<open>twist.linear.x\<close> of
  -3.75 m/s is below the enter threshold. The third cycle therefore reads a fixed stop and
  the car, at 3.25 m/s, requires one again: true, false, true, false, though the relative
  velocity never falls below the enter threshold.
\<close>

theorem fixed_stop_toggle_counterexample:
  "obstacle_velocity_threshold_enter_fixed_stop stop_planning_param_no_rss_example = 3 \<and>
   obstacle_velocity_threshold_exit_fixed_stop stop_planning_param_no_rss_example = 7 / 2 \<and>
   map (\<lambda>(t, objects). map observed_lon_vel objects) (oscillating_cycles_example True)
     = [[13 / 4], [15 / 4], [13 / 4], [15 / 4]] \<and>
   map (\<lambda>(t, objects). map observed_uuid objects) (oscillating_cycles_example True)
     = [[''0a''], [''0a''], [''0a''], [''0a'']] \<and>
   fixed_stop_cycles stop_planning_param_no_rss_example filtering_param_example
     filter_state_example ''0a'' (oscillating_cycles_example True)
     = [True, False, True, False] \<and>
   \<not> never_reenters
       (fixed_stop_cycles stop_planning_param_no_rss_example filtering_param_example
          filter_state_example ''0a'' (oscillating_cycles_example True)) \<and>
   prev_stop_obstacles
     (snd (filter_stop_obstacle_for_predicted_object stop_planning_param_no_rss_example
             filtering_param_example
             (snd (filter_stop_obstacle_for_predicted_object stop_planning_param_no_rss_example
                     filtering_param_example filter_state_example (1 / 4)
                     [observation_example (13 / 4) (- (13 / 4))]))
             (1 / 2) [observation_example (15 / 4) (- (15 / 4))]))
     = [\<lparr> uuid = ''0a'', stamp = 1 / 4, classification_label = CAR, velocity = 13 / 4,
          collision_point = (20, 0), dist_to_collide_on_decimated_traj = 20,
          braking_dist = None \<rparr>]"
proof -
  have "prev_stop_obstacles
     (snd (filter_stop_obstacle_for_predicted_object stop_planning_param_no_rss_example
             filtering_param_example
             (snd (filter_stop_obstacle_for_predicted_object stop_planning_param_no_rss_example
                     filtering_param_example filter_state_example (1 / 4)
                     [observation_example (13 / 4) (- (13 / 4))]))
             (1 / 2) [observation_example (15 / 4) (- (15 / 4))]))
     = [\<lparr> uuid = ''0a'', stamp = 1 / 4, classification_label = CAR, velocity = 13 / 4,
          collision_point = (20, 0), dist_to_collide_on_decimated_traj = 20,
          braking_dist = None \<rparr>]"
    by (simp add: fixed_stop_run_simps)
  moreover have "map (\<lambda>(t, objects). map observed_lon_vel objects) (oscillating_cycles_example True)
     = [[13 / 4], [15 / 4], [13 / 4], [15 / 4]]"
    "map (\<lambda>(t, objects). map observed_uuid objects) (oscillating_cycles_example True)
     = [[''0a''], [''0a''], [''0a''], [''0a'']]"
    by (simp_all add: oscillating_cycles_example_def)
  ultimately show ?thesis
    by (simp add: example_run_facing)
qed

subsection \<open>C5: centerline to left bound and back\<close>

lemma totals_simps [simp]:
  "centerline_total g [] = 0" "left_total g [] = 0" "right_total g [] = 0"
  "centerline_total g (l # ls) = geometry_length g (centerline2d l) + centerline_total g ls"
  "left_total g (l # ls) = geometry_length g (leftBound2d l) + left_total g ls"
  "right_total g (l # ls) = geometry_length g (rightBound2d l) + right_total g ls"
  by (simp_all add: centerline_total_def left_total_def right_total_def)

lemma centerline_total_nonneg:
  "\<forall>l \<in> set ls. 0 \<le> geometry_length g (centerline2d l) \<Longrightarrow> 0 \<le> centerline_total g ls"
  by (induction ls) auto

lemma left_total_nonneg:
  "\<forall>l \<in> set ls. 0 \<le> geometry_length g (leftBound2d l) \<Longrightarrow> 0 \<le> left_total g ls"
  by (induction ls) auto

lemma bounds_loop_skip:
  "\<forall>l \<in> set pre. 0 \<le> geometry_length g (centerline2d l) \<Longrightarrow>
   pre \<noteq> [] \<longrightarrow> s + centerline_total g pre < sc \<Longrightarrow>
   get_arc_length_on_bounds_loop g (pre @ rest) sc s sl sr
     = get_arc_length_on_bounds_loop g rest sc (s + centerline_total g pre)
         (sl + left_total g pre) (sr + right_total g pre)"
proof (induction pre arbitrary: s sl sr)
  case Nil
  then show ?case by simp
next
  case (Cons p ps)
  from Cons.prems have nn: "\<forall>l \<in> set ps. 0 \<le> geometry_length g (centerline2d l)" by simp
  from Cons.prems have lt: "s + geometry_length g (centerline2d p) + centerline_total g ps < sc"
    by (simp add: add.assoc)
  with centerline_total_nonneg [OF nn] have "s + geometry_length g (centerline2d p) < sc"
    by linarith
  moreover from lt have "ps \<noteq> [] \<longrightarrow>
      (s + geometry_length g (centerline2d p)) + centerline_total g ps < sc" by simp
  ultimately show ?case
    using Cons.IH [OF nn, of "s + geometry_length g (centerline2d p)"
        "sl + geometry_length g (leftBound2d p)" "sr + geometry_length g (rightBound2d p)"]
    by (simp add: Let_def add.assoc)
qed

lemma bounds_loop_hit:
  "\<not> s + geometry_length g (centerline2d it) < sc \<Longrightarrow>
   get_arc_length_on_bounds_loop g (it # post) sc s sl sr
     = (sl + project_to_left g it (sc - s),
        sr + toArcCoordinates_length g (rightBound2d it)
               (interpolatedPointAtDistance g (centerline2d it) (sc - s)))"
  by (simp add: Let_def project_to_left_def)

lemma centerline_loop_done:
  "get_arc_length_on_centerline_loop g ls (Some b) None s sl sr (Some x) None = (Some x, None)"
  by (cases ls) simp_all

lemma centerline_loop_skip:
  "\<forall>l \<in> set pre. 0 \<le> geometry_length g (leftBound2d l) \<Longrightarrow>
   sl + left_total g pre \<le> b \<Longrightarrow>
   get_arc_length_on_centerline_loop g (pre @ rest) (Some b) None s sl sr None None
     = get_arc_length_on_centerline_loop g rest (Some b) None (s + centerline_total g pre)
         (sl + left_total g pre) (sr + right_total g pre) None None"
proof (induction pre arbitrary: s sl sr)
  case Nil
  then show ?case by simp
next
  case (Cons p ps)
  from Cons.prems have nn: "\<forall>l \<in> set ps. 0 \<le> geometry_length g (leftBound2d l)" by simp
  from Cons.prems have le: "sl + geometry_length g (leftBound2d p) + left_total g ps \<le> b"
    by (simp add: add.assoc)
  with left_total_nonneg [OF nn] have "\<not> sl + geometry_length g (leftBound2d p) > b"
    by linarith
  then show ?case
    using Cons.IH [OF nn le, of "s + geometry_length g (centerline2d p)"
        "sr + geometry_length g (rightBound2d p)"]
    by (simp add: Let_def add.assoc)
qed

lemma centerline_loop_hit:
  "sl + geometry_length g (leftBound2d it) > b \<Longrightarrow>
   get_arc_length_on_centerline_loop g (it # post) (Some b) None s sl sr None None
     = (Some (s + project_to_centerline g it (b - sl)), None)"
  by (simp add: Let_def project_to_centerline_def centerline_loop_done)

lemma round_trip_inside:
  assumes nn: "\<forall>l \<in> set pre. 0 \<le> geometry_length g (centerline2d l) \<and>
                              0 \<le> geometry_length g (leftBound2d l)"
    and s0: "0 \<le> s"
    and before: "pre \<noteq> [] \<longrightarrow> centerline_total g pre < s"
    and upto: "s \<le> centerline_total g pre + geometry_length g (centerline2d it)"
    and l0: "0 \<le> project_to_left g it (s - centerline_total g pre)"
    and l1: "project_to_left g it (s - centerline_total g pre) < geometry_length g (leftBound2d it)"
  shows "fst (get_arc_length_on_bounds g (pre @ it # post) s)
           = left_total g pre + project_to_left g it (s - centerline_total g pre)"
    and "left_round_trip g (pre @ it # post) s
           = Some (centerline_total g pre
                   + project_to_centerline g it
                       (project_to_left g it (s - centerline_total g pre)))"
proof -
  let ?l = "project_to_left g it (s - centerline_total g pre)"
  have nc: "\<forall>l \<in> set pre. 0 \<le> geometry_length g (centerline2d l)"
    and nl: "\<forall>l \<in> set pre. 0 \<le> geometry_length g (leftBound2d l)"
    using nn by simp_all
  have b: "get_arc_length_on_bounds_loop g (pre @ it # post) s 0 0 0
     = get_arc_length_on_bounds_loop g (it # post) s (centerline_total g pre)
         (left_total g pre) (right_total g pre)"
    using bounds_loop_skip [OF nc, of 0 s "it # post" 0 0] before by simp
  from upto have "\<not> centerline_total g pre + geometry_length g (centerline2d it) < s" by simp
  from bounds_loop_hit [OF this] b s0
  show fwd: "fst (get_arc_length_on_bounds g (pre @ it # post) s) = left_total g pre + ?l"
    by (simp add: get_arc_length_on_bounds_def)
  have b0: "0 \<le> left_total g pre + ?l" using left_total_nonneg [OF nl] l0 by simp
  have "get_arc_length_on_centerline_loop g (pre @ it # post) (Some (left_total g pre + ?l)) None
      0 0 0 None None
     = get_arc_length_on_centerline_loop g (it # post) (Some (left_total g pre + ?l)) None
         (centerline_total g pre) (left_total g pre) (right_total g pre) None None"
    using centerline_loop_skip [OF nl, of 0 "left_total g pre + ?l" "it # post" 0 0] l0 by simp
  also have "\<dots> = (Some (centerline_total g pre + project_to_centerline g it ?l), None)"
    using centerline_loop_hit [of "left_total g pre + ?l" "left_total g pre" g it post
        "centerline_total g pre" "right_total g pre"] l1
    by simp
  finally show "left_round_trip g (pre @ it # post) s
           = Some (centerline_total g pre + project_to_centerline g it ?l)"
    using b0 by (simp add: left_round_trip_def fwd get_arc_length_on_centerline_def
        negative_to_zero_def or_else_def)
qed

lemma bounds_loop_range:
  assumes "\<forall>l \<in> set ls. 0 \<le> geometry_length g (leftBound2d l) \<and>
             (\<forall>d. 0 \<le> d \<and> d \<le> geometry_length g (centerline2d l) \<longrightarrow>
                0 \<le> project_to_left g l d \<and>
                project_to_left g l d \<le> geometry_length g (leftBound2d l))"
    and "ls \<noteq> []" and "s \<le> sc" and "sc \<le> s + centerline_total g ls"
  shows "sl \<le> fst (get_arc_length_on_bounds_loop g ls sc s sl sr) \<and>
         fst (get_arc_length_on_bounds_loop g ls sc s sl sr) \<le> sl + left_total g ls"
  using assms
proof (induction ls arbitrary: s sl sr)
  case Nil
  then show ?case by simp
next
  case (Cons it rest)
  let ?cl = "geometry_length g (centerline2d it)"
  let ?ll = "geometry_length g (leftBound2d it)"
  let ?rl = "geometry_length g (rightBound2d it)"
  have ll0: "0 \<le> ?ll" using Cons.prems(1) by simp
  have restok: "\<forall>l \<in> set rest. 0 \<le> geometry_length g (leftBound2d l) \<and>
             (\<forall>d. 0 \<le> d \<and> d \<le> geometry_length g (centerline2d l) \<longrightarrow>
                0 \<le> project_to_left g l d \<and>
                project_to_left g l d \<le> geometry_length g (leftBound2d l))"
    using Cons.prems(1) by simp
  show ?case
  proof (cases "s + ?cl < sc")
    case True
    with Cons.prems(4) have "s + ?cl < s + ?cl + centerline_total g rest" by simp
    then have ne: "rest \<noteq> []" by auto
    have a: "s + ?cl \<le> sc" using True by simp
    have b: "sc \<le> (s + ?cl) + centerline_total g rest" using Cons.prems(4) by simp
    from Cons.IH [OF restok ne a b, of "sl + ?ll" "sr + ?rl"] True ll0
    show ?thesis by (simp add: Let_def)
  next
    case False
    then have d: "0 \<le> sc - s \<and> sc - s \<le> ?cl" using Cons.prems(3) by simp
    with Cons.prems(1) have "0 \<le> project_to_left g it (sc - s) \<and>
        project_to_left g it (sc - s) \<le> ?ll" by simp
    moreover have "0 \<le> left_total g rest"
      using restok by (intro left_total_nonneg) simp
    ultimately show ?thesis using False by (simp add: Let_def project_to_left_def)
  qed
qed

lemma bounds_loop_mono:
  assumes "\<forall>l \<in> set ls. 0 \<le> geometry_length g (leftBound2d l) \<and>
             (\<forall>d. 0 \<le> d \<and> d \<le> geometry_length g (centerline2d l) \<longrightarrow>
                0 \<le> project_to_left g l d \<and>
                project_to_left g l d \<le> geometry_length g (leftBound2d l)) \<and>
             (\<forall>d1 d2. 0 \<le> d1 \<and> d1 \<le> d2 \<and> d2 \<le> geometry_length g (centerline2d l) \<longrightarrow>
                project_to_left g l d1 \<le> project_to_left g l d2)"
    and "s \<le> s1" and "s1 \<le> s2" and "s2 \<le> s + centerline_total g ls"
  shows "fst (get_arc_length_on_bounds_loop g ls s1 s sl sr)
           \<le> fst (get_arc_length_on_bounds_loop g ls s2 s sl sr)"
  using assms
proof (induction ls arbitrary: s sl sr)
  case Nil
  then show ?case by simp
next
  case (Cons it rest)
  let ?cl = "geometry_length g (centerline2d it)"
  let ?ll = "geometry_length g (leftBound2d it)"
  let ?rl = "geometry_length g (rightBound2d it)"
  have restok: "\<forall>l \<in> set rest. 0 \<le> geometry_length g (leftBound2d l) \<and>
             (\<forall>d. 0 \<le> d \<and> d \<le> geometry_length g (centerline2d l) \<longrightarrow>
                0 \<le> project_to_left g l d \<and>
                project_to_left g l d \<le> geometry_length g (leftBound2d l)) \<and>
             (\<forall>d1 d2. 0 \<le> d1 \<and> d1 \<le> d2 \<and> d2 \<le> geometry_length g (centerline2d l) \<longrightarrow>
                project_to_left g l d1 \<le> project_to_left g l d2)"
    using Cons.prems(1) by simp
  have restrange: "\<forall>l \<in> set rest. 0 \<le> geometry_length g (leftBound2d l) \<and>
             (\<forall>d. 0 \<le> d \<and> d \<le> geometry_length g (centerline2d l) \<longrightarrow>
                0 \<le> project_to_left g l d \<and>
                project_to_left g l d \<le> geometry_length g (leftBound2d l))"
    using restok by blast
  show ?case
  proof (cases "s + ?cl < s1")
    case True
    then have t2: "s + ?cl < s2" using Cons.prems(3) by simp
    have a: "s + ?cl \<le> s1" using True by simp
    have b: "s2 \<le> (s + ?cl) + centerline_total g rest" using Cons.prems(4) by simp
    from Cons.IH [OF restok a Cons.prems(3) b, of "sl + ?ll" "sr + ?rl"] True t2
    show ?thesis by (simp add: Let_def)
  next
    case False
    then have d1: "0 \<le> s1 - s \<and> s1 - s \<le> ?cl" using Cons.prems(2) by simp
    show ?thesis
    proof (cases "s + ?cl < s2")
      case True
      with Cons.prems(4) have "s + ?cl < s + ?cl + centerline_total g rest" by simp
      then have ne: "rest \<noteq> []" by auto
      have a: "s + ?cl \<le> s2" using True by simp
      have b: "s2 \<le> (s + ?cl) + centerline_total g rest" using Cons.prems(4) by simp
      from bounds_loop_range [OF restrange ne a b, of "sl + ?ll" "sr + ?rl"]
      have "sl + ?ll \<le> fst (get_arc_length_on_bounds_loop g rest s2 (s + ?cl) (sl + ?ll) (sr + ?rl))"
        by simp
      moreover from d1 Cons.prems(1) have "project_to_left g it (s1 - s) \<le> ?ll" by simp
      ultimately show ?thesis using True False by (simp add: Let_def project_to_left_def)
    next
      case False2: False
      then have "0 \<le> s1 - s \<and> s1 - s \<le> s2 - s \<and> s2 - s \<le> ?cl"
        using d1 Cons.prems(3) by simp
      with Cons.prems(1) have "project_to_left g it (s1 - s) \<le> project_to_left g it (s2 - s)"
        by simp
      with False False2 show ?thesis by (simp add: Let_def project_to_left_def)
    qed
  qed
qed

lemma bounds_mono:
  assumes "\<forall>l \<in> set ls. 0 \<le> geometry_length g (leftBound2d l) \<and>
             (\<forall>d. 0 \<le> d \<and> d \<le> geometry_length g (centerline2d l) \<longrightarrow>
                0 \<le> project_to_left g l d \<and>
                project_to_left g l d \<le> geometry_length g (leftBound2d l)) \<and>
             (\<forall>d1 d2. 0 \<le> d1 \<and> d1 \<le> d2 \<and> d2 \<le> geometry_length g (centerline2d l) \<longrightarrow>
                project_to_left g l d1 \<le> project_to_left g l d2)"
    and "0 \<le> s1" and "s1 \<le> s2" and "s2 \<le> centerline_total g ls"
  shows "fst (get_arc_length_on_bounds g ls s1) \<le> fst (get_arc_length_on_bounds g ls s2)"
  using bounds_loop_mono [OF assms(1), of 0 s1 s2 0 0] assms(2,3,4)
  by (simp add: get_arc_length_on_bounds_def)

lemma bounds_beyond:
  assumes "\<forall>l \<in> set ls. 0 \<le> geometry_length g (centerline2d l)"
    and "0 \<le> s" and "centerline_total g ls < s"
  shows "get_arc_length_on_bounds g ls s = (s, s)"
proof -
  from assms(2) have n: "\<not> s < 0" by simp
  from bounds_loop_skip [OF assms(1), of 0 s "[]" 0 0] assms(3)
  have "get_arc_length_on_bounds_loop g ls s 0 0 0 = (s, s)" by simp
  with n show ?thesis by (simp add: get_arc_length_on_bounds_def)
qed

lemma centerline_loop_miss:
  "\<not> sl + geometry_length g (leftBound2d it) > b \<Longrightarrow>
   get_arc_length_on_centerline_loop g (it # post) (Some b) None s sl sr None None
     = get_arc_length_on_centerline_loop g post (Some b) None
         (s + geometry_length g (centerline2d it)) (sl + geometry_length g (leftBound2d it))
         (sr + geometry_length g (rightBound2d it)) None None"
  by (simp add: Let_def)

lemma centerline_loop_range:
  assumes "\<forall>l \<in> set ls. 0 \<le> geometry_length g (centerline2d l) \<and>
             (\<forall>d. 0 \<le> d \<and> d < geometry_length g (leftBound2d l) \<longrightarrow>
                0 \<le> project_to_centerline g l d \<and>
                project_to_centerline g l d \<le> geometry_length g (centerline2d l))"
    and "sl \<le> b" and "b < sl + left_total g ls"
  shows "\<exists>v. get_arc_length_on_centerline_loop g ls (Some b) None s sl sr None None
               = (Some v, None) \<and> s \<le> v \<and> v \<le> s + centerline_total g ls"
  using assms
proof (induction ls arbitrary: s sl sr)
  case Nil
  then show ?case by simp
next
  case (Cons it rest)
  let ?cl = "geometry_length g (centerline2d it)"
  let ?ll = "geometry_length g (leftBound2d it)"
  let ?rl = "geometry_length g (rightBound2d it)"
  have cl0: "0 \<le> ?cl" using Cons.prems(1) by simp
  have restok: "\<forall>l \<in> set rest. 0 \<le> geometry_length g (centerline2d l) \<and>
             (\<forall>d. 0 \<le> d \<and> d < geometry_length g (leftBound2d l) \<longrightarrow>
                0 \<le> project_to_centerline g l d \<and>
                project_to_centerline g l d \<le> geometry_length g (centerline2d l))"
    using Cons.prems(1) by simp
  have rest0: "0 \<le> centerline_total g rest"
    using restok by (intro centerline_total_nonneg) simp
  show ?case
  proof (cases "sl + ?ll > b")
    case True
    then have "0 \<le> b - sl \<and> b - sl < ?ll" using Cons.prems(2) by simp
    with Cons.prems(1) have "0 \<le> project_to_centerline g it (b - sl) \<and>
        project_to_centerline g it (b - sl) \<le> ?cl" by simp
    with rest0 show ?thesis
      by (simp add: centerline_loop_hit [OF True] del: get_arc_length_on_centerline_loop.simps)
  next
    case False
    then have a: "sl + ?ll \<le> b" by simp
    have b: "b < (sl + ?ll) + left_total g rest" using Cons.prems(3) by simp
    from Cons.IH [OF restok a b, of "s + ?cl" "sr + ?rl"] cl0
    show ?thesis
      by (auto simp: centerline_loop_miss [OF False]
          simp del: get_arc_length_on_centerline_loop.simps)
  qed
qed

lemma centerline_loop_mono:
  assumes "\<forall>l \<in> set ls. 0 \<le> geometry_length g (centerline2d l) \<and>
             (\<forall>d. 0 \<le> d \<and> d < geometry_length g (leftBound2d l) \<longrightarrow>
                0 \<le> project_to_centerline g l d \<and>
                project_to_centerline g l d \<le> geometry_length g (centerline2d l)) \<and>
             (\<forall>d1 d2. 0 \<le> d1 \<and> d1 \<le> d2 \<and> d2 < geometry_length g (leftBound2d l) \<longrightarrow>
                project_to_centerline g l d1 \<le> project_to_centerline g l d2)"
    and "sl \<le> b1" and "b1 \<le> b2" and "b2 < sl + left_total g ls"
  shows "\<exists>v1 v2.
           get_arc_length_on_centerline_loop g ls (Some b1) None s sl sr None None
             = (Some v1, None) \<and>
           get_arc_length_on_centerline_loop g ls (Some b2) None s sl sr None None
             = (Some v2, None) \<and> v1 \<le> v2"
  using assms
proof (induction ls arbitrary: s sl sr)
  case Nil
  then show ?case by simp
next
  case (Cons it rest)
  let ?cl = "geometry_length g (centerline2d it)"
  let ?ll = "geometry_length g (leftBound2d it)"
  let ?rl = "geometry_length g (rightBound2d it)"
  have restok: "\<forall>l \<in> set rest. 0 \<le> geometry_length g (centerline2d l) \<and>
             (\<forall>d. 0 \<le> d \<and> d < geometry_length g (leftBound2d l) \<longrightarrow>
                0 \<le> project_to_centerline g l d \<and>
                project_to_centerline g l d \<le> geometry_length g (centerline2d l)) \<and>
             (\<forall>d1 d2. 0 \<le> d1 \<and> d1 \<le> d2 \<and> d2 < geometry_length g (leftBound2d l) \<longrightarrow>
                project_to_centerline g l d1 \<le> project_to_centerline g l d2)"
    using Cons.prems(1) by simp
  have restrange: "\<forall>l \<in> set rest. 0 \<le> geometry_length g (centerline2d l) \<and>
             (\<forall>d. 0 \<le> d \<and> d < geometry_length g (leftBound2d l) \<longrightarrow>
                0 \<le> project_to_centerline g l d \<and>
                project_to_centerline g l d \<le> geometry_length g (centerline2d l))"
    using restok by blast
  show ?case
  proof (cases "sl + ?ll > b2")
    case True
    then have h1: "sl + ?ll > b1" using Cons.prems(3) by simp
    from True have "0 \<le> b1 - sl \<and> b1 - sl \<le> b2 - sl \<and> b2 - sl < ?ll"
      using Cons.prems(2,3) by simp
    with Cons.prems(1)
    have "project_to_centerline g it (b1 - sl) \<le> project_to_centerline g it (b2 - sl)"
      by simp
    then show ?thesis
      by (simp add: centerline_loop_hit [OF True] centerline_loop_hit [OF h1]
          del: get_arc_length_on_centerline_loop.simps)
  next
    case False
    then have a2: "sl + ?ll \<le> b2" by simp
    have b: "b2 < (sl + ?ll) + left_total g rest" using Cons.prems(4) by simp
    show ?thesis
    proof (cases "sl + ?ll > b1")
      case True
      then have "0 \<le> b1 - sl \<and> b1 - sl < ?ll" using Cons.prems(2) by simp
      with Cons.prems(1) have le: "project_to_centerline g it (b1 - sl) \<le> ?cl" by simp
      from centerline_loop_range [OF restrange a2 b, of "s + ?cl" "sr + ?rl"]
      obtain v2 where v2: "get_arc_length_on_centerline_loop g rest (Some b2) None (s + ?cl)
          (sl + ?ll) (sr + ?rl) None None = (Some v2, None)" "s + ?cl \<le> v2"
        by blast
      with le show ?thesis
        by (simp add: centerline_loop_hit [OF True] centerline_loop_miss [OF False]
            del: get_arc_length_on_centerline_loop.simps)
    next
      case False1: False
      then have a1: "sl + ?ll \<le> b1" by simp
      from Cons.IH [OF restok a1 Cons.prems(3) b, of "s + ?cl" "sr + ?rl"]
      show ?thesis
        by (simp add: centerline_loop_miss [OF False] centerline_loop_miss [OF False1]
            del: get_arc_length_on_centerline_loop.simps)
    qed
  qed
qed

lemma centerline_mono:
  assumes "\<forall>l \<in> set ls. 0 \<le> geometry_length g (centerline2d l) \<and>
             (\<forall>d. 0 \<le> d \<and> d < geometry_length g (leftBound2d l) \<longrightarrow>
                0 \<le> project_to_centerline g l d \<and>
                project_to_centerline g l d \<le> geometry_length g (centerline2d l)) \<and>
             (\<forall>d1 d2. 0 \<le> d1 \<and> d1 \<le> d2 \<and> d2 < geometry_length g (leftBound2d l) \<longrightarrow>
                project_to_centerline g l d1 \<le> project_to_centerline g l d2)"
    and "0 \<le> b1" and "b1 \<le> b2" and "b2 < left_total g ls"
  shows "\<exists>v1 v2. fst (get_arc_length_on_centerline g ls (Some b1) None) = Some v1 \<and>
                 fst (get_arc_length_on_centerline g ls (Some b2) None) = Some v2 \<and> v1 \<le> v2"
proof -
  from assms(2,3) have n: "\<not> b1 < 0" "\<not> b2 < 0" by simp_all
  from centerline_loop_mono [OF assms(1), of 0 b1 b2 0 0] assms(2,3,4)
  obtain v1 v2 where
    "get_arc_length_on_centerline_loop g ls (Some b1) None 0 0 0 None None = (Some v1, None)"
    "get_arc_length_on_centerline_loop g ls (Some b2) None 0 0 0 None None = (Some v2, None)"
    "v1 \<le> v2"
    by auto
  with n show ?thesis
    by (simp add: get_arc_length_on_centerline_def negative_to_zero_def or_else_def)
qed

lemma straight_geometry_fields [simp]:
  "geometry_length straight_geometry (a, b) = \<bar>b - a\<bar>"
  "interpolatedPointAtDistance straight_geometry (a, b) d
     = (if a \<le> b then (if d < 0 then max a (b + d) else min b (a + d))
        else (if d < 0 then min a (b - d) else max b (a - d)))"
  "toArcCoordinates_length straight_geometry (a, b) p
     = (if a \<le> b then max 0 (min (p - a) (b - a)) else max 0 (min (a - p) (a - b)))"
  by (simp_all add: straight_geometry_def)

lemma skewed_lanelet_fields [simp]:
  "centerline2d skewed_lanelet = (- 1, 5 / 2)" "leftBound2d skewed_lanelet = (- 2, 4)"
  "rightBound2d skewed_lanelet = (0, 1)"
  by (simp_all add: skewed_lanelet_def)

lemma regular_lanelet_fields [simp]:
  "centerline2d (regular_lanelet a b) = (a, b)" "leftBound2d (regular_lanelet a b) = (a, b)"
  "rightBound2d (regular_lanelet a b) = (a, b)"
  by (simp_all add: regular_lanelet_def)

lemma short_bound_lanelet_fields [simp]:
  "centerline2d short_bound_lanelet = (- 2, 4)" "leftBound2d short_bound_lanelet = (0, 1)"
  "rightBound2d short_bound_lanelet = (0, 1)"
  by (simp_all add: short_bound_lanelet_def)

lemma reversed_bound_lanelet_fields [simp]:
  "centerline2d reversed_bound_lanelet = (0, 3)" "leftBound2d reversed_bound_lanelet = (3, 0)"
  "rightBound2d reversed_bound_lanelet = (0, 3)"
  by (simp_all add: reversed_bound_lanelet_def)

lemma early_bound_lanelet_fields [simp]:
  "centerline2d early_bound_lanelet = (0, 2)" "leftBound2d early_bound_lanelet = (- 1, 2)"
  "rightBound2d early_bound_lanelet = (0, 2)"
  by (simp_all add: early_bound_lanelet_def)

lemmas arc_length_run_simps =
  get_arc_length_on_bounds_def left_round_trip_def get_arc_length_on_centerline_def
  negative_to_zero_def or_else_def Let_def

text \<open>
  C5, as stated, fails, in each of its parts.

  Beyond the sequence. The single skewed lanelet has a centerline of 3.5 m and a left bound
  of 6 m. The arc length 4 lies beyond the centerline, so \<^verbatim>\<open>get_arc_length_on_bounds\<close>
  passes it through unchanged; read as an arc length on the left bound it lies inside the
  lanelet, and \<^verbatim>\<open>get_arc_length_on_centerline\<close> projects it to 3: the round trip is off by
  1 m. Nor is the projection to the left bound monotonic there: 3.5 is sent to 4.5, the
  larger 4 to 4.

  Inside the sequence, at the end of the bound. The lanelet with the short bounds has a
  centerline of 6 m and a left bound of 1 m. The arc length 3 is projected to 1, the end of
  the left bound; \<^verbatim>\<open>get_arc_length_on_centerline\<close> finds no lanelet whose left bound reaches
  beyond 1 and returns the 1 unchanged.

  Inside the sequence and inside the bound. In the same lanelet the arc length 1 is
  projected to 0, the start of the left bound, and the start of the left bound is projected
  to 2 on the centerline: the projections of the lanelet itself do not undo each other.

  The projection back is not monotonic either: in the same lanelet the arc length 0.5 on
  the left bound is sent to 2.5, the larger 1 to 1.

  Inside the sequence, the projections of a single lanelet need not be monotonic: with a
  left bound that runs against the centerline, 1 is sent to 2 and 2 to 1, in both
  directions.
\<close>

theorem arc_length_round_trip_counterexample:
  "(0::real) \<le> 4 \<and> [skewed_lanelet] \<noteq> [] \<and>
   get_arc_length_on_bounds straight_geometry [skewed_lanelet] 4 = (4, 4) \<and>
   left_round_trip straight_geometry [skewed_lanelet] 4 = Some 3 \<and>
   (7 / 2 :: real) < 4 \<and>
   fst (get_arc_length_on_bounds straight_geometry [skewed_lanelet] (7 / 2)) = 9 / 2 \<and>
   fst (get_arc_length_on_bounds straight_geometry [skewed_lanelet] 4)
     < fst (get_arc_length_on_bounds straight_geometry [skewed_lanelet] (7 / 2)) \<and>
   centerline_total straight_geometry [short_bound_lanelet] = 6 \<and>
   left_total straight_geometry [short_bound_lanelet] = 1 \<and>
   project_to_left straight_geometry short_bound_lanelet 3 = 1 \<and>
   fst (get_arc_length_on_bounds straight_geometry [short_bound_lanelet] 3) = 1 \<and>
   left_round_trip straight_geometry [short_bound_lanelet] 3 = Some 1 \<and>
   project_to_left straight_geometry short_bound_lanelet 1 = 0 \<and>
   project_to_centerline straight_geometry short_bound_lanelet 0 = 2 \<and>
   fst (get_arc_length_on_bounds straight_geometry [short_bound_lanelet] 1) = 0 \<and>
   left_round_trip straight_geometry [short_bound_lanelet] 1 = Some 2 \<and>
   fst (get_arc_length_on_centerline straight_geometry [short_bound_lanelet] (Some (1 / 2)) None)
     = Some (5 / 2) \<and>
   fst (get_arc_length_on_centerline straight_geometry [short_bound_lanelet] (Some 1) None)
     = Some 1 \<and>
   centerline_total straight_geometry [reversed_bound_lanelet] = 3 \<and>
   left_total straight_geometry [reversed_bound_lanelet] = 3 \<and>
   fst (get_arc_length_on_bounds straight_geometry [reversed_bound_lanelet] 1) = 2 \<and>
   fst (get_arc_length_on_bounds straight_geometry [reversed_bound_lanelet] 2) = 1 \<and>
   fst (get_arc_length_on_centerline straight_geometry [reversed_bound_lanelet] (Some 1) None)
     = Some 2 \<and>
   fst (get_arc_length_on_centerline straight_geometry [reversed_bound_lanelet] (Some 2) None)
     = Some 1"
  by (simp add: arc_length_run_simps project_to_left_def project_to_centerline_def)

text \<open>
  C5, amended. The lengths and arc coordinates that lanelet2 returns are taken to be what
  they are on a line string: lengths are not negative, and an arc coordinate lies between 0
  and the length of the line string.

  Round trip. Let \<open>s \<ge> 0\<close> fall inside a lanelet of the sequence: the lanelets before it are
  together shorter than \<open>s\<close>, and with the lanelet itself they reach \<open>s\<close>. If the point of the
  centerline at \<open>s\<close> projects onto the lanelet's left bound before the end of that bound, and
  the two projections of that lanelet undo each other there up to \<open>eps\<close>, then the round
  trip through \<^verbatim>\<open>get_arc_length_on_bounds\<close> and \<^verbatim>\<open>get_arc_length_on_centerline\<close> yields a
  value within \<open>eps\<close> of \<open>s\<close>.

  Monotonicity. If in every lanelet the projection from the centerline to the left bound
  is monotonic, \<^verbatim>\<open>get_arc_length_on_bounds\<close> is monotonic in \<open>s\<close> for arc lengths from 0 to
  the total length of the centerline. If in every lanelet the projection from the left
  bound to the centerline is monotonic, \<^verbatim>\<open>get_arc_length_on_centerline\<close> is monotonic for
  arc lengths from 0 to less than the total length of the left bound.

  Beyond the total length of the centerline \<^verbatim>\<open>get_arc_length_on_bounds\<close> returns the arc
  length unchanged.
\<close>

theorem arc_length_round_trip_inside:
  "((\<forall>l \<in> set pre. 0 \<le> geometry_length g (centerline2d l) \<and>
                     0 \<le> geometry_length g (leftBound2d l)) \<and>
    0 \<le> s \<and> (pre \<noteq> [] \<longrightarrow> centerline_total g pre < s) \<and>
    s \<le> centerline_total g pre + geometry_length g (centerline2d it) \<and>
    0 \<le> project_to_left g it (s - centerline_total g pre) \<and>
    project_to_left g it (s - centerline_total g pre) < geometry_length g (leftBound2d it) \<and>
    \<bar>project_to_centerline g it (project_to_left g it (s - centerline_total g pre))
       - (s - centerline_total g pre)\<bar> \<le> eps \<longrightarrow>
      (\<exists>s'. left_round_trip g (pre @ it # post) s = Some s' \<and> \<bar>s' - s\<bar> \<le> eps)) \<and>
   ((\<forall>l \<in> set ls. 0 \<le> geometry_length g (leftBound2d l) \<and>
        (\<forall>d. 0 \<le> d \<and> d \<le> geometry_length g (centerline2d l) \<longrightarrow>
           0 \<le> project_to_left g l d \<and>
           project_to_left g l d \<le> geometry_length g (leftBound2d l)) \<and>
        (\<forall>d1 d2. 0 \<le> d1 \<and> d1 \<le> d2 \<and> d2 \<le> geometry_length g (centerline2d l) \<longrightarrow>
           project_to_left g l d1 \<le> project_to_left g l d2)) \<and>
    0 \<le> s1 \<and> s1 \<le> s2 \<and> s2 \<le> centerline_total g ls \<longrightarrow>
      fst (get_arc_length_on_bounds g ls s1) \<le> fst (get_arc_length_on_bounds g ls s2)) \<and>
   ((\<forall>l \<in> set ls. 0 \<le> geometry_length g (centerline2d l) \<and>
        (\<forall>d. 0 \<le> d \<and> d < geometry_length g (leftBound2d l) \<longrightarrow>
           0 \<le> project_to_centerline g l d \<and>
           project_to_centerline g l d \<le> geometry_length g (centerline2d l)) \<and>
        (\<forall>d1 d2. 0 \<le> d1 \<and> d1 \<le> d2 \<and> d2 < geometry_length g (leftBound2d l) \<longrightarrow>
           project_to_centerline g l d1 \<le> project_to_centerline g l d2)) \<and>
    0 \<le> b1 \<and> b1 \<le> b2 \<and> b2 < left_total g ls \<longrightarrow>
      (\<exists>v1 v2. fst (get_arc_length_on_centerline g ls (Some b1) None) = Some v1 \<and>
               fst (get_arc_length_on_centerline g ls (Some b2) None) = Some v2 \<and>
               v1 \<le> v2)) \<and>
   ((\<forall>l \<in> set ls. 0 \<le> geometry_length g (centerline2d l)) \<and>
    0 \<le> s \<and> centerline_total g ls < s \<longrightarrow>
      get_arc_length_on_bounds g ls s = (s, s))"
proof (intro conjI impI)
  assume h: "(\<forall>l \<in> set pre. 0 \<le> geometry_length g (centerline2d l) \<and>
                     0 \<le> geometry_length g (leftBound2d l)) \<and>
    0 \<le> s \<and> (pre \<noteq> [] \<longrightarrow> centerline_total g pre < s) \<and>
    s \<le> centerline_total g pre + geometry_length g (centerline2d it) \<and>
    0 \<le> project_to_left g it (s - centerline_total g pre) \<and>
    project_to_left g it (s - centerline_total g pre) < geometry_length g (leftBound2d it) \<and>
    \<bar>project_to_centerline g it (project_to_left g it (s - centerline_total g pre))
       - (s - centerline_total g pre)\<bar> \<le> eps"
  then have "left_round_trip g (pre @ it # post) s
      = Some (centerline_total g pre
              + project_to_centerline g it (project_to_left g it (s - centerline_total g pre)))"
    by (intro round_trip_inside(2)) simp_all
  moreover from h have
    "\<bar>(centerline_total g pre
        + project_to_centerline g it (project_to_left g it (s - centerline_total g pre))) - s\<bar>
       \<le> eps"
    by (simp add: algebra_simps)
  ultimately show "\<exists>s'. left_round_trip g (pre @ it # post) s = Some s' \<and> \<bar>s' - s\<bar> \<le> eps"
    by blast
next
  assume "(\<forall>l \<in> set ls. 0 \<le> geometry_length g (leftBound2d l) \<and>
        (\<forall>d. 0 \<le> d \<and> d \<le> geometry_length g (centerline2d l) \<longrightarrow>
           0 \<le> project_to_left g l d \<and>
           project_to_left g l d \<le> geometry_length g (leftBound2d l)) \<and>
        (\<forall>d1 d2. 0 \<le> d1 \<and> d1 \<le> d2 \<and> d2 \<le> geometry_length g (centerline2d l) \<longrightarrow>
           project_to_left g l d1 \<le> project_to_left g l d2)) \<and>
    0 \<le> s1 \<and> s1 \<le> s2 \<and> s2 \<le> centerline_total g ls"
  then show "fst (get_arc_length_on_bounds g ls s1) \<le> fst (get_arc_length_on_bounds g ls s2)"
    by (intro bounds_mono) simp_all
next
  assume "(\<forall>l \<in> set ls. 0 \<le> geometry_length g (centerline2d l) \<and>
        (\<forall>d. 0 \<le> d \<and> d < geometry_length g (leftBound2d l) \<longrightarrow>
           0 \<le> project_to_centerline g l d \<and>
           project_to_centerline g l d \<le> geometry_length g (centerline2d l)) \<and>
        (\<forall>d1 d2. 0 \<le> d1 \<and> d1 \<le> d2 \<and> d2 < geometry_length g (leftBound2d l) \<longrightarrow>
           project_to_centerline g l d1 \<le> project_to_centerline g l d2)) \<and>
    0 \<le> b1 \<and> b1 \<le> b2 \<and> b2 < left_total g ls"
  then show "\<exists>v1 v2. fst (get_arc_length_on_centerline g ls (Some b1) None) = Some v1 \<and>
               fst (get_arc_length_on_centerline g ls (Some b2) None) = Some v2 \<and>
               v1 \<le> v2"
    by (intro centerline_mono) simp_all
next
  assume "(\<forall>l \<in> set ls. 0 \<le> geometry_length g (centerline2d l)) \<and>
    0 \<le> s \<and> centerline_total g ls < s"
  then show "get_arc_length_on_bounds g ls s = (s, s)"
    by (intro bounds_beyond) simp_all
qed

lemma example_lanelet_projections:
  "0 \<le> d \<Longrightarrow> project_to_left straight_geometry early_bound_lanelet d = min (d + 1) 3"
  "0 \<le> d \<Longrightarrow> project_to_centerline straight_geometry early_bound_lanelet d
                = max 0 (min (d - 1) 2)"
  "0 \<le> d \<Longrightarrow> project_to_left straight_geometry (regular_lanelet 2 5) d = min d 3"
  "0 \<le> d \<Longrightarrow> project_to_centerline straight_geometry (regular_lanelet 2 5) d = min d 3"
  by (auto simp: project_to_left_def project_to_centerline_def)

text \<open>
  The lanelet whose left bound starts 1 m early, followed by a regular lanelet from 2 to 5:
  centerlines of 2 m and 3 m, left bounds of 3 m each. The arc length 3 lies 1 m into the
  second lanelet; it is projected to 4 on the left bound and the round trip restores it
  exactly. The projection to the left bound sends 1 to 2 and 3 to 4, the projection back
  sends 2 to 1 and 4 to 3, and the arc length 6, beyond the centerlines, is returned
  unchanged.
\<close>

theorem arc_length_round_trip_inside_witness:
  "fst (get_arc_length_on_bounds straight_geometry
          [early_bound_lanelet, regular_lanelet 2 5] 3) = 4 \<and>
   left_round_trip straight_geometry [early_bound_lanelet, regular_lanelet 2 5] 3 = Some 3 \<and>
   fst (get_arc_length_on_bounds straight_geometry
          [early_bound_lanelet, regular_lanelet 2 5] 1) = 2 \<and>
   fst (get_arc_length_on_bounds straight_geometry [early_bound_lanelet, regular_lanelet 2 5] 1)
     \<le> fst (get_arc_length_on_bounds straight_geometry
              [early_bound_lanelet, regular_lanelet 2 5] 3) \<and>
   fst (get_arc_length_on_centerline straight_geometry
          [early_bound_lanelet, regular_lanelet 2 5] (Some 2) None) = Some 1 \<and>
   fst (get_arc_length_on_centerline straight_geometry
          [early_bound_lanelet, regular_lanelet 2 5] (Some 4) None) = Some 3 \<and>
   get_arc_length_on_bounds straight_geometry [early_bound_lanelet, regular_lanelet 2 5] 6
     = (6, 6)"
proof -
  let ?ls = "[early_bound_lanelet, regular_lanelet 2 5]"
  have fwd: "\<forall>l \<in> set ?ls.
      0 \<le> geometry_length straight_geometry (leftBound2d l) \<and>
      (\<forall>d. 0 \<le> d \<and> d \<le> geometry_length straight_geometry (centerline2d l) \<longrightarrow>
         0 \<le> project_to_left straight_geometry l d \<and>
         project_to_left straight_geometry l d
           \<le> geometry_length straight_geometry (leftBound2d l)) \<and>
      (\<forall>d1 d2. 0 \<le> d1 \<and> d1 \<le> d2 \<and> d2 \<le> geometry_length straight_geometry (centerline2d l) \<longrightarrow>
         project_to_left straight_geometry l d1 \<le> project_to_left straight_geometry l d2)"
    by (simp add: example_lanelet_projections)
  have bwd: "\<forall>l \<in> set ?ls.
      0 \<le> geometry_length straight_geometry (centerline2d l) \<and>
      (\<forall>d. 0 \<le> d \<and> d < geometry_length straight_geometry (leftBound2d l) \<longrightarrow>
         0 \<le> project_to_centerline straight_geometry l d \<and>
         project_to_centerline straight_geometry l d
           \<le> geometry_length straight_geometry (centerline2d l)) \<and>
      (\<forall>d1 d2. 0 \<le> d1 \<and> d1 \<le> d2 \<and> d2 < geometry_length straight_geometry (leftBound2d l) \<longrightarrow>
         project_to_centerline straight_geometry l d1
           \<le> project_to_centerline straight_geometry l d2)"
    by (auto simp: example_lanelet_projections)
  have e: "fst (get_arc_length_on_bounds straight_geometry ?ls 3) = 4"
    "fst (get_arc_length_on_bounds straight_geometry ?ls 1) = 2"
    "fst (get_arc_length_on_centerline straight_geometry ?ls (Some 2) None) = Some 1"
    "fst (get_arc_length_on_centerline straight_geometry ?ls (Some 4) None) = Some 3"
    by (simp_all add: arc_length_run_simps)
  note t = arc_length_round_trip_inside [where g = straight_geometry and ls = ?ls]
  have rt: "left_round_trip straight_geometry ?ls 3 = Some 3"
    using t [where pre = "[early_bound_lanelet]" and it = "regular_lanelet 2 5"
        and post = "[]" and s = 3 and eps = 0]
    by (simp add: example_lanelet_projections)
  have m1: "fst (get_arc_length_on_bounds straight_geometry ?ls 1)
      \<le> fst (get_arc_length_on_bounds straight_geometry ?ls 3)"
    using t [where ?s1.0 = 1 and ?s2.0 = 3] fwd by simp
  have beyond: "get_arc_length_on_bounds straight_geometry ?ls 6 = (6, 6)"
    using t [where s = 6] by simp
  have "\<exists>v1 v2. fst (get_arc_length_on_centerline straight_geometry ?ls (Some 2) None) = Some v1 \<and>
      fst (get_arc_length_on_centerline straight_geometry ?ls (Some 4) None) = Some v2 \<and>
      v1 \<le> v2"
    using t [where ?b1.0 = 2 and ?b2.0 = 4] bwd by simp
  with e rt m1 beyond show ?thesis by simp
qed

subsection \<open>C6: the stop margin against oncoming traffic when the coasting time is 0\<close>

lemma distance_obs_ego_braking_nonneg: "0 \<le> distance_obs_ego_braking spp v_ego v_obs"
  by (simp add: distance_obs_ego_braking_def)

lemma T_coast_zero_numerator:
  assumes "T_coast spp v_ego so = 0" and "0 < v_ego - velocity so"
  shows "dist_to_collide_on_decimated_traj so - stop_margin_opposing_traffic spp
           - braking_distance spp v_ego
           + distance_obs_ego_braking spp v_ego (velocity so) \<le> 0"
proof -
  let ?n = "dist_to_collide_on_decimated_traj so - stop_margin_opposing_traffic spp
             - braking_distance spp v_ego
             + distance_obs_ego_braking spp v_ego (velocity so)"
  from assms(1) have "?n / (v_ego - velocity so) \<le> 0"
    unfolding T_coast_def by linarith
  with assms(2) show ?thesis
    by (simp add: divide_le_0_iff)
qed

text \<open>
  C6, as stated, fails: the ego stands still, an obstacle 8 m ahead approaches at 5 m/s, the
  margin against opposing traffic is 10 m and the plain default margin is 2 m. The coasting
  time clamps to 0 and the computed margin is 8 m, larger than the plain default margin.
\<close>

theorem default_stop_margin_oncoming_counterexample:
  "velocity (stop_obstacle_example ''0a'' CAR (- 5) 8 None)
     < max_negative_velocity stop_planning_param_example \<and>
   T_coast stop_planning_param_example 0 (stop_obstacle_example ''0a'' CAR (- 5) 8 None) = 0 \<and>
   default_stop_margin stop_planning_param_example (plan_env_example 0)
     (stop_obstacle_example ''0a'' CAR (- 5) 8 None) 8 = 8 \<and>
   \<not> default_stop_margin stop_planning_param_example (plan_env_example 0)
       (stop_obstacle_example ''0a'' CAR (- 5) 8 None) 8
     \<le> stop_margin stop_planning_param_example"
  by (simp add: default_stop_margin_def T_coast_def braking_distance_def
      distance_obs_ego_braking_def stop_planning_param_example_def plan_env_example_def
      stop_obstacle_example_def)

text \<open>
  C6, amended. For an obstacle whose longitudinal velocity is below the oncoming threshold
  and which the ego closes in on (\<open>v_ego - v_obs\<close> above the numerical threshold of the
  source, with a non-zero effective deceleration), whenever the coasting time clamps to 0
  the default stop margin is the bumper-to-bumper distance minus the ego's braking distance,
  and it is at most the configured stop margin against opposing traffic.
\<close>

theorem default_stop_margin_oncoming_bound:
  assumes "velocity so < max_negative_velocity spp"
    and "1 / 1000000 < ego_velocity env - velocity so"
    and "effective_deceleration_opposing_traffic spp \<noteq> 0"
    and "T_coast spp (ego_velocity env) so = 0"
  shows "default_stop_margin spp env so dist_to_collide_on_ref_traj
           = dist_to_collide_on_decimated_traj so - braking_distance spp (ego_velocity env) \<and>
         default_stop_margin spp env so dist_to_collide_on_ref_traj
           \<le> stop_margin_opposing_traffic spp"
proof -
  from assms(2) have pos: "0 < ego_velocity env - velocity so" by linarith
  from assms(2) have big: "\<not> \<bar>ego_velocity env - velocity so\<bar> \<le> 1 / 1000000" by linarith
  have eq: "default_stop_margin spp env so dist_to_collide_on_ref_traj
      = dist_to_collide_on_decimated_traj so - braking_distance spp (ego_velocity env)"
    using assms(1,4) big by (simp add: default_stop_margin_def Let_def)
  have "dist_to_collide_on_decimated_traj so - braking_distance spp (ego_velocity env)
      \<le> stop_margin_opposing_traffic spp"
    using T_coast_zero_numerator [OF assms(4) pos]
      distance_obs_ego_braking_nonneg [of spp "ego_velocity env" "velocity so"]
    by linarith
  with eq show ?thesis by simp
qed

theorem default_stop_margin_oncoming_bound_witness:
  "default_stop_margin stop_planning_param_example (plan_env_example 1)
     (stop_obstacle_example ''0a'' CAR (- 5) 4 None) 4 = 7 / 2 \<and>
   default_stop_margin stop_planning_param_example (plan_env_example 1)
     (stop_obstacle_example ''0a'' CAR (- 5) 4 None) 4
     \<le> stop_margin_opposing_traffic stop_planning_param_example \<and>
   T_coast stop_planning_param_example 1 (stop_obstacle_example ''0a'' CAR (- 5) 4 None) = 0"
proof -
  have t: "T_coast stop_planning_param_example (ego_velocity (plan_env_example 1))
             (stop_obstacle_example ''0a'' CAR (- 5) 4 None) = 0"
    by (simp add: T_coast_def braking_distance_def distance_obs_ego_braking_def
        stop_planning_param_example_def plan_env_example_def stop_obstacle_example_def)
  have v: "velocity (stop_obstacle_example ''0a'' CAR (- 5) 4 None)
             < max_negative_velocity stop_planning_param_example"
    by (simp add: stop_planning_param_example_def stop_obstacle_example_def)
  have r: "1 / 1000000 < ego_velocity (plan_env_example 1)
             - velocity (stop_obstacle_example ''0a'' CAR (- 5) 4 None)"
    by (simp add: plan_env_example_def stop_obstacle_example_def)
  have a: "effective_deceleration_opposing_traffic stop_planning_param_example \<noteq> 0"
    by (simp add: stop_planning_param_example_def)
  from default_stop_margin_oncoming_bound [OF v r a t, of 4] t show ?thesis
    by (simp add: braking_distance_def stop_planning_param_example_def plan_env_example_def
        stop_obstacle_example_def)
qed

subsection \<open>C7: sudden-stop suppression in \<^verbatim>\<open>calc_candidate_zero_vel_dist\<close>\<close>





end
